theory Spec2Isabelle
  imports Complex_Main
begin

section \<open>Conventions of the embedding\<close>

text \<open>
  The module \<^verbatim>\<open>diffcalc/hkl/you/calcyou.py\<close> computes with Python floats. The embedding
  reads every float as a real number (\<^typ>\<open>real\<close>) and every function of the \<^verbatim>\<open>math\<close>
  module as the real function of the same name; the one float that is not a real number and
  that the module produces on purpose, \<^verbatim>\<open>float('Nan')\<close>, is a value of its own (\<open>NaN\<close>).
  Exceptions are values of the type \<open>error\<close>, and a function that can raise returns
  \<open>error + 'a\<close>. Generators are the lists of the values they yield, in order; \<^verbatim>\<open>print\<close> and
  \<^verbatim>\<open>logger\<close> calls have no effect on any returned value and are left out.
\<close>

datatype error =
    DiffcalcException string
  | NoSolutionException string
  | Exception string
  | ValueError string
  | AssertionError string
  | RuntimeError string
  | TypeError
  | KeyError string
  | LinAlgError
  | IndexError
  | ZeroDivisionError
  | UnboundLocalError string

datatype pyfloat = Float real | NaN

section \<open>Module-level helpers\<close>

definition SMALL :: real where
  "SMALL = 1 / 10 ^ 8"

definition TORAD :: real where
  "TORAD = pi / 180"

definition TODEG :: real where
  "TODEG = 180 / pi"

definition is_small :: "real \<Rightarrow> bool" where
  "is_small x \<longleftrightarrow> \<bar>x\<bar> < SMALL"

definition ne :: "real \<Rightarrow> real \<Rightarrow> bool" where
  "ne a b \<longleftrightarrow> is_small (a - b)"

text \<open>\<^verbatim>\<open>sequence_ne\<close> walks \<^verbatim>\<open>zip(a_seq, b_seq)\<close> and answers \<open>False\<close> at the first pair that
  is not nearly equal.\<close>

fun sequence_ne :: "real list \<Rightarrow> real list \<Rightarrow> bool" where
  "sequence_ne (a # as) (b # bs) = (if \<not> ne a b then False else sequence_ne as bs)"
| "sequence_ne _ _ = True"

definition sign :: "real \<Rightarrow> real" where
  "sign x = (if x > 0 then 1 else - 1)"

definition cut_at_minus_pi :: "real \<Rightarrow> real" where
  "cut_at_minus_pi v =
     (if v < (- pi - SMALL) then v + 2 * pi
      else if v \<ge> pi + SMALL then v - 2 * pi
      else v)"

section \<open>Enumeration of equivalent angle values\<close>

definition generate_transformed_values :: "real \<Rightarrow> bool \<Rightarrow> real list" where
  "generate_transformed_values v constrained =
     (if constrained then [v]
      else if is_small v then [0, pi]
      else if is_small (v - pi / 2) \<or> is_small (v + pi / 2) then [pi / 2, - pi / 2]
      else [v, - v, pi + v, pi - v])"

section \<open>Positions and constraints\<close>

text \<open>\<^verbatim>\<open>YouPosition(mu, delta, nu, eta, chi, phi)\<close>: six angles in radians.\<close>

record position =
  mu :: real
  delta :: real
  nu :: real
  eta :: real
  chi :: real
  phi :: real

definition YouPosition :: "real \<Rightarrow> real \<Rightarrow> real \<Rightarrow> real \<Rightarrow> real \<Rightarrow> real \<Rightarrow> position" where
  "YouPosition m d n e c p = \<lparr>mu = m, delta = d, nu = n, eta = e, chi = c, phi = p\<rparr>"

text \<open>
  The constraint manager is read through four dictionaries from constraint name to value:
  \<^verbatim>\<open>constraints.reference\<close>, \<^verbatim>\<open>.detector\<close>, \<^verbatim>\<open>.naz\<close> and \<^verbatim>\<open>.sample\<close>. A dictionary is the
  list of its items; it is true in a condition when it is not empty.
\<close>

record constraints =
  reference :: "(string \<times> real) list"
  detector :: "(string \<times> real) list"
  naz :: "(string \<times> real) list"
  sample :: "(string \<times> real) list"

definition in_dict :: "string \<Rightarrow> (string \<times> real) list \<Rightarrow> bool" where
  "in_dict k d \<longleftrightarrow> k \<in> fst ` set d"

section \<open>Functions of the math module, vectors and matrices\<close>

text \<open>
  \<^verbatim>\<open>math.asin\<close> and \<^verbatim>\<open>math.acos\<close> raise \<^verbatim>\<open>ValueError\<close> outside \<open>[-1, 1]\<close>; a float division
  raises \<^verbatim>\<open>ZeroDivisionError\<close> on a zero divisor. \<^verbatim>\<open>math.atan2(y, x)\<close> is the angle of the
  point \<open>(x, y)\<close> in \<open>(-\<pi>, \<pi>]\<close>, and \<open>0\<close> at the origin. \<^verbatim>\<open>math.tan\<close> is the real tangent
  (no float is a point where the cosine vanishes).
\<close>

definition ebind :: "error + 'a \<Rightarrow> ('a \<Rightarrow> error + 'b) \<Rightarrow> error + 'b" where
  "ebind m f = (case m of Inl e \<Rightarrow> Inl e | Inr x \<Rightarrow> f x)"

definition asin_py :: "real \<Rightarrow> error + real" where
  "asin_py x = (if - 1 \<le> x \<and> x \<le> 1 then Inr (arcsin x) else Inl (ValueError ''math domain error''))"

definition acos_py :: "real \<Rightarrow> error + real" where
  "acos_py x = (if - 1 \<le> x \<and> x \<le> 1 then Inr (arccos x) else Inl (ValueError ''math domain error''))"

definition div_py :: "real \<Rightarrow> real \<Rightarrow> error + real" where
  "div_py a b = (if b = 0 then Inl ZeroDivisionError else Inr (a / b))"

definition atan2 :: "real \<Rightarrow> real \<Rightarrow> real" where
  "atan2 y x =
     (if x > 0 then arctan (y / x)
      else if x < 0 then (if y \<ge> 0 then arctan (y / x) + pi else arctan (y / x) - pi)
      else if y > 0 then pi / 2
      else if y < 0 then - (pi / 2)
      else 0)"

type_synonym vec3 = "real \<times> real \<times> real"

text \<open>A \<open>3 \<times> 3\<close> numpy matrix, as its three rows.\<close>

type_synonym mat3 = "vec3 \<times> vec3 \<times> vec3"

definition I3 :: mat3 where
  "I3 = ((1, 0, 0), (0, 1, 0), (0, 0, 1))"

fun mat_vec :: "mat3 \<Rightarrow> vec3 \<Rightarrow> vec3" where
  "mat_vec ((a00, a01, a02), (a10, a11, a12), (a20, a21, a22)) (x, y, z) =
     (a00 * x + a01 * y + a02 * z,
      a10 * x + a11 * y + a12 * z,
      a20 * x + a21 * y + a22 * z)"

fun mat_T :: "mat3 \<Rightarrow> mat3" where
  "mat_T ((a00, a01, a02), (a10, a11, a12), (a20, a21, a22)) =
     ((a00, a10, a20), (a01, a11, a21), (a02, a12, a22))"

fun mat_mul :: "mat3 \<Rightarrow> mat3 \<Rightarrow> mat3" where
  "mat_mul A ((b00, b01, b02), (b10, b11, b12), (b20, b21, b22)) =
     mat_T (mat_vec A (b00, b10, b20), mat_vec A (b01, b11, b21), mat_vec A (b02, b12, b22))"

fun mat_sub :: "mat3 \<Rightarrow> mat3 \<Rightarrow> mat3" where
  "mat_sub ((a00, a01, a02), (a10, a11, a12), (a20, a21, a22))
           ((b00, b01, b02), (b10, b11, b12), (b20, b21, b22)) =
     ((a00 - b00, a01 - b01, a02 - b02),
      (a10 - b10, a11 - b11, a12 - b12),
      (a20 - b20, a21 - b21, a22 - b22))"

fun det3 :: "mat3 \<Rightarrow> real" where
  "det3 ((a00, a01, a02), (a10, a11, a12), (a20, a21, a22)) =
     a00 * (a11 * a22 - a12 * a21) - a01 * (a10 * a22 - a12 * a20)
       + a02 * (a10 * a21 - a11 * a20)"

text \<open>The attribute \<^verbatim>\<open>.I\<close> of a square numpy matrix: its inverse, \<^verbatim>\<open>LinAlgError\<close> when the
  matrix is singular.\<close>

fun mat_I :: "mat3 \<Rightarrow> error + mat3" where
  "mat_I ((a00, a01, a02), (a10, a11, a12), (a20, a21, a22)) =
     (let d = det3 ((a00, a01, a02), (a10, a11, a12), (a20, a21, a22))
      in if d = 0 then Inl LinAlgError
         else Inr (((a11 * a22 - a12 * a21) / d, (a02 * a21 - a01 * a22) / d, (a01 * a12 - a02 * a11) / d),
                   ((a12 * a20 - a10 * a22) / d, (a00 * a22 - a02 * a20) / d, (a02 * a10 - a00 * a12) / d),
                   ((a10 * a21 - a11 * a20) / d, (a01 * a20 - a00 * a21) / d, (a00 * a11 - a01 * a10) / d)))"

fun vec_scale :: "vec3 \<Rightarrow> real \<Rightarrow> vec3" where
  "vec_scale (x, y, z) c = (x * c, y * c, z * c)"

text \<open>A numpy matrix times a number.\<close>

fun mat_scale :: "mat3 \<Rightarrow> real \<Rightarrow> mat3" where
  "mat_scale (r0, r1, r2) c = (vec_scale r0 c, vec_scale r1 c, vec_scale r2 c)"

text \<open>\<^verbatim>\<open>numpy.linalg.norm\<close> of a column vector.\<close>

fun norm3 :: "vec3 \<Rightarrow> real" where
  "norm3 (x, y, z) = sqrt (x\<^sup>2 + y\<^sup>2 + z\<^sup>2)"

section \<open>Collaborators outside the module\<close>

text \<open>
  \<^verbatim>\<open>calcyou.py\<close> imports \<^verbatim>\<open>createYouMatrices\<close>, \<^verbatim>\<open>calcMU\<close>, \<^verbatim>\<open>calcPHI\<close>, \<^verbatim>\<open>calcCHI\<close> from
  \<^verbatim>\<open>diffcalc.hkl.you.matrices\<close> and \<^verbatim>\<open>angle_between_vectors\<close>, \<^verbatim>\<open>cross3\<close>, \<^verbatim>\<open>z_rotation\<close>,
  \<^verbatim>\<open>x_rotation\<close> from \<^verbatim>\<open>diffcalc.utils\<close>. The functions of \<^verbatim>\<open>calcyou.py\<close> take them as a
  parameter, the record \<open>externals\<close>, and the hardware object as the record \<open>hardware\<close>;
  every theorem below holds for whatever these functions are, unless it says otherwise.
\<close>

record externals =
  createYouMatrices :: "real \<Rightarrow> real \<Rightarrow> real \<Rightarrow> real \<Rightarrow> real \<Rightarrow> real
                         \<Rightarrow> mat3 \<times> mat3 \<times> mat3 \<times> mat3 \<times> mat3 \<times> mat3"
  calcMU :: "real \<Rightarrow> mat3"
  calcPHI :: "real \<Rightarrow> mat3"
  calcCHI :: "real \<Rightarrow> mat3"
  angle_between_vectors :: "vec3 \<Rightarrow> vec3 \<Rightarrow> real"
  cross3 :: "vec3 \<Rightarrow> vec3 \<Rightarrow> vec3"
  z_rotation :: "real \<Rightarrow> mat3"
  x_rotation :: "real \<Rightarrow> mat3"

record hardware =
  isAxisValueWithinLimits :: "string \<Rightarrow> real \<Rightarrow> bool"
  cutAngle :: "string \<Rightarrow> real \<Rightarrow> real"

text \<open>
  Modelled from the spec: \<^verbatim>\<open>bound\<close> of \<^verbatim>\<open>diffcalc.utils\<close> is not among the sources. It is
  taken as the clamp to \<open>[-1, 1]\<close>: the arguments of asin and acos are "clamped to
  \<open>[-1, 1]\<close> by bound".
\<close>

definition bound :: "real \<Rightarrow> real" where
  "bound x = (if x > 1 then 1 else if x < - 1 then - 1 else x)"

text \<open>The reference vector \<^verbatim>\<open>self.n_phi\<close> set by the constructor.\<close>

definition n_phi :: vec3 where
  "n_phi = (0, 0, 1)"

section \<open>Forward kinematics\<close>

definition youAnglesToHkl :: "externals \<Rightarrow> position \<Rightarrow> real \<Rightarrow> mat3 \<Rightarrow> error + vec3" where
  "youAnglesToHkl ext pos wavelength UBmatrix =
     (case createYouMatrices ext (mu pos) (delta pos) (nu pos) (eta pos) (chi pos) (phi pos) of
        (MU, DELTA, NU, ETA, CHI, PHI) \<Rightarrow>
          ebind (div_py (2 * pi) wavelength) (\<lambda>k.
          let q_lab = mat_vec (mat_sub (mat_mul NU DELTA) I3) (0, k, 0) in
          ebind (mat_I UBmatrix) (\<lambda>UBi.
          ebind (mat_I PHI) (\<lambda>PHIi.
          ebind (mat_I CHI) (\<lambda>CHIi.
          ebind (mat_I ETA) (\<lambda>ETAi.
          ebind (mat_I MU) (\<lambda>MUi.
          Inr (mat_vec (mat_mul (mat_mul (mat_mul (mat_mul UBi PHIi) CHIi) ETAi) MUi) q_lab))))))))"

definition theta_and_qaz_from_detector_angles :: "real \<Rightarrow> real \<Rightarrow> error + (real \<times> real)" where
  "theta_and_qaz_from_detector_angles delta' nu' =
     (let cos_2theta = cos delta' * cos nu' in
      ebind (acos_py (bound cos_2theta)) (\<lambda>a.
      let theta = a / 2;
          qaz = atan2 (tan delta') (sin nu')
      in Inr (theta, qaz)))"

text \<open>The dictionary of virtual angles, as the list of its items in the order of the
  source's literal.\<close>

type_synonym virtual_angles = "(string \<times> pyfloat) list"

definition anglesToVirtualAngles :: "externals \<Rightarrow> position \<Rightarrow> real \<Rightarrow> error + virtual_angles" where
  "anglesToVirtualAngles ext pos wavelength =
     ebind (theta_and_qaz_from_detector_angles (delta pos) (nu pos)) (\<lambda>(theta, qaz).
     case createYouMatrices ext (mu pos) (delta pos) (nu pos) (eta pos) (chi pos) (phi pos) of
       (MU, _, _, ETA, CHI, PHI) \<Rightarrow>
         (let Z = mat_mul (mat_mul (mat_mul MU ETA) CHI) PHI in
          case mat_vec Z n_phi of (n0, n1, n2) \<Rightarrow>
            ebind (asin_py (bound (- n1))) (\<lambda>alpha.
            let naz = atan2 n0 n2;
                cos_tau = cos alpha * cos theta * cos (naz - qaz) + sin alpha * sin theta
            in
            ebind (acos_py (bound cos_tau)) (\<lambda>tau.
            let sin_beta = 2 * sin theta * cos tau - sin alpha in
            ebind (asin_py (bound sin_beta)) (\<lambda>beta.
            let sin_tau = sin tau;
                cos_theta = cos theta
            in
            ebind (if sin_tau = 0 then Inr NaN
                   else if cos_theta = 0 then Inr NaN
                   else ebind (div_py (cos tau * sin theta - sin alpha) (sin_tau * cos_theta))
                          (\<lambda>cos_psi. ebind (acos_py (bound cos_psi)) (\<lambda>psi. Inr (Float psi))))
              (\<lambda>psi.
            Inr [(''theta'', Float theta), (''qaz'', Float qaz), (''alpha'', Float alpha),
                 (''naz'', Float naz), (''tau'', Float tau), (''psi'', psi),
                 (''beta'', Float beta)]))))))"

section \<open>Reference stage of the inverse solver\<close>

definition calc_remaining_reference_angles ::
    "string \<Rightarrow> real \<Rightarrow> real \<Rightarrow> real \<Rightarrow> error + (real \<times> real \<times> real)" where
  "calc_remaining_reference_angles name v theta tau =
     (if sin tau = 0 then
        Inl (DiffcalcException ''no unique azimuth (psi): Q and the reference vector n are parallel'')
      else if cos theta = 0 then
        Inl (DiffcalcException ''no unique azimuth (psi): Q and the xray beam are parallel'')
      else
        ebind
          (if name = ''psi'' then
             (let psi = v;
                  sin_alpha = cos tau * sin theta - cos theta * sin tau * cos psi
              in if \<bar>sin_alpha\<bar> > 1 + SMALL then
                   Inl (DiffcalcException ''No reflection can be reached where psi'')
                 else
                   ebind (asin_py (bound sin_alpha)) (\<lambda>alpha.
                   let sin_beta = cos tau * sin theta + cos theta * sin tau * cos psi
                   in if \<bar>sin_beta\<bar> > 1 + SMALL then
                        Inl (DiffcalcException ''No reflection can be reached where psi'')
                      else
                        ebind (asin_py (bound sin_beta)) (\<lambda>beta.
                        Inr (Some psi, alpha, beta))))
           else if name = ''a_eq_b'' then
             ebind (asin_py (bound (cos tau * sin theta))) (\<lambda>a. Inr (None, a, a))
           else if name = ''alpha'' then
             (let alpha = v;
                  sin_beta = 2 * sin theta * cos tau - sin alpha
              in ebind (asin_py sin_beta) (\<lambda>beta. Inr (None, alpha, beta)))
           else if name = ''beta'' then
             (let beta = v;
                  sin_alpha = 2 * sin theta * cos tau - sin beta
              in if \<bar>sin_alpha\<bar> > 1 + SMALL then
                   Inl (DiffcalcException ''No reflection can be reached where beta'')
                 else ebind (asin_py sin_alpha) (\<lambda>alpha. Inr (None, alpha, beta)))
           else Inl (UnboundLocalError ''alpha''))
          (\<lambda>(psi_set, alpha, beta).
             case psi_set of
               Some psi \<Rightarrow> Inr (psi, alpha, beta)
             | None \<Rightarrow>
                 ebind (div_py (cos tau * sin theta - sin alpha) (sin tau * cos theta)) (\<lambda>cos_psi.
                 ebind (acos_py (bound cos_psi)) (\<lambda>psi.
                 Inr (psi, alpha, beta)))))"

section \<open>Cleanup of degenerate positions\<close>

definition tidy_degenerate_solutions :: "position \<Rightarrow> constraints \<Rightarrow> position" where
  "tidy_degenerate_solutions pos cons =
     (let detector_like_constraint = (detector cons \<noteq> [] \<or> naz cons \<noteq> []);
          nu_constrained_to_0 = (is_small (nu pos) \<and> detector_like_constraint);
          mu_constrained_to_0 = (is_small (mu pos) \<and> in_dict ''mu'' (sample cons));
          delta_constrained_to_0 = (is_small (delta pos) \<and> detector_like_constraint);
          eta_constrained_to_0 = (is_small (eta pos) \<and> in_dict ''eta'' (sample cons))
      in if nu_constrained_to_0 \<and> mu_constrained_to_0 then
           (if is_small (chi pos) then
              (let desired_eta = delta pos / 2;
                   eta_diff = desired_eta - eta pos
               in pos\<lparr>eta := eta pos + eta_diff, phi := phi pos - eta_diff\<rparr>)
            else pos)
         else if delta_constrained_to_0 \<and> eta_constrained_to_0 then
           (if is_small (chi pos - pi / 2) then
              (let desired_mu = nu pos / 2;
                   mu_diff = desired_mu - mu pos
               in pos\<lparr>mu := mu pos + mu_diff, phi := phi pos + mu_diff\<rparr>)
            else pos)
         else pos)"

section \<open>Exploring the solution space\<close>

text \<open>
  \<^verbatim>\<open>_generate_possible_solutions\<close> keeps, for each axis, the transformed values that the
  hardware accepts, and folds the lists into their cross product with \<^verbatim>\<open>reduce(expand, ...)\<close>.
  A tuple is the list of its components. \<^verbatim>\<open>reduce\<close> without an initial value raises
  \<^verbatim>\<open>TypeError\<close> on an empty list and starts from the first list otherwise, whose floats
  \<^verbatim>\<open>expand\<close> wraps into one-element tuples.
\<close>

definition within_limits :: "hardware \<Rightarrow> string \<Rightarrow> real \<Rightarrow> bool" where
  "within_limits hw name transformed_value \<longleftrightarrow>
     isAxisValueWithinLimits hw name (cutAngle hw name (transformed_value * TODEG))"

definition expand :: "real list list \<Rightarrow> real list \<Rightarrow> real list list" where
  "expand tuples_so_far b = concat (map (\<lambda>tuple_so_far. map (\<lambda>bb. tuple_so_far @ [bb]) b) tuples_so_far)"

definition generate_possible_solutions ::
    "hardware \<Rightarrow> real list \<Rightarrow> string list \<Rightarrow> string list \<Rightarrow> error + real list list" where
  "generate_possible_solutions hw vals names constrained_names =
     (let transformed_values =
            map (\<lambda>(v, name).
                   map cut_at_minus_pi
                     (filter (within_limits hw name)
                        (generate_transformed_values v (name \<in> set constrained_names))))
                (zip vals names)
      in case transformed_values of
           [] \<Rightarrow> Inl TypeError
         | b # bs \<Rightarrow> Inr (foldl expand (map (\<lambda>v. [v]) b) bs))"

text \<open>The loops \<^verbatim>\<open>for delta, nu in ...\<close> and \<^verbatim>\<open>for mu, eta, chi, phi in ...\<close> unpack each
  tuple, which raises \<^verbatim>\<open>ValueError\<close> on a tuple of another length.\<close>

fun unpack2 :: "real list list \<Rightarrow> error + (real \<times> real) list" where
  "unpack2 [] = Inr []"
| "unpack2 ([a, b] # ts) = ebind (unpack2 ts) (\<lambda>r. Inr ((a, b) # r))"
| "unpack2 (_ # ts) = Inl (ValueError ''unpack'')"

fun unpack4 :: "real list list \<Rightarrow> error + (real \<times> real \<times> real \<times> real) list" where
  "unpack4 [] = Inr []"
| "unpack4 ([a, b, c, d] # ts) = ebind (unpack4 ts) (\<lambda>r. Inr ((a, b, c, d) # r))"
| "unpack4 (_ # ts) = Inl (ValueError ''unpack'')"

fun filter_detector_solutions_by_theta_and_qaz ::
    "(real \<times> real) list \<Rightarrow> real \<Rightarrow> real \<Rightarrow> error + (real \<times> real) list" where
  "filter_detector_solutions_by_theta_and_qaz [] required_theta required_qaz = Inr []"
| "filter_detector_solutions_by_theta_and_qaz ((d, n) # ps) required_theta required_qaz =
     ebind (theta_and_qaz_from_detector_angles d n) (\<lambda>(theta, qaz).
     ebind (filter_detector_solutions_by_theta_and_qaz ps required_theta required_qaz) (\<lambda>rest.
     Inr (if ne theta required_theta \<and> ne qaz required_qaz then (d, n) # rest else rest)))"

definition choose_detector_angles :: "(real \<times> real) list \<Rightarrow> error + (real \<times> real)" where
  "choose_detector_angles delta_nu_pairs =
     (if length delta_nu_pairs > 1 then
        Inl (Exception ''Multiple detector solutions were found'')
      else if length delta_nu_pairs = 0 then
        Inl (NoSolutionException ''No detector solutions were found'')
      else Inr (delta_nu_pairs ! 0))"

text \<open>\<^verbatim>\<open>min(iterable, key=...)\<close> keeps the first of the smallest elements; \<^verbatim>\<open>xs[i]\<close> raises
  \<^verbatim>\<open>IndexError\<close> out of range; \<^verbatim>\<open>xs.index(v)\<close> is the first position of \<open>v\<close>.\<close>

fun min_by :: "('a \<Rightarrow> real) \<Rightarrow> 'a \<Rightarrow> 'a list \<Rightarrow> 'a" where
  "min_by key best [] = best"
| "min_by key best (x # xs) = min_by key (if key x < key best then x else best) xs"

definition nth_py :: "'a list \<Rightarrow> nat \<Rightarrow> error + 'a" where
  "nth_py xs i = (if i < length xs then Inr (xs ! i) else Inl IndexError)"

fun index_py :: "real list \<Rightarrow> real \<Rightarrow> error + nat" where
  "index_py [] v = Inl (ValueError ''not in list'')"
| "index_py (x # xs) v = (if x = v then Inr 0 else ebind (index_py xs v) (\<lambda>i. Inr (Suc i)))"

fun thetas_of :: "(real \<times> real) list \<Rightarrow> error + real list" where
  "thetas_of [] = Inr []"
| "thetas_of ((d, n) # ps) =
     ebind (theta_and_qaz_from_detector_angles d n) (\<lambda>(theta, qaz).
     ebind (thetas_of ps) (\<lambda>r. Inr (theta # r)))"

definition close_to_90 :: "real \<times> real \<Rightarrow> bool" where
  "close_to_90 p \<longleftrightarrow> \<bar>fst p - pi / 2\<bar> < 1 / 100 \<and> \<bar>fst p - pi / 2\<bar> \<noteq> 0"

text \<open>The block of \<^verbatim>\<open>_generate_final_detector_angles\<close> that, of several pairs with delta
  close to 90 degrees, keeps the one whose theta is closest to the required theta.\<close>

definition choose_closest_to_90 :: "real \<Rightarrow> (real \<times> real) list \<Rightarrow> error + (real \<times> real) list" where
  "choose_closest_to_90 theta delta_nu_pairs =
     (if length delta_nu_pairs > 1 then
        (let pairs_close_to_90 = filter close_to_90 delta_nu_pairs;
             other_pairs = filter (\<lambda>p. \<not> close_to_90 p) delta_nu_pairs
         in if pairs_close_to_90 \<noteq> [] then
              ebind (thetas_of pairs_close_to_90) (\<lambda>thetas.
              let th_errs = map (\<lambda>t. \<bar>t - theta\<bar>) thetas in
              case enumerate 0 th_errs of
                [] \<Rightarrow> Inl (ValueError ''min() arg is an empty sequence'')
              | e # es \<Rightarrow>
                  (let closest_index = fst (min_by snd e es) in
                   ebind (nth_py pairs_close_to_90 closest_index) (\<lambda>closest.
                   Inr (other_pairs @ [closest]))))
            else Inr delta_nu_pairs)
      else Inr delta_nu_pairs)"

definition generate_final_detector_angles ::
    "hardware \<Rightarrow> constraints \<Rightarrow> real \<Rightarrow> real \<Rightarrow> real \<Rightarrow> real \<Rightarrow> string
       \<Rightarrow> error + (real \<times> real)" where
  "generate_final_detector_angles hw cons initial_delta initial_nu qaz theta det_constraint_name =
     (if ne initial_delta (pi / 2) \<and> \<not> in_dict ''nu'' (detector cons) then
        Inr (initial_delta, 0)
      else
        ebind (generate_possible_solutions hw [initial_delta, initial_nu] [''delta'', ''nu'']
                 [det_constraint_name]) (\<lambda>possible.
        ebind (unpack2 possible) (\<lambda>possible_delta_nu_pairs.
        ebind (filter_detector_solutions_by_theta_and_qaz possible_delta_nu_pairs theta qaz)
          (\<lambda>delta_nu_pairs.
        ebind (choose_closest_to_90 theta delta_nu_pairs) choose_detector_angles))))"

text \<open>The values of the dictionary of virtual angles are floats, of which psi may be NaN;
  a comparison with NaN is false. A missing key raises \<^verbatim>\<open>KeyError\<close>.\<close>

fun ne_f :: "pyfloat \<Rightarrow> pyfloat \<Rightarrow> bool" where
  "ne_f (Float a) (Float b) = ne a b"
| "ne_f _ _ = False"

definition getitem :: "virtual_angles \<Rightarrow> string \<Rightarrow> error + pyfloat" where
  "getitem d k = (case map_of d k of None \<Rightarrow> Inl (KeyError k) | Some v \<Rightarrow> Inr v)"

fun filter_valid_sample_solutions ::
    "externals \<Rightarrow> mat3 \<Rightarrow> real \<Rightarrow> real \<Rightarrow> (real \<times> real \<times> real \<times> real) list \<Rightarrow> real \<Rightarrow> vec3
       \<Rightarrow> string \<Rightarrow> real \<Rightarrow> error + (real \<times> real \<times> real \<times> real) list" where
  "filter_valid_sample_solutions ext UB delta' nu' [] wavelength hkl ref_constraint_name
       ref_constraint_value = Inr []"
| "filter_valid_sample_solutions ext UB delta' nu' ((mu', eta', chi', phi') # ts) wavelength hkl
       ref_constraint_name ref_constraint_value =
     (let pos = YouPosition mu' delta' nu' eta' chi' phi' in
      ebind (youAnglesToHkl ext pos wavelength UB) (\<lambda>hkl_actual.
      let hkl_okay = (case (hkl, hkl_actual) of ((h, k, l), (h', k', l')) \<Rightarrow>
                        sequence_ne [h, k, l] [h', k', l']) in
      ebind (if hkl_okay then
               ebind (anglesToVirtualAngles ext pos wavelength) (\<lambda>virtual_angles.
               if ref_constraint_name = ''a_eq_b'' then
                 ebind (getitem virtual_angles ''alpha'') (\<lambda>a.
                 ebind (getitem virtual_angles ''beta'') (\<lambda>b. Inr (ne_f a b)))
               else
                 ebind (getitem virtual_angles ref_constraint_name) (\<lambda>x.
                 Inr (ne_f (Float ref_constraint_value) x)))
             else Inr False) (\<lambda>virtual_okay.
      ebind (filter_valid_sample_solutions ext UB delta' nu' ts wavelength hkl ref_constraint_name
               ref_constraint_value) (\<lambda>rest.
      Inr (if hkl_okay \<and> virtual_okay then (mu', eta', chi', phi') # rest else rest)))))"

definition absolute_distance :: "real \<times> real \<times> real \<times> real \<Rightarrow> real" where
  "absolute_distance solution = (case solution of (m, e, c, p) \<Rightarrow> sum_list (map abs [m, e, c, p]))"

definition py_min :: "real list \<Rightarrow> error + real" where
  "py_min xs = (case xs of [] \<Rightarrow> Inl (ValueError ''min() arg is an empty sequence'')
                | x # r \<Rightarrow> Inr (fold min r x))"

definition choose_sample_angles ::
    "(real \<times> real \<times> real \<times> real) list \<Rightarrow> error + (real \<times> real \<times> real \<times> real)" where
  "choose_sample_angles mu_eta_chi_phi_tuples =
     (if length mu_eta_chi_phi_tuples = 0 then
        Inl (NoSolutionException ''No sample solutions were found'')
      else if length mu_eta_chi_phi_tuples = 1 then
        Inr (mu_eta_chi_phi_tuples ! 0)
      else
        (let absolute_distances = map absolute_distance mu_eta_chi_phi_tuples in
         ebind (py_min absolute_distances) (\<lambda>m.
         ebind (index_py absolute_distances m) (\<lambda>shortest_solution_index.
         nth_py mu_eta_chi_phi_tuples shortest_solution_index))))"

definition generate_final_sample_angles ::
    "externals \<Rightarrow> hardware \<Rightarrow> mat3 \<Rightarrow> real \<Rightarrow> real \<Rightarrow> real \<Rightarrow> real \<Rightarrow> string list \<Rightarrow> real \<Rightarrow> real
       \<Rightarrow> real \<Rightarrow> vec3 \<Rightarrow> string \<Rightarrow> real \<Rightarrow> error + (real \<times> real \<times> real \<times> real)" where
  "generate_final_sample_angles ext hw UB mu0 eta0 chi0 phi0 sample_constraint_names delta' nu'
       wavelength hkl ref_constraint_name ref_constraint_value =
     ebind (generate_possible_solutions hw [mu0, eta0, chi0, phi0] [''mu'', ''eta'', ''chi'', ''phi'']
              sample_constraint_names) (\<lambda>possible.
     ebind (unpack4 possible) (\<lambda>possible_tuples.
     ebind (filter_valid_sample_solutions ext UB delta' nu' possible_tuples wavelength hkl
              ref_constraint_name ref_constraint_value)
       choose_sample_angles))"

section \<open>An instance of the collaborators\<close>

text \<open>
  Modelled from the spec: the modules \<^verbatim>\<open>diffcalc.hkl.you.matrices\<close> and \<^verbatim>\<open>diffcalc.utils\<close> are
  not among the sources, and the spec says of them only that the matrix factory "given six
  angles, returns the per-axis rotation matrices (one per mechanical circle)". The instance
  below takes the rotations of a six-circle diffractometer in You's convention: \<open>mu\<close> and
  \<open>nu\<close> turn about the x axis, \<open>chi\<close> about the y axis, \<open>delta\<close>, \<open>eta\<close> and \<open>phi\<close> about
  the z axis in the negative sense. With it \<open>youAnglesToHkl\<close> gives the numbers that
  \<^verbatim>\<open>test_calcyou_against_i16.py\<close> expects; the theorems that name \<open>you_externals\<close> are about
  this instance, all others hold for every record of collaborators.
\<close>

definition x_rot :: "real \<Rightarrow> mat3" where
  "x_rot th = ((1, 0, 0), (0, cos th, - sin th), (0, sin th, cos th))"

definition y_rot :: "real \<Rightarrow> mat3" where
  "y_rot th = ((cos th, 0, sin th), (0, 1, 0), (- sin th, 0, cos th))"

definition z_rot :: "real \<Rightarrow> mat3" where
  "z_rot th = ((cos th, - sin th, 0), (sin th, cos th, 0), (0, 0, 1))"

fun cross :: "vec3 \<Rightarrow> vec3 \<Rightarrow> vec3" where
  "cross (x1, x2, x3) (y1, y2, y3) = (x2 * y3 - x3 * y2, x3 * y1 - x1 * y3, x1 * y2 - x2 * y1)"

fun dot3 :: "vec3 \<Rightarrow> vec3 \<Rightarrow> real" where
  "dot3 (x1, x2, x3) (y1, y2, y3) = x1 * y1 + x2 * y2 + x3 * y3"

definition angle_between :: "vec3 \<Rightarrow> vec3 \<Rightarrow> real" where
  "angle_between a b = arccos (bound (dot3 (vec_scale a (1 / norm3 a)) (vec_scale b (1 / norm3 b))))"

definition you_externals :: externals where
  "you_externals =
     \<lparr>createYouMatrices = (\<lambda>m d n e c p. (x_rot m, z_rot (- d), x_rot n, z_rot (- e), y_rot c, z_rot (- p))),
      calcMU = x_rot,
      calcPHI = (\<lambda>p. z_rot (- p)),
      calcCHI = y_rot,
      angle_between_vectors = angle_between,
      cross3 = cross,
      z_rotation = z_rot,
      x_rotation = x_rot\<rparr>"

section \<open>Stages of the inverse solver\<close>

text \<open>
  \<^verbatim>\<open>numpy.linalg.norm\<close> returns a numpy float, and dividing by a numpy zero gives \<open>inf\<close>
  (then \<open>nan\<close>) where a Python float raises. No comparison accepts a \<open>nan\<close>, so such a solve
  ends with an exception when its candidates are filtered; the embedding, which has no
  \<open>nan\<close> among the reals, ends it at the division, with \<^verbatim>\<open>ZeroDivisionError\<close>.
\<close>

definition calc_N :: "externals \<Rightarrow> vec3 \<Rightarrow> vec3 \<Rightarrow> error + mat3" where
  "calc_N ext Q0 n0 =
     ebind (div_py 1 (norm3 Q0)) (\<lambda>c1.
     let Q = vec_scale Q0 c1 in
     ebind (div_py 1 (norm3 Q)) (\<lambda>c2.
     let n = vec_scale n0 c2 in
     if is_small (angle_between_vectors ext Q n) then
       Inl (ValueError ''Q and n are parallel and cannot be used to create an orthonormal matrix'')
     else
       (let Qxn0 = cross3 ext Q n;
            QxnxQ0 = cross3 ext Qxn0 Q
        in ebind (div_py 1 (norm3 QxnxQ0)) (\<lambda>c3.
           let QxnxQ = vec_scale QxnxQ0 c3 in
           ebind (div_py 1 (norm3 Qxn0)) (\<lambda>c4.
           let Qxn = vec_scale Qxn0 c4 in
           case (Q, QxnxQ, Qxn) of ((q0, q1, q2), (a0, a1, a2), (b0, b1, b2)) \<Rightarrow>
             Inr ((q0, a0, b0), (q1, a1, b1), (q2, a2, b2)))))))"

definition calc_angle_between_naz_and_qaz :: "real \<Rightarrow> real \<Rightarrow> real \<Rightarrow> error + real" where
  "calc_angle_between_naz_and_qaz theta alpha tau =
     (let top = cos tau - sin alpha * sin theta;
          bottom = cos alpha * cos theta
      in if is_small bottom then Inl (ValueError ''cos(alpha) or cos(theta) are too small'')
         else ebind (div_py top bottom) (\<lambda>x. acos_py (bound x)))"

definition calc_theta :: "vec3 \<Rightarrow> real \<Rightarrow> error + real" where
  "calc_theta h_phi wavelength =
     (let q_length = norm3 h_phi in
      if q_length = 0 then Inl (DiffcalcException ''Reflection is unreachable as |Q| is 0'')
      else
        ebind (div_py (2 * pi) wavelength) (\<lambda>wavevector.
        ebind (div_py q_length (2 * wavevector)) (\<lambda>x.
        case asin_py x of
          Inl _ \<Rightarrow> Inl (DiffcalcException ''Reflection is unreachable as |Q| is too long'')
        | Inr theta \<Rightarrow> Inr theta)))"

text \<open>
  \<^verbatim>\<open>_calc_remaining_detector_angles\<close> assigns qaz by the name of the constraint, then nu
  unless nu is the constraint, then delta unless delta is the constraint; the definition
  follows the three names. Where \<open>sin(2 theta)\<close> is small the source builds its message with
  \<^verbatim>\<open>'...' % theta * TODEG\<close>, a string times a float, which raises \<^verbatim>\<open>TypeError\<close>.
\<close>

definition delta_from_qaz :: "real \<Rightarrow> real \<Rightarrow> real \<Rightarrow> error + real" where
  "delta_from_qaz qaz nu' theta =
     (let cos_qaz = cos qaz in
      if \<not> is_small cos_qaz then Inr (atan2 (sin qaz * sin nu') cos_qaz)
      else ebind (div_py (cos (2 * theta)) (cos nu')) (\<lambda>x.
           ebind (acos_py (bound x)) (\<lambda>a. Inr (sign qaz * a))))"

definition calc_remaining_detector_angles ::
    "string \<Rightarrow> real \<Rightarrow> real \<Rightarrow> error + (real \<times> real \<times> real)" where
  "calc_remaining_detector_angles constraint_name constraint_value theta =
     (if constraint_name = ''delta'' then
        (let delta' = constraint_value;
             sin_2theta = sin (2 * theta)
         in if is_small sin_2theta then Inl TypeError
            else
              ebind (div_py (sin delta') sin_2theta) (\<lambda>x.
              ebind (asin_py (bound x)) (\<lambda>qaz.
              let nu' = atan2 (sin (2 * theta) * cos qaz) (cos (2 * theta)) in
              Inr (delta', nu', qaz))))
      else if constraint_name = ''nu'' then
        (let nu' = constraint_value;
             sin_2theta = sin (2 * theta)
         in if is_small sin_2theta then Inl TypeError
            else
              ebind (div_py (tan nu') (tan (2 * theta))) (\<lambda>cos_qaz.
              if \<bar>cos_qaz\<bar> > 1 + SMALL then
                Inl (DiffcalcException ''The specified nu is greater than the 2theta'')
              else
                ebind (acos_py (bound cos_qaz)) (\<lambda>qaz.
                ebind (delta_from_qaz qaz nu' theta) (\<lambda>delta'.
                Inr (delta', nu', qaz)))))
      else if constraint_name = ''qaz'' then
        (let qaz = constraint_value;
             nu' = atan2 (sin (2 * theta) * cos qaz) (cos (2 * theta))
         in ebind (delta_from_qaz qaz nu' theta) (\<lambda>delta'. Inr (delta', nu', qaz)))
      else Inl (ValueError ''not an explicit detector angle (naz cannot be handled here)''))"

text \<open>Returns phi, chi, eta and mu, in this order.\<close>

definition calc_remaining_sample_angles ::
    "externals \<Rightarrow> string \<Rightarrow> real \<Rightarrow> vec3 \<Rightarrow> vec3 \<Rightarrow> vec3 \<Rightarrow> vec3
       \<Rightarrow> error + (real \<times> real \<times> real \<times> real)" where
  "calc_remaining_sample_angles ext constraint_name constraint_value q_lab n_lab q_phi n_phi' =
     ebind (calc_N ext q_lab n_lab) (\<lambda>N_lab.
     ebind (calc_N ext q_phi n_phi') (\<lambda>N_phi.
     if constraint_name = ''mu'' then
       ebind (mat_I (calcMU ext constraint_value)) (\<lambda>MUi.
       case mat_mul (mat_mul MUi N_lab) (mat_T N_phi) of
         ((v00, v01, v02), (v10, v11, v12), (v20, v21, v22)) \<Rightarrow>
           (let phi0 = atan2 v21 v20;
                eta0 = atan2 (- v12) v02;
                chi0 = atan2 (sqrt (v20\<^sup>2 + v21\<^sup>2)) v22
            in if is_small (sin chi0) then Inr (atan2 v01 v00, chi0, 0, constraint_value)
               else Inr (phi0, chi0, eta0, constraint_value)))
     else if constraint_name = ''phi'' then
       ebind (mat_I N_phi) (\<lambda>N_phi_I.
       case mat_mul (mat_mul N_lab N_phi_I) (mat_T (calcPHI ext constraint_value)) of
         ((v00, v01, v02), (v10, v11, v12), (v20, v21, v22)) \<Rightarrow>
           (let eta0 = atan2 v01 (sqrt (v11\<^sup>2 + v21\<^sup>2));
                mu0 = atan2 v21 v11;
                chi0 = atan2 v02 v00
            in if is_small (cos eta0) then
                 Inl (ValueError ''Chi and mu cannot be chosen uniquely with eta so close to +-90.'')
               else Inr (constraint_value, chi0, eta0, mu0)))
     else if constraint_name = ''eta'' \<or> constraint_name = ''chi'' then
       (case mat_mul N_lab (mat_T N_phi) of
         ((v00, v01, v02), (v10, v11, v12), (v20, v21, v22)) \<Rightarrow>
           ebind
             (if constraint_name = ''eta'' then
                (let eta0 = constraint_value;
                     cos_eta = cos eta0
                 in if is_small cos_eta then
                      Inl (ValueError ''Chi and mu cannot be chosen uniquely with eta constrained so close to +-90.'')
                    else ebind (div_py v02 cos_eta) (\<lambda>x.
                         ebind (asin_py x) (\<lambda>chi0. Inr (eta0, chi0))))
              else
                (let chi0 = constraint_value;
                     sin_chi = sin chi0
                 in if is_small sin_chi then
                      Inl (ValueError ''Eta and phi cannot be chosen uniquely with chi constrained so close to 0.'')
                    else ebind (div_py v02 sin_chi) (\<lambda>x.
                         ebind (acos_py x) (\<lambda>eta0. Inr (eta0, chi0)))))
             (\<lambda>(eta0, chi0).
                let top_for_mu = v22 * sin eta0 * sin chi0 + v12 * cos chi0;
                    bot_for_mu = - v22 * cos chi0 + v12 * sin eta0 * sin chi0;
                    mu0 = atan2 (- top_for_mu) (- bot_for_mu);
                    top_for_phi = v01 * cos eta0 * cos chi0 - v00 * sin eta0;
                    bot_for_phi = v01 * sin eta0 + v00 * cos eta0 * cos chi0;
                    phi0 = atan2 top_for_phi bot_for_phi
                in Inr (phi0, chi0, eta0, mu0)))
     else Inl (ValueError ''Given angle must be one of phi, chi, eta or mu'')))"

definition getvalue :: "(string \<times> real) list \<Rightarrow> string \<Rightarrow> error + real" where
  "getvalue d k = (case map_of d k of None \<Rightarrow> Inl (KeyError k) | Some v \<Rightarrow> Inr v)"

text \<open>Returns xi, psi, mu, eta, chi and phi, in this order. In the loop over the transformed
  values of \<^verbatim>\<open>chi_orig\<close>, chi is the first value in \<open>[\<pi>/2, \<pi>)\<close> and the last value yielded
  when there is none.\<close>

definition calc_angles_given_two_sample_and_reference ::
    "externals \<Rightarrow> (string \<times> real) list \<Rightarrow> real \<Rightarrow> real \<Rightarrow> vec3 \<Rightarrow> vec3
       \<Rightarrow> error + (real \<times> real \<times> real \<times> real \<times> real \<times> real)" where
  "calc_angles_given_two_sample_and_reference ext samp_constraints psi theta q_phi n_phi' =
     ebind (calc_N ext q_phi n_phi') (\<lambda>N_phi.
     let THETA = z_rotation ext (- theta);
         PSI = x_rotation ext psi
     in
     if in_dict ''chi'' samp_constraints \<and> in_dict ''phi'' samp_constraints then
       ebind (getvalue samp_constraints ''chi'') (\<lambda>chi0.
       ebind (getvalue samp_constraints ''phi'') (\<lambda>phi0.
       case mat_mul (mat_mul (mat_mul (mat_mul (calcCHI ext chi0) (calcPHI ext phi0)) N_phi)
                       (mat_T PSI)) (mat_T THETA) of
         ((v00, v01, v02), (v10, v11, v12), (v20, v21, v22)) \<Rightarrow>
           (let xi = atan2 (- v20) v22;
                eta0 = atan2 (- v01) v11;
                mu0 = atan2 (- v21) (sqrt (v22\<^sup>2 + v20\<^sup>2))
            in Inr (xi, psi, mu0, eta0, chi0, phi0))))
     else if in_dict ''mu'' samp_constraints \<and> in_dict ''eta'' samp_constraints then
       ebind (getvalue samp_constraints ''mu'') (\<lambda>mu0.
       ebind (getvalue samp_constraints ''eta'') (\<lambda>eta0.
       case mat_mul (mat_mul N_phi (mat_T PSI)) (mat_T THETA) of
         ((v00, v01, v02), (v10, v11, v12), (v20, v21, v22)) \<Rightarrow>
           (let bot = sqrt ((sin eta0)\<^sup>2 * (cos mu0)\<^sup>2 + (sin mu0)\<^sup>2) in
            ebind (div_py (- v21) bot) (\<lambda>x.
            ebind (asin_py x) (\<lambda>as.
            let chi_orig = as - atan2 (sin mu0) (sin eta0 * cos mu0);
                chi0 = (if is_small eta0 \<and> is_small (mu0 + pi / 2) then
                          (case filter (\<lambda>c. pi / 2 \<le> c \<and> c < pi)
                                  (generate_transformed_values chi_orig False) of
                             c # _ \<Rightarrow> c
                           | [] \<Rightarrow> last (generate_transformed_values chi_orig False))
                        else chi_orig);
                a = sin chi0 * cos eta0;
                b = sin chi0 * sin eta0 * sin mu0 - cos chi0 * cos mu0;
                xi = atan2 (v22 * a + v20 * b) (v20 * a - v22 * b);
                a' = sin chi0 * sin mu0 - cos mu0 * cos chi0 * sin eta0;
                b' = cos mu0 * cos eta0;
                phi0 = atan2 (v11 * a' - v01 * b') (v01 * a' + v11 * b')
            in Inr (xi, psi, mu0, eta0, chi0, phi0))))))
     else if in_dict ''chi'' samp_constraints \<and> in_dict ''mu'' samp_constraints then
       ebind (getvalue samp_constraints ''chi'') (\<lambda>chi0.
       ebind (getvalue samp_constraints ''mu'') (\<lambda>mu0.
       if \<not> is_small mu0 \<and> \<not> is_small (chi0 - pi / 2) then
         Inl (Exception ''The fixed chi, mu, psi/alpha/beta modes only currently work with chi=90 and mu=0'')
       else
         (case mat_mul (mat_mul N_phi (mat_T PSI)) (mat_T THETA) of
           ((v00, v01, v02), (v10, v11, v12), (v20, v21, v22)) \<Rightarrow>
             ebind (asin_py (- v21)) (\<lambda>eta0.
             let xi = atan2 v22 v20;
                 phi0 = - atan2 v01 v11
             in Inr (xi, psi, mu0, eta0, chi0, phi0)))))
     else
       Inl (DiffcalcException ''No code yet to handle this combination of 2 sample constraints and one reference!''))"

section \<open>The inverse solver\<close>

text \<open>
  \<^verbatim>\<open>_hklToAngles\<close> is written here as its three columns. The detector column leaves delta,
  nu, qaz and naz unassigned when there is neither a detector nor a naz constraint (\<open>None\<close>).
  Its statement \<^verbatim>\<open>det_constraint_name, det_constraint = det_constraint.items()[0]\<close> rebinds
  \<^verbatim>\<open>det_constraint\<close> to the value of the constraint, so that the later test
  \<^verbatim>\<open>if det_constraint or naz_constraint\<close> is the test that this value is not zero.
\<close>

definition detector_column ::
    "hardware \<Rightarrow> constraints \<Rightarrow> real \<Rightarrow> real \<Rightarrow> real
       \<Rightarrow> error + (real \<times> real \<times> real \<times> real) option" where
  "detector_column hw cons theta alpha tau =
     (case detector cons of
        (det_constraint_name, det_constraint) # _ \<Rightarrow>
          ebind (calc_remaining_detector_angles det_constraint_name det_constraint theta)
            (\<lambda>(delta0, nu0, qaz).
          ebind (calc_angle_between_naz_and_qaz theta alpha tau) (\<lambda>naz_qaz_angle.
          let naz0 = qaz - naz_qaz_angle in
          if det_constraint \<noteq> 0 \<or> naz cons \<noteq> [] then
            ebind (generate_final_detector_angles hw cons delta0 nu0 qaz theta det_constraint_name)
              (\<lambda>(delta1, nu1). Inr (Some (delta1, nu1, qaz, naz0)))
          else Inr (Some (delta0, nu0, qaz, naz0))))
      | [] \<Rightarrow>
          (case naz cons of
             (naz_name, naz0) # _ \<Rightarrow>
               if naz_name \<noteq> ''naz'' then Inl (AssertionError ''naz_name == naz'')
               else
                 ebind (calc_angle_between_naz_and_qaz theta alpha tau) (\<lambda>naz_qaz_angle.
                 let qaz = naz0 - naz_qaz_angle;
                     nu0 = atan2 (sin (2 * theta) * cos qaz) (cos (2 * theta));
                     delta0 = atan2 (sin qaz * sin nu0) (cos qaz)
                 in ebind (generate_final_detector_angles hw cons delta0 nu0 qaz theta naz_name)
                      (\<lambda>(delta1, nu1). Inr (Some (delta1, nu1, qaz, naz0))))
           | [] \<Rightarrow> Inr None))"

text \<open>The loop over the transformed values of xi: a \<^verbatim>\<open>NoSolutionException\<close> of the detector
  or of the sample angles moves on to the next value, every other exception leaves the
  loop, and the loop raises when no value is left.\<close>

fun solve_for_xi ::
    "externals \<Rightarrow> hardware \<Rightarrow> constraints \<Rightarrow> mat3 \<Rightarrow> real \<Rightarrow> real \<Rightarrow> vec3 \<Rightarrow> string \<Rightarrow> real
       \<Rightarrow> real \<Rightarrow> real \<Rightarrow> real \<Rightarrow> real \<Rightarrow> real list
       \<Rightarrow> error + (real \<times> real \<times> real \<times> real \<times> real \<times> real)" where
  "solve_for_xi ext hw cons UB theta wavelength hkl ref_name ref_value mu0 eta0 chi0 phi0 [] =
     Inl (Exception ''No solutions were found, please unconstrain detector or sample limits'')"
| "solve_for_xi ext hw cons UB theta wavelength hkl ref_name ref_value mu0 eta0 chi0 phi0 (xi # xis) =
     (let qaz0 = xi + pi / 2;
          qaz1 = (if qaz0 > 2 * pi then qaz0 - 2 * pi else qaz0)
      in ebind (calc_remaining_detector_angles ''qaz'' qaz1 theta) (\<lambda>(delta0, nu0, qaz).
         case generate_final_detector_angles hw cons delta0 nu0 qaz theta ''qaz'' of
           Inl (NoSolutionException _) \<Rightarrow>
             solve_for_xi ext hw cons UB theta wavelength hkl ref_name ref_value mu0 eta0 chi0 phi0 xis
         | Inl e \<Rightarrow> Inl e
         | Inr (delta1, nu1) \<Rightarrow>
             (case generate_final_sample_angles ext hw UB mu0 eta0 chi0 phi0 (map fst (sample cons))
                     delta1 nu1 wavelength hkl ref_name ref_value of
                Inl (NoSolutionException _) \<Rightarrow>
                  solve_for_xi ext hw cons UB theta wavelength hkl ref_name ref_value mu0 eta0 chi0 phi0 xis
              | Inl e \<Rightarrow> Inl e
              | Inr (m, e, c, p) \<Rightarrow> Inr (m, delta1, nu1, e, c, p))))"

text \<open>Returns mu, delta, nu, eta, chi and phi, in this order.\<close>

definition sample_column ::
    "externals \<Rightarrow> hardware \<Rightarrow> constraints \<Rightarrow> mat3 \<Rightarrow> vec3 \<Rightarrow> real \<Rightarrow> real \<Rightarrow> real \<Rightarrow> real \<Rightarrow> vec3
       \<Rightarrow> string \<Rightarrow> real \<Rightarrow> (real \<times> real \<times> real \<times> real) option
       \<Rightarrow> error + (real \<times> real \<times> real \<times> real \<times> real \<times> real)" where
  "sample_column ext hw cons UB hkl wavelength theta psi alpha h_phi ref_name ref_value det =
     (if length (sample cons) = 1 then
        (case (sample cons, det) of
           ((sample_constraint_name, sample_value) # _, Some (delta0, nu0, qaz, naz0)) \<Rightarrow>
             (let q_lab = (cos theta * sin qaz, - sin theta, cos theta * cos qaz);
                  n_lab = (cos alpha * sin naz0, - sin alpha, cos alpha * cos naz0)
              in ebind (calc_remaining_sample_angles ext sample_constraint_name sample_value
                          q_lab n_lab h_phi n_phi) (\<lambda>(phi0, chi0, eta0, mu0).
                 ebind (generate_final_sample_angles ext hw UB mu0 eta0 chi0 phi0
                          [sample_constraint_name] delta0 nu0 wavelength hkl ref_name ref_value)
                   (\<lambda>(m, e, c, p). Inr (m, delta0, nu0, e, c, p))))
         | _ \<Rightarrow> Inl (UnboundLocalError ''qaz''))
      else if length (sample cons) = 2 then
        ebind (calc_angles_given_two_sample_and_reference ext (sample cons) psi theta h_phi n_phi)
          (\<lambda>(xi_initial, psi', mu0, eta0, chi0, phi0).
             solve_for_xi ext hw cons UB theta wavelength hkl ref_name ref_value mu0 eta0 chi0 phi0
               (generate_transformed_values xi_initial False))
      else if length (sample cons) = 3 then
        Inl (DiffcalcException ''No code yet to handle 3 sample constraints!'')
      else Inl (AssertionError ''1,2 or 3 sample constraints expected''))"

definition create_position ::
    "externals \<Rightarrow> constraints \<Rightarrow> real \<Rightarrow> real \<times> real \<times> real \<times> real \<times> real \<times> real
       \<Rightarrow> error + (position \<times> virtual_angles)" where
  "create_position ext cons wavelength angles =
     (case angles of (m, d, n, e, c, p) \<Rightarrow>
        (let position0 = YouPosition m d n e c p;
             position1 = tidy_degenerate_solutions position0 cons;
             position2 = (if phi position1 \<le> - pi + SMALL
                          then position1\<lparr>phi := phi position1 + 2 * pi\<rparr> else position1)
         in ebind (anglesToVirtualAngles ext position2 wavelength) (\<lambda>pseudo_angles.
            Inr (position2, pseudo_angles))))"

definition hklToAngles ::
    "externals \<Rightarrow> hardware \<Rightarrow> constraints \<Rightarrow> mat3 \<Rightarrow> real \<Rightarrow> real \<Rightarrow> real \<Rightarrow> real
       \<Rightarrow> error + (position \<times> virtual_angles)" where
  "hklToAngles ext hw cons UB h k l wavelength =
     (let h_phi = mat_vec UB (h, k, l) in
      ebind (calc_theta h_phi wavelength) (\<lambda>theta.
      let tau = angle_between_vectors ext h_phi n_phi in
      case reference cons of
        [] \<Rightarrow> Inl (RuntimeError ''No code yet to handle the absence of a reference constraint!'')
      | (ref_constraint_name, ref_constraint_value) # _ \<Rightarrow>
          ebind (calc_remaining_reference_angles ref_constraint_name ref_constraint_value theta tau)
            (\<lambda>(psi, alpha, beta).
          if detector cons \<noteq> [] \<and> naz cons \<noteq> [] then
            Inl (AssertionError ''Two detector constraints given'')
          else
            ebind (detector_column hw cons theta alpha tau) (\<lambda>det.
            ebind (sample_column ext hw cons UB (h, k, l) wavelength theta psi alpha h_phi
                     ref_constraint_name ref_constraint_value det)
              (create_position ext cons wavelength)))))"

section \<open>Vocabulary of the statements\<close>

text \<open>The candidate detector pairs: the cross product of the transformed values of delta
  and of nu that the hardware accepts, each cut at \<open>-\<pi>\<close>.\<close>

definition detector_candidates :: "hardware \<Rightarrow> real \<Rightarrow> real \<Rightarrow> string \<Rightarrow> (real \<times> real) list" where
  "detector_candidates hw d0 n0 cn =
     List.product
       (map cut_at_minus_pi (filter (within_limits hw ''delta'')
          (generate_transformed_values d0 (''delta'' = cn))))
       (map cut_at_minus_pi (filter (within_limits hw ''nu'')
          (generate_transformed_values n0 (''nu'' = cn))))"

text \<open>
  A sample tuple is valid when its position maps back to the target hkl, each component
  within \<open>SMALL\<close>, and its virtual angles reproduce the reference constraint: alpha nearly
  equal to beta for a_eq_b, the constrained virtual angle nearly equal to its value otherwise.
\<close>

definition valid_sample :: "externals \<Rightarrow> mat3 \<Rightarrow> real \<Rightarrow> real \<Rightarrow> real \<Rightarrow> vec3 \<Rightarrow> string \<Rightarrow> real
     \<Rightarrow> real \<times> real \<times> real \<times> real \<Rightarrow> bool" where
  "valid_sample ext UB d n wl hkl rn rv t =
     (case t of (m, e, c, p) \<Rightarrow>
        \<exists>hkl' va. youAnglesToHkl ext (YouPosition m d n e c p) wl UB = Inr hkl'
          \<and> (case (hkl, hkl') of ((h, k, l), (h', k', l')) \<Rightarrow> ne h h' \<and> ne k k' \<and> ne l l')
          \<and> anglesToVirtualAngles ext (YouPosition m d n e c p) wl = Inr va
          \<and> (if rn = ''a_eq_b''
              then \<exists>a b. getitem va ''alpha'' = Inr a \<and> getitem va ''beta'' = Inr b \<and> ne_f a b
              else \<exists>x. getitem va rn = Inr x \<and> ne_f (Float rv) x))"

text \<open>
  The same condition written out, without the helpers of the module: the three indices
  and the virtual angles are compared as real numbers, and a virtual angle that is NaN
  reproduces nothing.
\<close>

definition reproduces_target :: "externals \<Rightarrow> mat3 \<Rightarrow> real \<Rightarrow> real \<Rightarrow> real \<Rightarrow> vec3 \<Rightarrow> string \<Rightarrow> real
     \<Rightarrow> real \<times> real \<times> real \<times> real \<Rightarrow> bool" where
  "reproduces_target ext UB d n wl hkl rn rv t =
     (case (hkl, t) of ((h, k, l), (m, e, c, p)) \<Rightarrow>
        \<exists>h' k' l' va. youAnglesToHkl ext (YouPosition m d n e c p) wl UB = Inr (h', k', l')
          \<and> \<bar>h - h'\<bar> < 1 / 10 ^ 8 \<and> \<bar>k - k'\<bar> < 1 / 10 ^ 8 \<and> \<bar>l - l'\<bar> < 1 / 10 ^ 8
          \<and> anglesToVirtualAngles ext (YouPosition m d n e c p) wl = Inr va
          \<and> (if rn = ''a_eq_b''
              then \<exists>a b. map_of va ''alpha'' = Some (Float a) \<and> map_of va ''beta'' = Some (Float b)
                     \<and> \<bar>a - b\<bar> < 1 / 10 ^ 8
              else \<exists>x. map_of va rn = Some (Float x) \<and> \<bar>rv - x\<bar> < 1 / 10 ^ 8))"

text \<open>The sum of the absolute values of the four sample angles of a tuple.\<close>

fun sum_of_magnitudes :: "real \<times> real \<times> real \<times> real \<Rightarrow> real" where
  "sum_of_magnitudes (m, e, c, p) = \<bar>m\<bar> + \<bar>e\<bar> + \<bar>c\<bar> + \<bar>p\<bar>"

text \<open>The two degenerate configurations that \<^verbatim>\<open>_tidy_degenerate_solutions\<close> looks for.\<close>

definition degenerate :: "constraints \<Rightarrow> position \<Rightarrow> bool" where
  "degenerate cons pos \<longleftrightarrow>
     (is_small (nu pos) \<and> (detector cons \<noteq> [] \<or> naz cons \<noteq> [])
        \<and> is_small (mu pos) \<and> in_dict ''mu'' (sample cons) \<and> is_small (chi pos))
     \<or> (is_small (delta pos) \<and> (detector cons \<noteq> [] \<or> naz cons \<noteq> [])
        \<and> is_small (eta pos) \<and> in_dict ''eta'' (sample cons) \<and> is_small (chi pos - pi / 2))"

section \<open>Example inputs\<close>

text \<open>A cubic crystal of lattice parameter 1 with its axes along the laboratory axes, a
  hardware whose every axis is limited to \<open>[-1, 91]\<close> degrees with the cut at \<open>-180\<close>
  degrees, and a hardware that accepts no value.\<close>

definition UB_cubic :: mat3 where
  "UB_cubic = ((2 * pi, 0, 0), (0, 2 * pi, 0), (0, 0, 2 * pi))"

text \<open>The fixture of \<^verbatim>\<open>test_calcyou_against_i16.py\<close>: \<^verbatim>\<open>self.UB1\<close> is the matrix below
  times \<open>2\<pi>\<close>, and \<^verbatim>\<open>posFromI16sEuler(phi, chi, eta, mu, delta, gamma).inRadians()\<close> is the
  position of these angles, given in degrees, with gamma in the place of nu.\<close>

definition R1 :: mat3 where
  "R1 = ((0.9996954135095477, - 0.01745240643728364, - 0.017449748351250637),
         (0.01744974835125045, 0.9998476951563913, - 0.0003045864904520898),
         (0.017452406437283505, - 0.00000000000000011135499981271473, 0.9998476951563912))"

definition UB1 :: mat3 where
  "UB1 = mat_scale R1 (2 * pi)"

definition posFromI16sEuler :: "real \<Rightarrow> real \<Rightarrow> real \<Rightarrow> real \<Rightarrow> real \<Rightarrow> real \<Rightarrow> position" where
  "posFromI16sEuler phi' chi' eta' mu' delta' gamma =
     YouPosition (mu' * TORAD) (delta' * TORAD) (gamma * TORAD) (eta' * TORAD) (chi' * TORAD)
       (phi' * TORAD)"

definition hw_example :: hardware where
  "hw_example =
     \<lparr>isAxisValueWithinLimits = (\<lambda>name v. - 1 \<le> v \<and> v \<le> 91),
      cutAngle = (\<lambda>name v. v - 360 * of_int \<lfloor>(v + 180) / 360\<rfloor>)\<rparr>"

definition hw_none :: hardware where
  "hw_none = \<lparr>isAxisValueWithinLimits = (\<lambda>name v. False), cutAngle = (\<lambda>name v. v)\<rparr>"

definition cons_example :: constraints where
  "cons_example = \<lparr>reference = [(''a_eq_b'', 1)], detector = [(''delta'', pi / 3)], naz = [],
                     sample = [(''phi'', 0)]\<rparr>"

definition cons_delta_90 :: constraints where
  "cons_delta_90 = \<lparr>reference = [(''a_eq_b'', 1)], detector = [(''delta'', pi / 2)], naz = [],
                      sample = [(''phi'', 0)]\<rparr>"

section \<open>Properties\<close>

lemma SMALL_pos: "0 < SMALL"
  by (simp add: SMALL_def)

lemma SMALL_lt_pi4: "SMALL < pi / 4"
proof -
  have "SMALL < 2 / 4" by (simp add: SMALL_def)
  also have "\<dots> \<le> pi / 4" using pi_ge_two by simp
  finally show ?thesis .
qed

lemma near_half_pi_not_small:
  assumes "is_small (v - pi / 2) \<or> is_small (v + pi / 2)"
  shows "\<not> is_small v"
  using assms SMALL_lt_pi4 unfolding is_small_def by (auto simp: abs_if split: if_splits)

text \<open>
  Claim C2. An axis that is constrained yields its one value. An unconstrained axis yields
  \<open>0, \<pi>\<close> when its value is within \<open>1e-8\<close> of zero, \<open>\<pi>/2, -\<pi>/2\<close> when it is within
  \<open>1e-8\<close> of \<open>\<pi>/2\<close> or of \<open>-\<pi>/2\<close>, and \<open>v, -v, \<pi>+v, \<pi>-v\<close> otherwise; so an axis never
  contributes more than four candidates.
\<close>

theorem generate_transformed_values_cases:
  "generate_transformed_values v True = [v]
   \<and> (\<bar>v\<bar> < 1 / 10 ^ 8 \<longrightarrow> generate_transformed_values v False = [0, pi])
   \<and> (\<bar>v - pi / 2\<bar> < 1 / 10 ^ 8 \<or> \<bar>v + pi / 2\<bar> < 1 / 10 ^ 8
        \<longrightarrow> generate_transformed_values v False = [pi / 2, - pi / 2])
   \<and> (\<not> \<bar>v\<bar> < 1 / 10 ^ 8 \<and> \<not> \<bar>v - pi / 2\<bar> < 1 / 10 ^ 8 \<and> \<not> \<bar>v + pi / 2\<bar> < 1 / 10 ^ 8
        \<longrightarrow> generate_transformed_values v False = [v, - v, pi + v, pi - v])
   \<and> length (generate_transformed_values v c) \<le> 4"
proof -
  have near: "\<not> is_small v" if "is_small (v - pi / 2) \<or> is_small (v + pi / 2)"
    using near_half_pi_not_small that by blast
  have sm: "is_small x \<longleftrightarrow> \<bar>x\<bar> < 1 / 10 ^ 8" for x
    by (simp add: is_small_def SMALL_def)
  show ?thesis
    using near unfolding generate_transformed_values_def sm [symmetric] by auto
qed

theorem generate_transformed_values_cases_witness:
  "generate_transformed_values 0 False = [0, pi]
   \<and> generate_transformed_values (pi / 2) False = [pi / 2, - pi / 2]
   \<and> generate_transformed_values (1 / 2) False = [1 / 2, - (1 / 2), pi + 1 / 2, pi - 1 / 2]"
proof -
  have a: "\<not> \<bar>1 / 2 - pi / 2\<bar> < 1 / 10 ^ 8" "\<not> \<bar>1 / 2 + pi / 2\<bar> < 1 / 10 ^ 8"
    using pi_ge_two by (auto simp: abs_if)
  show ?thesis
    using generate_transformed_values_cases [of 0]
      generate_transformed_values_cases [of "pi / 2"]
      generate_transformed_values_cases [of "1 / 2"] a
    by simp
qed

text \<open>
  Claim C3. \<^verbatim>\<open>_choose_detector_angles\<close> returns the pair exactly when the filtered list holds
  one pair, raises the exception with the message "Multiple detector solutions were found"
  when it holds more than one, and raises \<^verbatim>\<open>NoSolutionException\<close> when it is empty.
\<close>

theorem choose_detector_angles_cases:
  "choose_detector_angles [] = Inl (NoSolutionException ''No detector solutions were found'')
   \<and> choose_detector_angles [p] = Inr p
   \<and> choose_detector_angles (p # q # ps) = Inl (Exception ''Multiple detector solutions were found'')"
  by (simp add: choose_detector_angles_def)

text \<open>
  Claim C9. When \<open>nu\<close> is small with a detector or naz constraint present, \<open>mu\<close> is small
  with \<open>mu\<close> among the sample constraints and \<open>chi\<close> is small, the cleanup sets \<open>eta\<close> to
  \<open>delta / 2\<close> and takes the same difference from \<open>phi\<close>, so that \<open>eta + phi\<close> is kept and
  \<open>mu\<close>, \<open>delta\<close>, \<open>nu\<close>, \<open>chi\<close> are unchanged. A position in neither of the two degenerate
  cases is returned as it is.
\<close>

theorem tidy_degenerate_solutions_cases:
  "(is_small (nu pos) \<and> (detector cons \<noteq> [] \<or> naz cons \<noteq> [])
      \<and> is_small (mu pos) \<and> in_dict ''mu'' (sample cons) \<and> is_small (chi pos)
    \<longrightarrow> eta (tidy_degenerate_solutions pos cons) = delta pos / 2
        \<and> phi (tidy_degenerate_solutions pos cons) = phi pos - (delta pos / 2 - eta pos)
        \<and> eta (tidy_degenerate_solutions pos cons) + phi (tidy_degenerate_solutions pos cons)
            = eta pos + phi pos
        \<and> mu (tidy_degenerate_solutions pos cons) = mu pos
        \<and> delta (tidy_degenerate_solutions pos cons) = delta pos
        \<and> nu (tidy_degenerate_solutions pos cons) = nu pos
        \<and> chi (tidy_degenerate_solutions pos cons) = chi pos)
   \<and> (\<not> (is_small (nu pos) \<and> (detector cons \<noteq> [] \<or> naz cons \<noteq> [])
          \<and> is_small (mu pos) \<and> in_dict ''mu'' (sample cons) \<and> is_small (chi pos))
      \<and> \<not> (is_small (delta pos) \<and> (detector cons \<noteq> [] \<or> naz cons \<noteq> [])
          \<and> is_small (eta pos) \<and> in_dict ''eta'' (sample cons) \<and> is_small (chi pos - pi / 2))
    \<longrightarrow> tidy_degenerate_solutions pos cons = pos)"
  by (auto simp: tidy_degenerate_solutions_def Let_def)

theorem tidy_degenerate_solutions_cases_witness:
  "tidy_degenerate_solutions (YouPosition 0 1 0 0 0 0)
       \<lparr>reference = [(''a_eq_b'', 1)], detector = [(''delta'', 1)], naz = [], sample = [(''mu'', 0)]\<rparr>
     = YouPosition 0 1 0 (1 / 2) 0 (- (1 / 2))
   \<and> tidy_degenerate_solutions (YouPosition 1 1 1 1 1 1)
       \<lparr>reference = [(''a_eq_b'', 1)], detector = [(''delta'', 1)], naz = [], sample = [(''mu'', 1)]\<rparr>
     = YouPosition 1 1 1 1 1 1"
proof -
  let ?c = "\<lparr>reference = [(''a_eq_b'', 1)], detector = [(''delta'', 1)], naz = [],
             sample = [(''mu'', 0::real)]\<rparr>"
  let ?d = "\<lparr>reference = [(''a_eq_b'', 1)], detector = [(''delta'', 1)], naz = [],
             sample = [(''mu'', 1::real)]\<rparr>"
  have s0: "is_small 0" and s1: "\<not> is_small 1"
    by (simp_all add: is_small_def SMALL_def)
  have "tidy_degenerate_solutions (YouPosition 0 1 0 0 0 0) ?c = YouPosition 0 1 0 (1 / 2) 0 (- (1 / 2))"
    using tidy_degenerate_solutions_cases [of "YouPosition 0 1 0 0 0 0" ?c] s0
    by (intro position.equality) (simp_all add: YouPosition_def in_dict_def)
  moreover have "tidy_degenerate_solutions (YouPosition 1 1 1 1 1 1) ?d = YouPosition 1 1 1 1 1 1"
    using tidy_degenerate_solutions_cases [of "YouPosition 1 1 1 1 1 1" ?d] s1
    by (simp add: YouPosition_def)
  ultimately show ?thesis by simp
qed

lemma bound_range: "- 1 \<le> bound x \<and> bound x \<le> 1"
  by (simp add: bound_def)

lemma bound_id: "- 1 \<le> x \<Longrightarrow> x \<le> 1 \<Longrightarrow> bound x = x"
  by (simp add: bound_def)

lemma asin_py_bound: "asin_py (bound x) = Inr (arcsin (bound x))"
  using bound_range [of x] by (simp add: asin_py_def)

lemma acos_py_bound: "acos_py (bound x) = Inr (arccos (bound x))"
  using bound_range [of x] by (simp add: acos_py_def)

lemma ebind_Inr: "ebind (Inr x) f = f x"
  by (simp add: ebind_def)

lemma ebind_Inl: "ebind (Inl e) f = Inl e"
  by (simp add: ebind_def)

lemma theta_and_qaz_total:
  "theta_and_qaz_from_detector_angles d n =
     Inr (arccos (bound (cos d * cos n)) / 2, atan2 (tan d) (sin n))"
  by (simp add: theta_and_qaz_from_detector_angles_def acos_py_bound ebind_Inr)

lemma anglesToVirtualAngles_eq:
  assumes "createYouMatrices ext (mu pos) (delta pos) (nu pos) (eta pos) (chi pos) (phi pos)
             = (MU, DELTA, NU, ETA, CHI, PHI)"
    and "mat_vec (mat_mul (mat_mul (mat_mul MU ETA) CHI) PHI) n_phi = (n0, n1, n2)"
    and "theta = arccos (bound (cos (delta pos) * cos (nu pos))) / 2"
    and "qaz = atan2 (tan (delta pos)) (sin (nu pos))"
    and "alpha = arcsin (bound (- n1))"
    and "naz' = atan2 n0 n2"
    and "tau = arccos (bound (cos alpha * cos theta * cos (naz' - qaz) + sin alpha * sin theta))"
    and "beta = arcsin (bound (2 * sin theta * cos tau - sin alpha))"
  shows "anglesToVirtualAngles ext pos wl =
           Inr [(''theta'', Float theta), (''qaz'', Float qaz), (''alpha'', Float alpha),
                (''naz'', Float naz'), (''tau'', Float tau), (''psi'', (if sin tau = 0 \<or> cos theta = 0 then NaN
                  else Float (arccos (bound ((cos tau * sin theta - sin alpha) / (sin tau * cos theta)))))),
                (''beta'', Float beta)]"
  unfolding assms(3-8)
  by (simp add: anglesToVirtualAngles_def theta_and_qaz_total ebind_Inr asin_py_bound acos_py_bound
      Let_def div_py_def assms(1,2) del: mat_vec.simps mat_mul.simps)

lemma x_rot_0: "x_rot 0 = I3" and y_rot_0: "y_rot 0 = I3" and z_rot_0: "z_rot 0 = I3"
  by (simp_all add: x_rot_def y_rot_def z_rot_def I3_def)

lemma n_lab_zero:
  "mat_vec (mat_mul (mat_mul (mat_mul I3 I3) I3) I3) n_phi = (0, 0, 1)"
  by (simp add: I3_def n_phi_def)

lemma small_angle:
  fixes x :: real
  assumes "x = 1 / 10 ^ 9"
  shows "0 < x" "x < 1" "0 < sin x" "sin x \<le> x" "0 < cos x" "x < pi / 2" "2 * x < pi / 2"
proof -
  show a: "0 < x" "x < 1" using assms by simp_all
  then show b: "x < pi / 2" "2 * x < pi / 2" using pi_ge_two assms by simp_all
  show "0 < sin x" using a b pi_ge_two by (intro sin_gt_zero) simp_all
  show "sin x \<le> x" using a by (intro sin_x_le_x) simp
  show "0 < cos x" using a b by (intro cos_gt_zero_pi) simp_all
qed

lemma asin_py_ok: "\<bar>x\<bar> \<le> 1 \<Longrightarrow> asin_py x = Inr (arcsin x)"
  by (auto simp: asin_py_def)

lemma div_py_ok: "b \<noteq> 0 \<Longrightarrow> div_py a b = Inr (a / b)"
  by (simp add: div_py_def)

lemma trig_vals:
  "sin (pi / 6) = 1 / 2" "cos (pi / 3) = 1 / 2" "sin (pi / 3) = sqrt 3 / 2" "cos (pi / 6) = sqrt 3 / 2"
  by (simp_all add: sin_30 cos_30 sin_60 cos_60)

text \<open>
  Claim C10. \<^verbatim>\<open>_anglesToVirtualAngles\<close> returns, for every position and wavelength, a
  dictionary with the seven keys theta, qaz, alpha, naz, tau, psi and beta, and raises
  nothing: every argument of asin and acos has gone through \<open>bound\<close>, and the division for
  psi is reached only when \<open>sin tau\<close> and \<open>cos theta\<close> are not zero.
\<close>

theorem anglesToVirtualAngles_total: "\<exists>d. anglesToVirtualAngles ext pos wl = Inr d
   \<and> map fst d = [''theta'', ''qaz'', ''alpha'', ''naz'', ''tau'', ''psi'', ''beta'']"
proof -
  obtain MU DELTA NU ETA CHI PHI where
    m: "createYouMatrices ext (mu pos) (delta pos) (nu pos) (eta pos) (chi pos) (phi pos)
          = (MU, DELTA, NU, ETA, CHI, PHI)"
    by (metis prod_cases3)
  obtain n0 n1 n2 where n: "mat_vec (mat_mul (mat_mul (mat_mul MU ETA) CHI) PHI) n_phi = (n0, n1, n2)"
    by (metis prod_cases3)
  show ?thesis
    by (simp add: anglesToVirtualAngles_eq [OF m n refl refl refl refl refl refl])
qed

text \<open>
  Claim C7, as amended. \<^verbatim>\<open>_anglesToVirtualAngles\<close> returns \<open>psi = NaN\<close> exactly when
  \<open>sin tau\<close> or \<open>cos theta\<close> is equal to zero (the source tests \<^verbatim>\<open>== 0\<close>, not nearness);
  in every other case psi is the real number
  \<open>arccos (bound ((cos tau * sin theta - sin alpha) / (sin tau * cos theta)))\<close>.
\<close>

theorem anglesToVirtualAngles_psi:
  "\<exists>theta qaz alpha naz' tau beta psi.
     anglesToVirtualAngles ext pos wl =
       Inr [(''theta'', Float theta), (''qaz'', Float qaz), (''alpha'', Float alpha),
            (''naz'', Float naz'), (''tau'', Float tau), (''psi'', psi), (''beta'', Float beta)]
     \<and> (psi = NaN \<longleftrightarrow> sin tau = 0 \<or> cos theta = 0)
     \<and> psi = (if sin tau = 0 \<or> cos theta = 0 then NaN
              else Float (arccos (bound ((cos tau * sin theta - sin alpha) / (sin tau * cos theta)))))"
proof -
  obtain MU DELTA NU ETA CHI PHI where
    m: "createYouMatrices ext (mu pos) (delta pos) (nu pos) (eta pos) (chi pos) (phi pos)
          = (MU, DELTA, NU, ETA, CHI, PHI)"
    by (metis prod_cases3)
  obtain n0 n1 n2 where n: "mat_vec (mat_mul (mat_mul (mat_mul MU ETA) CHI) PHI) n_phi = (n0, n1, n2)"
    by (metis prod_cases3)
  define theta where "theta = arccos (bound (cos (delta pos) * cos (nu pos))) / 2"
  define qaz where "qaz = atan2 (tan (delta pos)) (sin (nu pos))"
  define alpha where "alpha = arcsin (bound (- n1))"
  define naz' where "naz' = atan2 n0 n2"
  define tau where "tau = arccos (bound (cos alpha * cos theta * cos (naz' - qaz) + sin alpha * sin theta))"
  define beta where "beta = arcsin (bound (2 * sin theta * cos tau - sin alpha))"
  note eq = anglesToVirtualAngles_eq [OF m n theta_def qaz_def alpha_def naz'_def tau_def beta_def]
  show ?thesis
    apply (rule exI [of _ theta], rule exI [of _ qaz], rule exI [of _ alpha], rule exI [of _ naz'],
        rule exI [of _ tau], rule exI [of _ beta], rule exI [of _ "(if sin tau = 0 \<or> cos theta = 0 then NaN else Float (arccos (bound ((cos tau * sin theta - sin alpha) / (sin tau * cos theta)))))"])
    by (simp add: eq)
qed

text \<open>
  Claim C7 as stated fails: at \<open>nu = -2e-9\<close> and all other angles zero, \<open>sin tau\<close> is
  smaller than \<open>1e-8\<close> and psi is the real number \<open>\<pi>\<close>, not NaN.
\<close>

theorem anglesToVirtualAngles_psi_counterexample:
  "is_small (sin (pi - 1 / 10 ^ 9))
   \<and> anglesToVirtualAngles you_externals (YouPosition 0 0 (- (2 / 10 ^ 9)) 0 0 0) 1 =
     Inr [(''theta'', Float (1 / 10 ^ 9)), (''qaz'', Float pi), (''alpha'', Float 0),
          (''naz'', Float 0), (''tau'', Float (pi - 1 / 10 ^ 9)), (''psi'', Float pi),
          (''beta'', Float (- (2 / 10 ^ 9)))]"
proof -
  define x :: real where "x = 1 / 10 ^ 9"
  note sa = small_angle [OF x_def]
  let ?pos = "YouPosition 0 0 (- (2 * x)) 0 0 0"
  have m: "createYouMatrices you_externals (mu ?pos) (delta ?pos) (nu ?pos) (eta ?pos) (chi ?pos) (phi ?pos)
             = (I3, I3, x_rot (- (2 * x)), I3, I3, I3)"
    by (simp add: you_externals_def YouPosition_def x_rot_0 y_rot_0 z_rot_0)
  have th: "arccos (bound (cos (delta ?pos) * cos (nu ?pos))) / 2 = x"
    using sa pi_ge_two by (simp add: YouPosition_def bound_id arccos_cos)
  have qaz: "atan2 (tan (delta ?pos)) (sin (nu ?pos)) = pi"
  proof -
    have "0 < sin (2 * x)" using sa pi_ge_two by (intro sin_gt_zero) simp_all
    then show ?thesis by (simp add: YouPosition_def atan2_def)
  qed
  have al: "arcsin (bound (- 0)) = 0" by (simp add: bound_def)
  have naz: "atan2 0 1 = 0" by (simp add: atan2_def)
  have tau: "arccos (bound (cos 0 * cos x * cos (0 - pi) + sin 0 * sin x)) = pi - x"
    using sa pi_ge_two by (simp add: bound_id arccos_minus arccos_cos)
  have "2 * sin x * cos (pi - x) - sin 0 = - sin (2 * x)"
    by (simp add: sin_double)
  moreover have "arcsin (bound (- sin (2 * x))) = - (2 * x)"
    using sa by (simp add: bound_id arcsin_minus arcsin_sin)
  ultimately have be: "arcsin (bound (2 * sin x * cos (pi - x) - sin 0)) = - (2 * x)"
    by simp
  have psi: "(if sin (pi - x) = 0 \<or> cos x = 0 then NaN else Float (arccos (bound ((cos (pi - x) * sin x - sin 0) / (sin (pi - x) * cos x))))) = Float pi"
    using sa by (simp add: bound_def)
  have "anglesToVirtualAngles you_externals ?pos 1 =
     Inr [(''theta'', Float x), (''qaz'', Float pi), (''alpha'', Float 0),
          (''naz'', Float 0), (''tau'', Float (pi - x)), (''psi'', (if sin (pi - x) = 0 \<or> cos x = 0 then NaN else Float (arccos (bound ((cos (pi - x) * sin x - sin 0) / (sin (pi - x) * cos x)))))),
          (''beta'', Float (- (2 * x)))]"
    by (rule anglesToVirtualAngles_eq [OF m n_lab_zero th [symmetric] qaz [symmetric]
          al [symmetric] naz [symmetric] tau [symmetric] be [symmetric]])
  then have "anglesToVirtualAngles you_externals ?pos 1 =
     Inr [(''theta'', Float x), (''qaz'', Float pi), (''alpha'', Float 0),
          (''naz'', Float 0), (''tau'', Float (pi - x)), (''psi'', Float pi),
          (''beta'', Float (- (2 * x)))]"
    unfolding psi .
  moreover have "is_small (sin (pi - x))"
    using sa by (simp add: is_small_def SMALL_def x_def)
  ultimately show ?thesis by (simp add: x_def)
qed

text \<open>
  Claim C6, as amended. \<^verbatim>\<open>_calc_remaining_reference_angles\<close> raises a \<^verbatim>\<open>DiffcalcException\<close>
  when \<open>sin tau\<close> or \<open>cos theta\<close> is equal to zero. Otherwise: for psi it raises a
  \<^verbatim>\<open>DiffcalcException\<close> when the sine of alpha or of beta exceeds \<open>1 + 1e-8\<close> in magnitude
  and returns psi, alpha, beta if not; for a_eq_b it returns; for alpha it returns when the
  sine of beta is within \<open>[-1, 1]\<close>; for beta it raises a \<^verbatim>\<open>DiffcalcException\<close> when the sine
  of alpha exceeds \<open>1 + 1e-8\<close> in magnitude and returns when it is within \<open>[-1, 1]\<close>.
\<close>

theorem calc_remaining_reference_angles_cases:
  "(sin tau = 0 \<or> cos theta = 0
      \<longrightarrow> (\<exists>m. calc_remaining_reference_angles name v theta tau = Inl (DiffcalcException m)))
   \<and> (sin tau \<noteq> 0 \<and> cos theta \<noteq> 0 \<longrightarrow>
       (let A = cos tau * sin theta - cos theta * sin tau * cos v;
            B = cos tau * sin theta + cos theta * sin tau * cos v;
            C = 2 * sin theta * cos tau - sin v;
            E = arcsin (bound (cos tau * sin theta));
            psi_from = (\<lambda>alpha. arccos (bound ((cos tau * sin theta - sin alpha) / (sin tau * cos theta))))
        in calc_remaining_reference_angles ''psi'' v theta tau
             = (if \<bar>A\<bar> > 1 + SMALL \<or> \<bar>B\<bar> > 1 + SMALL
                then Inl (DiffcalcException ''No reflection can be reached where psi'')
                else Inr (v, arcsin (bound A), arcsin (bound B)))
         \<and> calc_remaining_reference_angles ''a_eq_b'' v theta tau = Inr (psi_from E, E, E)
         \<and> (\<bar>C\<bar> \<le> 1
              \<longrightarrow> calc_remaining_reference_angles ''alpha'' v theta tau
                    = Inr (psi_from v, v, arcsin C))
         \<and> (\<bar>C\<bar> > 1 + SMALL
              \<longrightarrow> calc_remaining_reference_angles ''beta'' v theta tau
                    = Inl (DiffcalcException ''No reflection can be reached where beta''))
         \<and> (\<bar>C\<bar> \<le> 1
              \<longrightarrow> calc_remaining_reference_angles ''beta'' v theta tau
                    = Inr (psi_from (arcsin C), arcsin C, v))))"
proof -
  have z: "sin tau = 0 \<or> cos theta = 0
      \<Longrightarrow> \<exists>m. calc_remaining_reference_angles name v theta tau = Inl (DiffcalcException m)"
    by (auto simp: calc_remaining_reference_angles_def)
  have S: "0 < SMALL" by (simp add: SMALL_def)
  {
    assume nz: "sin tau \<noteq> 0" "cos theta \<noteq> 0"
    then have d: "div_py a (sin tau * cos theta) = Inr (a / (sin tau * cos theta))" for a
      by (simp add: div_py_def)
    have "?thesis"
      using nz S
      by (auto simp: calc_remaining_reference_angles_def Let_def d ebind_Inr asin_py_bound
          acos_py_bound asin_py_ok ebind_Inl)
  }
  then show ?thesis using z by blast
qed

theorem calc_remaining_reference_angles_cases_witness:
  "(\<exists>m. calc_remaining_reference_angles ''beta'' 0 0 0 = Inl (DiffcalcException m))
   \<and> calc_remaining_reference_angles ''psi'' (pi / 2) 0 (pi / 2) = Inr (pi / 2, 0, 0)
   \<and> calc_remaining_reference_angles ''a_eq_b'' (pi / 2) 0 (pi / 2) = Inr (pi / 2, 0, 0)
   \<and> calc_remaining_reference_angles ''alpha'' (pi / 2) 0 (pi / 2) = Inr (pi, pi / 2, - (pi / 2))
   \<and> calc_remaining_reference_angles ''beta'' (pi / 2) 0 (pi / 2) = Inr (0, - (pi / 2), pi / 2)
   \<and> calc_remaining_reference_angles ''beta'' 0 (pi / 3) (pi / 6)
       = Inl (DiffcalcException ''No reflection can be reached where beta'')"
proof -
  have S: "0 < SMALL" "SMALL < 1 / 2" by (simp_all add: SMALL_def)
  have b: "bound 0 = 0" "bound (- 1) = - 1" "bound 1 = 1" by (simp_all add: bound_def)
  have 1: "\<exists>m. calc_remaining_reference_angles ''beta'' 0 0 0 = Inl (DiffcalcException m)"
    using calc_remaining_reference_angles_cases [where tau = 0 and theta = 0 and name = "''beta''" and v = 0] by simp
  have 2: "calc_remaining_reference_angles ''psi'' (pi / 2) 0 (pi / 2) = Inr (pi / 2, 0, 0)
      \<and> calc_remaining_reference_angles ''a_eq_b'' (pi / 2) 0 (pi / 2) = Inr (pi / 2, 0, 0)
      \<and> calc_remaining_reference_angles ''alpha'' (pi / 2) 0 (pi / 2) = Inr (pi, pi / 2, - (pi / 2))
      \<and> calc_remaining_reference_angles ''beta'' (pi / 2) 0 (pi / 2) = Inr (0, - (pi / 2), pi / 2)"
    using calc_remaining_reference_angles_cases [where tau = "pi / 2" and theta = 0 and v = "pi / 2"] S
    by (simp add: Let_def b)
  have "1 + SMALL < 3 / 2" using S by simp
  then have 3: "calc_remaining_reference_angles ''beta'' 0 (pi / 3) (pi / 6)
       = Inl (DiffcalcException ''No reflection can be reached where beta'')"
    using calc_remaining_reference_angles_cases [where tau = "pi / 6" and theta = "pi / 3" and v = 0]
    by (simp add: Let_def trig_vals)
  show ?thesis using 1 2 3 by simp
qed

text \<open>
  Claim C6 as stated fails: with \<open>sin tau\<close> smaller than \<open>1e-8\<close> but not zero the function
  returns, and for the alpha constraint a sine of beta of \<open>3/2\<close> ends in the \<^verbatim>\<open>ValueError\<close>
  of \<^verbatim>\<open>math.asin\<close>, not in a \<^verbatim>\<open>DiffcalcException\<close>.
\<close>

theorem calc_remaining_reference_angles_counterexample:
  "is_small (sin (1 / 10 ^ 9))
   \<and> calc_remaining_reference_angles ''a_eq_b'' 0 0 (1 / 10 ^ 9) = Inr (pi / 2, 0, 0)
   \<and> \<bar>2 * sin (pi / 3) * cos (pi / 6) - sin 0\<bar> > 1 + SMALL
   \<and> calc_remaining_reference_angles ''alpha'' 0 (pi / 3) (pi / 6) = Inl (ValueError ''math domain error'')"
proof -
  define x :: real where "x = 1 / 10 ^ 9"
  note sa = small_angle [OF x_def]
  have S: "0 < SMALL" "SMALL < 1 / 2" by (simp_all add: SMALL_def)
  have "is_small (sin x)"
    using sa by (simp add: is_small_def SMALL_def x_def)
  moreover have "calc_remaining_reference_angles ''a_eq_b'' 0 0 x = Inr (pi / 2, 0, 0)"
    using sa by (simp add: calc_remaining_reference_angles_def ebind_Inr asin_py_def acos_py_def
        div_py_def bound_def)
  moreover have "\<bar>2 * sin (pi / 3) * cos (pi / 6) - sin 0\<bar> > 1 + SMALL"
    using S by (simp add: trig_vals)
  moreover have "calc_remaining_reference_angles ''alpha'' 0 (pi / 3) (pi / 6) = Inl (ValueError ''math domain error'')"
    by (simp add: calc_remaining_reference_angles_def trig_vals asin_py_def ebind_Inl)
  ultimately show ?thesis by (simp add: x_def)
qed

lemma ebind_eq_Inr_iff: "ebind m f = Inr y \<longleftrightarrow> (\<exists>x. m = Inr x \<and> f x = Inr y)"
  by (cases m) (simp_all add: ebind_def)

lemma py_min_eq:
  fixes xs :: "real list"
  assumes "xs \<noteq> []"
  shows "py_min xs = Inr (Min (set xs))"
proof (cases xs)
  case Nil
  then show ?thesis using assms by simp
next
  case (Cons x r)
  have "fold min r x = Min (set (x # r))" by (rule Min.set_eq_fold [symmetric])
  then show ?thesis unfolding Cons by (simp add: py_min_def)
qed

lemma index_py_first:
  "v \<in> set xs \<Longrightarrow> \<exists>i. index_py xs v = Inr i \<and> i < length xs \<and> xs ! i = v \<and> (\<forall>j<i. xs ! j \<noteq> v)"
proof (induction xs)
  case Nil
  then show ?case by simp
next
  case (Cons x xs)
  show ?case
  proof (cases "x = v")
    case True
    then show ?thesis by simp
  next
    case False
    with Cons.prems have "v \<in> set xs" by simp
    from Cons.IH [OF this] obtain i where
      i: "index_py xs v = Inr i" "i < length xs" "xs ! i = v" "\<forall>j<i. xs ! j \<noteq> v" by blast
    have "\<forall>j<Suc i. (x # xs) ! j \<noteq> v"
      using False i(4) by (auto simp: nth_Cons split: nat.splits)
    with i False show ?thesis by (simp add: ebind_Inr)
  qed
qed

lemma choose_sample_angles_min:
  assumes "ts \<noteq> []"
  shows "\<exists>i<length ts. choose_sample_angles ts = Inr (ts ! i)
           \<and> (\<forall>j<length ts. absolute_distance (ts ! i) \<le> absolute_distance (ts ! j))
           \<and> (\<forall>j<i. absolute_distance (ts ! i) < absolute_distance (ts ! j))"
proof (cases "length ts = 1")
  case True
  then show ?thesis by (intro exI [of _ 0]) (simp add: choose_sample_angles_def)
next
  case False
  let ?ad = "map absolute_distance ts"
  have ne: "?ad \<noteq> []" using assms by simp
  have m: "py_min ?ad = Inr (Min (set ?ad))" using ne by (rule py_min_eq)
  have "Min (set ?ad) \<in> set ?ad" using ne by (intro Min_in) simp_all
  from index_py_first [OF this] obtain i where
    i: "index_py ?ad (Min (set ?ad)) = Inr i" "i < length ?ad" "?ad ! i = Min (set ?ad)"
       "\<forall>j<i. ?ad ! j \<noteq> Min (set ?ad)" by blast
  have le: "Min (set ?ad) \<le> ?ad ! j" if "j < length ts" for j
    using that by (intro Min_le) simp_all
  have "choose_sample_angles ts = Inr (ts ! i)"
    using assms False i(1,2) by (simp add: choose_sample_angles_def m ebind_Inr nth_py_def)
  moreover have "\<forall>j<length ts. absolute_distance (ts ! i) \<le> absolute_distance (ts ! j)"
    using le i(2,3) by (metis length_map nth_map)
  moreover have "\<forall>j<i. absolute_distance (ts ! i) < absolute_distance (ts ! j)"
  proof (intro allI impI)
    fix j assume "j < i"
    then have "j < length ts" using i(2) by simp
    from le [OF this] i(4) \<open>j < i\<close> have "Min (set ?ad) < ?ad ! j" by fastforce
    then show "absolute_distance (ts ! i) < absolute_distance (ts ! j)"
      using i(2,3) \<open>j < length ts\<close> by (metis length_map nth_map)
  qed
  ultimately show ?thesis using i(2) by auto
qed

lemma filter_valid_sample_solutions_eq:
  "filter_valid_sample_solutions ext UB d n ts wl hkl rn rv = Inr survivors
     \<Longrightarrow> survivors = filter (valid_sample ext UB d n wl hkl rn rv) ts"
proof (induction ts arbitrary: survivors)
  case Nil
  then show ?case by simp
next
  case (Cons t ts)
  obtain m e c p where t: "t = (m, e, c, p)" by (metis prod_cases4)
  obtain h k l where hkl: "hkl = (h, k, l)" by (metis prod_cases3)
  from Cons.prems obtain hkl' vok rest where
    a: "youAnglesToHkl ext (YouPosition m d n e c p) wl UB = Inr hkl'"
    and b: "(if (case (hkl, hkl') of ((h, k, l), (h', k', l')) \<Rightarrow> sequence_ne [h, k, l] [h', k', l'])
             then ebind (anglesToVirtualAngles ext (YouPosition m d n e c p) wl) (\<lambda>virtual_angles.
               if rn = ''a_eq_b'' then
                 ebind (getitem virtual_angles ''alpha'') (\<lambda>a.
                 ebind (getitem virtual_angles ''beta'') (\<lambda>b. Inr (ne_f a b)))
               else
                 ebind (getitem virtual_angles rn) (\<lambda>x.
                 Inr (ne_f (Float rv) x)))
             else Inr False) = Inr vok"
    and c: "filter_valid_sample_solutions ext UB d n ts wl hkl rn rv = Inr rest"
    and s: "survivors = (if (case (hkl, hkl') of ((h, k, l), (h', k', l')) \<Rightarrow> sequence_ne [h, k, l] [h', k', l']) \<and> vok
                         then (m, e, c, p) # rest else rest)"
    unfolding t by (auto simp: Let_def ebind_eq_Inr_iff)
  obtain h' k' l' where hkl': "hkl' = (h', k', l')" by (metis prod_cases3)
  have seq: "(case (hkl, hkl') of ((h, k, l), (h', k', l')) \<Rightarrow> sequence_ne [h, k, l] [h', k', l'])
      \<longleftrightarrow> ne h h' \<and> ne k k' \<and> ne l l'"
    by (simp add: hkl hkl')
  have rest: "rest = filter (valid_sample ext UB d n wl hkl rn rv) ts"
    using Cons.IH [OF c] .
  have v: "valid_sample ext UB d n wl hkl rn rv t \<longleftrightarrow> (ne h h' \<and> ne k k' \<and> ne l l') \<and> vok"
    using a b unfolding seq
    by (auto simp: valid_sample_def t hkl hkl' ebind_eq_Inr_iff split: if_splits)
  show ?case using s rest v unfolding seq by (simp add: t)
qed

lemma mat_I_z_rot: "mat_I (z_rot t) = Inr (z_rot (- t))"
proof -
  have "cos t * cos t + sin t * sin t = 1"
    using sin_cos_squared_add3 [of t] by (simp add: add.commute)
  then show ?thesis by (simp add: z_rot_def Let_def)
qed

lemma mat_I_I3: "mat_I I3 = Inr I3"
  by (simp add: I3_def)

lemma mat_I_UB_cubic: "mat_I UB_cubic = Inr ((1 / (2 * pi), 0, 0), (0, 1 / (2 * pi), 0), (0, 0, 1 / (2 * pi)))"
  by (simp add: UB_cubic_def Let_def field_simps)

lemma mat_mul_I3 [simp]: "mat_mul A I3 = A" "mat_mul I3 A = A"
  by (cases A; auto simp: I3_def)+

lemma youAnglesToHkl_example:
  "youAnglesToHkl you_externals (YouPosition 0 (pi / 3) 0 (pi / 6) 0 0) 1 UB_cubic = Inr (1, 0, 0)"
proof -
  have m: "createYouMatrices you_externals 0 (pi / 3) 0 (pi / 6) 0 0
      = (I3, z_rot (- (pi / 3)), I3, z_rot (- (pi / 6)), I3, I3)"
    by (simp add: you_externals_def x_rot_0 y_rot_0 z_rot_0)
  have s3: "sqrt 3 * sqrt 3 = 3" by simp
  have q: "mat_vec (mat_sub (z_rot (- (pi / 3))) I3) (0, 2 * pi, 0)
      = (sqrt 3 * pi, - pi, 0)"
    by (simp add: z_rot_def I3_def sin_60 cos_60)
  have r: "mat_vec (mat_mul ((1 / (2 * pi), 0, 0), (0, 1 / (2 * pi), 0), (0, 0, 1 / (2 * pi)))
                     (z_rot (pi / 6))) (sqrt 3 * pi, - pi, 0) = (1, 0, 0)"
    using s3 by (simp add: z_rot_def sin_30 cos_30 field_simps)
  show ?thesis
    by (simp add: youAnglesToHkl_def YouPosition_def m div_py_def ebind_Inr mat_I_z_rot mat_I_I3
        mat_I_UB_cubic q r del: mat_vec.simps mat_mul.simps mat_sub.simps mat_I.simps)
qed

lemma filter_detector_eq:
  "filter_detector_solutions_by_theta_and_qaz ps rt rq =
     Inr (filter (\<lambda>(d, n). ne (arccos (bound (cos d * cos n)) / 2) rt
                          \<and> ne (atan2 (tan d) (sin n)) rq) ps)"
proof (induction ps)
  case Nil
  then show ?case by simp
next
  case (Cons p ps)
  obtain d n where p: "p = (d, n)" by (cases p)
  show ?case unfolding p by (simp add: Cons theta_and_qaz_total ebind_Inr)
qed

lemma thetas_of_eq:
  "thetas_of ps = Inr (map (\<lambda>(d, n). arccos (bound (cos d * cos n)) / 2) ps)"
proof (induction ps)
  case Nil
  then show ?case by simp
next
  case (Cons p ps)
  obtain d n where p: "p = (d, n)" by (cases p)
  show ?case unfolding p by (simp add: Cons theta_and_qaz_total ebind_Inr)
qed

lemma min_by_mem: "min_by key best xs \<in> set (best # xs)"
  by (induction xs arbitrary: best) (auto split: if_splits)

lemma unpack2_product:
  "unpack2 (concat (map (\<lambda>t. map (\<lambda>bb. t @ [bb]) ns) (map (\<lambda>v. [v]) ds))) = Inr (List.product ds ns)"
proof (induction ds)
  case Nil
  then show ?case by simp
next
  case (Cons d ds)
  have a: "unpack2 (map (\<lambda>bb. [d, bb]) ns @ r) = ebind (unpack2 r) (\<lambda>x. Inr (map (Pair d) ns @ x))" for r
    by (induction ns) (simp_all add: ebind_def split: sum.splits)
  show ?case using Cons by (simp add: a ebind_Inr)
qed

lemma possible_detector_pairs:
  "\<exists>X. generate_possible_solutions hw [d0, n0] [''delta'', ''nu''] [cn] = Inr X
       \<and> unpack2 X = Inr (detector_candidates hw d0 n0 cn)"
proof -
  define ds where "ds = map cut_at_minus_pi (filter (within_limits hw ''delta'')
          (generate_transformed_values d0 (''delta'' = cn)))"
  define ns where "ns = map cut_at_minus_pi (filter (within_limits hw ''nu'')
          (generate_transformed_values n0 (''nu'' = cn)))"
  have "generate_possible_solutions hw [d0, n0] [''delta'', ''nu''] [cn]
          = Inr (concat (map (\<lambda>t. map (\<lambda>bb. t @ [bb]) ns) (map (\<lambda>v. [v]) ds)))"
    unfolding ds_def ns_def by (simp add: generate_possible_solutions_def expand_def)
  moreover have "unpack2 (concat (map (\<lambda>t. map (\<lambda>bb. t @ [bb]) ns) (map (\<lambda>v. [v]) ds)))
          = Inr (detector_candidates hw d0 n0 cn)"
    unfolding detector_candidates_def ds_def [symmetric] ns_def [symmetric]
    by (rule unpack2_product)
  ultimately show ?thesis by blast
qed

lemma generate_final_detector_angles_eq:
  assumes "\<not> (ne d0 (pi / 2) \<and> \<not> in_dict ''nu'' (detector cons))"
  shows "generate_final_detector_angles hw cons d0 n0 qaz theta cn =
     ebind (choose_closest_to_90 theta
        (filter (\<lambda>(d, n). ne (arccos (bound (cos d * cos n)) / 2) theta
                          \<and> ne (atan2 (tan d) (sin n)) qaz) (detector_candidates hw d0 n0 cn)))
       choose_detector_angles"
proof -
  obtain X where X: "generate_possible_solutions hw [d0, n0] [''delta'', ''nu''] [cn] = Inr X"
      "unpack2 X = Inr (detector_candidates hw d0 n0 cn)"
    using possible_detector_pairs by blast
  show ?thesis
    unfolding generate_final_detector_angles_def choose_closest_to_90_def if_not_P [OF assms]
    by (simp only: X ebind_Inr filter_detector_eq)
qed

lemma choose_detector_angles_mem: "choose_detector_angles ps = Inr p \<Longrightarrow> p \<in> set ps"
  by (cases ps) (auto simp: choose_detector_angles_def split: if_splits)

lemma choose_closest_to_90_subset:
  assumes "choose_closest_to_90 theta ps = Inr qs"
  shows "set qs \<subseteq> set ps"
proof (cases "length ps > 1 \<and> filter close_to_90 ps \<noteq> []")
  case False
  then show ?thesis using assms by (auto simp: choose_closest_to_90_def Let_def split: if_splits)
next
  case True
  let ?c = "filter close_to_90 ps"
  from True assms obtain i closest where
    "nth_py ?c i = Inr closest" and qs: "qs = filter (\<lambda>p. \<not> close_to_90 p) ps @ [closest]"
    by (auto simp: choose_closest_to_90_def Let_def thetas_of_eq ebind_Inr ebind_eq_Inr_iff split: list.splits)
  then have "closest \<in> set ?c"
    by (metis Inl_Inr_False nth_py_def nth_mem sum.inject(2))
  then show ?thesis using qs by auto
qed

lemma generate_final_detector_angles_mem:
  assumes "\<not> (ne d0 (pi / 2) \<and> \<not> in_dict ''nu'' (detector cons))"
    and "generate_final_detector_angles hw cons d0 n0 qaz theta cn = Inr p"
  shows "p \<in> set (detector_candidates hw d0 n0 cn)"
proof -
  from assms(2) obtain qs where
    sel: "choose_closest_to_90 theta
        (filter (\<lambda>(d, n). ne (arccos (bound (cos d * cos n)) / 2) theta
                          \<and> ne (atan2 (tan d) (sin n)) qaz) (detector_candidates hw d0 n0 cn)) = Inr qs"
    and ch: "choose_detector_angles qs = Inr p"
    unfolding generate_final_detector_angles_eq [OF assms(1)] by (auto simp: ebind_eq_Inr_iff)
  have "p \<in> set qs" using ch by (rule choose_detector_angles_mem)
  then show ?thesis using choose_closest_to_90_subset [OF sel] by auto
qed

lemma generate_final_detector_angles_empty:
  assumes "\<not> (ne d0 (pi / 2) \<and> \<not> in_dict ''nu'' (detector cons))"
    and "detector_candidates hw d0 n0 cn = []"
  shows "generate_final_detector_angles hw cons d0 n0 qaz theta cn
           = Inl (NoSolutionException ''No detector solutions were found'')"
  unfolding generate_final_detector_angles_eq [OF assms(1)] assms(2)
  by (simp add: choose_closest_to_90_def ebind_Inr choose_detector_angles_def)

lemma trig_fracs:
  "pi / 6 * TODEG = 30" "pi / 3 * TODEG = 60" "pi * TODEG = 180" "0 * TODEG = 0"
  "- (pi / 6) * TODEG = - 30" "(pi + pi / 6) * TODEG = 210" "(pi - pi / 6) * TODEG = 150"
  by (simp_all add: TODEG_def field_simps)

lemma within_example:
  "within_limits hw_example name (pi / 6)" "within_limits hw_example name (pi / 3)"
  "within_limits hw_example name 0" "\<not> within_limits hw_example name pi"
  "\<not> within_limits hw_example name (- (pi / 6))" "\<not> within_limits hw_example name (pi + pi / 6)"
  "\<not> within_limits hw_example name (pi - pi / 6)"
  unfolding within_limits_def trig_fracs by (simp_all add: hw_example_def)

lemma cut_example:
  "cut_at_minus_pi 0 = 0" "cut_at_minus_pi (pi / 6) = pi / 6" "cut_at_minus_pi (pi / 3) = pi / 3"
  using SMALL_pos pi_ge_two by (auto simp: cut_at_minus_pi_def)

lemma SMALL_lt: "SMALL < 1 / 100"
  by (simp add: SMALL_def)

lemma is_small_0: "is_small 0"
  by (simp add: is_small_def SMALL_pos)

lemma not_small_pi_fracs:
  "\<not> is_small (pi / 6)" "\<not> is_small (pi / 3)" "\<not> is_small (pi / 6 - pi / 2)"
  "\<not> is_small (pi / 6 + pi / 2)" "\<not> is_small (pi / 3 - pi / 2)" "\<not> is_small (pi / 3 + pi / 2)"
  using SMALL_lt pi_ge_two SMALL_pos unfolding is_small_def by (auto simp: abs_if)

lemma gtv_example:
  "generate_transformed_values 0 False = [0, pi]"
  "generate_transformed_values (pi / 6) False = [pi / 6, - (pi / 6), pi + pi / 6, pi - pi / 6]"
  "generate_transformed_values v True = [v]"
  using not_small_pi_fracs by (simp_all add: generate_transformed_values_def is_small_0)

lemma arccos_half: "arccos (1 / 2) = pi / 3"
  using arccos_cos [of "pi / 3"] by (simp add: cos_60)

lemma arcsin_half: "arcsin (1 / 2) = pi / 6"
  using arcsin_sin [of "pi / 6"] by (simp add: sin_30)

lemma atan2_example:
  "atan2 0 1 = 0" "atan2 (sqrt 3) 0 = pi / 2" "atan2 0 (sqrt 3 / 2) = 0" "atan2 0 (1 / 2) = 0"
  by (simp_all add: atan2_def)

lemma detector_example:
  "generate_final_detector_angles hw_example cons_example (pi / 3) 0 (pi / 2) (pi / 6) ''delta''
     = Inr (pi / 3, 0)"
proof -
  have nd: "\<not> (ne (pi / 3) (pi / 2) \<and> \<not> in_dict ''nu'' (detector cons_example))"
    using not_small_pi_fracs by (simp add: ne_def)
  have c: "detector_candidates hw_example (pi / 3) 0 ''delta'' = [(pi / 3, 0)]"
    by (simp add: detector_candidates_def gtv_example within_example cut_example)
  have f: "ne (arccos (bound (cos (pi / 3) * cos 0)) / 2) (pi / 6)
           \<and> ne (atan2 (tan (pi / 3)) (sin 0)) (pi / 2)"
    by (simp add: cos_60 tan_60 bound_def arccos_half atan2_example ne_def is_small_0)
  show ?thesis
    unfolding generate_final_detector_angles_eq [OF nd] c
    using f by (simp add: choose_closest_to_90_def ebind_Inr choose_detector_angles_def)
qed

lemma anglesToVirtualAngles_example:
  "anglesToVirtualAngles you_externals (YouPosition 0 (pi / 3) 0 (pi / 6) 0 0) 1 =
     Inr [(''theta'', Float (pi / 6)), (''qaz'', Float (pi / 2)), (''alpha'', Float 0),
          (''naz'', Float 0), (''tau'', Float (pi / 2)), (''psi'', Float (pi / 2)),
          (''beta'', Float 0)]"
proof -
  let ?pos = "YouPosition 0 (pi / 3) 0 (pi / 6) 0 0"
  have m: "createYouMatrices you_externals (mu ?pos) (delta ?pos) (nu ?pos) (eta ?pos) (chi ?pos) (phi ?pos)
      = (I3, z_rot (- (pi / 3)), I3, z_rot (- (pi / 6)), I3, I3)"
    by (simp add: you_externals_def x_rot_0 y_rot_0 z_rot_0 YouPosition_def)
  have n: "mat_vec (mat_mul (mat_mul (mat_mul I3 (z_rot (- (pi / 6)))) I3) I3) n_phi = (0, 0, 1)"
    by (simp add: z_rot_def n_phi_def I3_def)
  have th: "pi / 6 = arccos (bound (cos (delta ?pos) * cos (nu ?pos))) / 2"
    by (simp add: YouPosition_def cos_60 bound_def arccos_half)
  have qaz: "pi / 2 = atan2 (tan (delta ?pos)) (sin (nu ?pos))"
    by (simp add: YouPosition_def tan_60 atan2_example)
  have al: "0 = arcsin (bound (- 0))" by (simp add: bound_def)
  have naz: "0 = atan2 0 1" by (simp add: atan2_example)
  have tau: "pi / 2 = arccos (bound (cos 0 * cos (pi / 6) * cos (0 - pi / 2) + sin 0 * sin (pi / 6)))"
    by (simp add: bound_def)
  have be: "0 = arcsin (bound (2 * sin (pi / 6) * cos (pi / 2) - sin 0))"
    by (simp add: bound_def)
  have psi: "(if sin (pi / 2) = 0 \<or> cos (pi / 6) = 0 then NaN
     else Float (arccos (bound ((cos (pi / 2) * sin (pi / 6) - sin 0) / (sin (pi / 2) * cos (pi / 6))))))
     = Float (pi / 2)"
    by (simp add: cos_30 bound_def)
  show ?thesis
    using anglesToVirtualAngles_eq [OF m n th qaz al naz tau be, of 1] unfolding psi .
qed

lemma youAnglesToHkl_rejected_example:
  "youAnglesToHkl you_externals (YouPosition 0 (pi / 3) 0 0 0 0) 1 UB_cubic
              = Inr (sqrt 3 / 2, - (1 / 2), 0)"
proof -
  have m: "createYouMatrices you_externals 0 (pi / 3) 0 0 0 0
      = (I3, z_rot (- (pi / 3)), I3, I3, I3, I3)"
    by (simp add: you_externals_def x_rot_0 y_rot_0 z_rot_0)
  have q: "mat_vec (mat_sub (z_rot (- (pi / 3))) I3) (0, 2 * pi, 0) = (sqrt 3 * pi, - pi, 0)"
    by (simp add: z_rot_def I3_def sin_60 cos_60)
  have r: "mat_vec ((1 / (2 * pi), 0, 0), (0, 1 / (2 * pi), 0), (0, 0, 1 / (2 * pi)))
             (sqrt 3 * pi, - pi, 0) = (sqrt 3 / 2, - (1 / 2), 0)"
    by (simp add: field_simps)
  show ?thesis
    by (simp add: youAnglesToHkl_def YouPosition_def m div_py_def ebind_Inr mat_I_I3
        mat_I_UB_cubic q r del: mat_vec.simps mat_mul.simps mat_sub.simps mat_I.simps)
qed

lemma TODEG_2pi: "(v + 2 * pi) * TODEG = v * TODEG + 360" "(v - 2 * pi) * TODEG = v * TODEG - 360"
  by (simp_all add: TODEG_def field_simps)

lemma within_limits_cut:
  assumes "\<forall>name x. cutAngle hw name (x + 360) = cutAngle hw name x"
  shows "within_limits hw name (cut_at_minus_pi v) = within_limits hw name v"
proof -
  have "cutAngle hw name (v * TODEG - 360) = cutAngle hw name (v * TODEG)"
    using assms [rule_format, of name "v * TODEG - 360"] by simp
  then show ?thesis
    using assms by (simp add: within_limits_def cut_at_minus_pi_def TODEG_2pi)
qed

lemma detector_candidates_mem:
  "(d, n) \<in> set (detector_candidates hw d0 n0 cn) \<longleftrightarrow>
     (\<exists>vd\<in>set (generate_transformed_values d0 (''delta'' = cn)).
      \<exists>vn\<in>set (generate_transformed_values n0 (''nu'' = cn)).
        within_limits hw ''delta'' vd \<and> within_limits hw ''nu'' vn
        \<and> d = cut_at_minus_pi vd \<and> n = cut_at_minus_pi vn)"
  by (auto simp: detector_candidates_def)

lemma detector_candidates_empty:
  assumes "\<forall>vd\<in>set (generate_transformed_values d0 (''delta'' = cn)).
           \<forall>vn\<in>set (generate_transformed_values n0 (''nu'' = cn)).
             \<not> (within_limits hw ''delta'' vd \<and> within_limits hw ''nu'' vn)"
  shows "detector_candidates hw d0 n0 cn = []"
proof (rule ccontr)
  assume "detector_candidates hw d0 n0 cn \<noteq> []"
  then obtain d n where "(d, n) \<in> set (detector_candidates hw d0 n0 cn)"
    by (metis list.set_intros(1) neq_Nil_conv surj_pair)
  then show False using assms unfolding detector_candidates_mem by blast
qed

lemma hw_example_periodic: "cutAngle hw_example name (x + 360) = cutAngle hw_example name x"
proof -
  have "(x + 360 + 180) / 360 = (x + 180) / 360 + 1" by (simp add: field_simps)
  then have "\<lfloor>(x + 360 + 180) / 360\<rfloor> = \<lfloor>(x + 180) / 360 + 1\<rfloor>" by (rule arg_cong)
  also have "\<dots> = \<lfloor>(x + 180) / 360\<rfloor> + 1" using floor_add_int [of "(x + 180) / 360" 1] by simp
  finally have "\<lfloor>(x + 360 + 180) / 360\<rfloor> = \<lfloor>(x + 180) / 360\<rfloor> + 1" .
  then show ?thesis unfolding hw_example_def by (simp del: floor_divide_eq_div_numeral)
qed

text \<open>
  Claim C5, as amended. When the initial delta is nearly 90 degrees and nu is not a detector
  constraint, \<^verbatim>\<open>_generate_final_detector_angles\<close> returns the initial delta with \<open>nu = 0\<close>
  and consults no limit. In every other case: when every candidate pair has a value that the
  hardware rejects, it raises \<^verbatim>\<open>NoSolutionException\<close>; and a pair it returns is made of
  transformed values that the hardware accepted, cut at \<open>-\<pi>\<close>, so that the pair itself is
  within the limits when the hardware's cut is periodic in 360 degrees.
\<close>

theorem generate_final_detector_angles_limits:
  "(ne d0 (pi / 2) \<and> \<not> in_dict ''nu'' (detector cons)
      \<longrightarrow> generate_final_detector_angles hw cons d0 n0 qaz theta cn = Inr (d0, 0))
   \<and> (\<not> (ne d0 (pi / 2) \<and> \<not> in_dict ''nu'' (detector cons)) \<longrightarrow>
        ((\<forall>vd\<in>set (generate_transformed_values d0 (''delta'' = cn)).
          \<forall>vn\<in>set (generate_transformed_values n0 (''nu'' = cn)).
             \<not> (within_limits hw ''delta'' vd \<and> within_limits hw ''nu'' vn))
          \<longrightarrow> generate_final_detector_angles hw cons d0 n0 qaz theta cn
                = Inl (NoSolutionException ''No detector solutions were found''))
      \<and> (\<forall>d n. generate_final_detector_angles hw cons d0 n0 qaz theta cn = Inr (d, n) \<longrightarrow>
            (\<exists>vd\<in>set (generate_transformed_values d0 (''delta'' = cn)).
             \<exists>vn\<in>set (generate_transformed_values n0 (''nu'' = cn)).
               within_limits hw ''delta'' vd \<and> within_limits hw ''nu'' vn
               \<and> d = cut_at_minus_pi vd \<and> n = cut_at_minus_pi vn)
          \<and> ((\<forall>name x. cutAngle hw name (x + 360) = cutAngle hw name x)
               \<longrightarrow> within_limits hw ''delta'' d \<and> within_limits hw ''nu'' n)))"
proof (intro conjI impI allI)
  assume "ne d0 (pi / 2) \<and> \<not> in_dict ''nu'' (detector cons)"
  then show "generate_final_detector_angles hw cons d0 n0 qaz theta cn = Inr (d0, 0)"
    by (simp add: generate_final_detector_angles_def)
next
  assume nd: "\<not> (ne d0 (pi / 2) \<and> \<not> in_dict ''nu'' (detector cons))"
    and "\<forall>vd\<in>set (generate_transformed_values d0 (''delta'' = cn)).
          \<forall>vn\<in>set (generate_transformed_values n0 (''nu'' = cn)).
             \<not> (within_limits hw ''delta'' vd \<and> within_limits hw ''nu'' vn)"
  then have "detector_candidates hw d0 n0 cn = []" by (intro detector_candidates_empty)
  with nd show "generate_final_detector_angles hw cons d0 n0 qaz theta cn
                = Inl (NoSolutionException ''No detector solutions were found'')"
    by (rule generate_final_detector_angles_empty)
next
  fix d n
  assume nd: "\<not> (ne d0 (pi / 2) \<and> \<not> in_dict ''nu'' (detector cons))"
    and r: "generate_final_detector_angles hw cons d0 n0 qaz theta cn = Inr (d, n)"
  from generate_final_detector_angles_mem [OF nd r]
  show m: "\<exists>vd\<in>set (generate_transformed_values d0 (''delta'' = cn)).
             \<exists>vn\<in>set (generate_transformed_values n0 (''nu'' = cn)).
               within_limits hw ''delta'' vd \<and> within_limits hw ''nu'' vn
               \<and> d = cut_at_minus_pi vd \<and> n = cut_at_minus_pi vn"
    unfolding detector_candidates_mem .
  assume per: "\<forall>name x. cutAngle hw name (x + 360) = cutAngle hw name x"
  from m show "within_limits hw ''delta'' d" "within_limits hw ''nu'' n"
    using within_limits_cut [OF per] by auto
qed

theorem generate_final_detector_angles_limits_witness:
  "generate_final_detector_angles hw_example cons_example (pi / 3) 0 (pi / 2) (pi / 6) ''delta''
     = Inr (pi / 3, 0)
   \<and> within_limits hw_example ''delta'' (pi / 3) \<and> within_limits hw_example ''nu'' 0
   \<and> generate_final_detector_angles hw_none cons_example (pi / 3) 0 (pi / 2) (pi / 6) ''delta''
       = Inl (NoSolutionException ''No detector solutions were found'')
   \<and> generate_final_detector_angles hw_none cons_delta_90 (pi / 2) 0 (pi / 2) (pi / 4) ''delta''
       = Inr (pi / 2, 0)"
proof -
  have nd: "\<not> (ne (pi / 3) (pi / 2) \<and> \<not> in_dict ''nu'' (detector cons_example))"
    using not_small_pi_fracs by (simp add: ne_def)
  have per: "\<forall>name x. cutAngle hw_example name (x + 360) = cutAngle hw_example name x"
    using hw_example_periodic by blast
  have 1: "within_limits hw_example ''delta'' (pi / 3) \<and> within_limits hw_example ''nu'' 0"
    using generate_final_detector_angles_limits [of "pi / 3" cons_example hw_example 0 "pi / 2" "pi / 6" "''delta''"] nd per
      detector_example by blast
  have none: "\<forall>vd\<in>set (generate_transformed_values (pi / 3) (''delta'' = ''delta'')).
          \<forall>vn\<in>set (generate_transformed_values 0 (''nu'' = ''delta'')).
             \<not> (within_limits hw_none ''delta'' vd \<and> within_limits hw_none ''nu'' vn)"
    by (simp add: within_limits_def hw_none_def)
  have 2: "generate_final_detector_angles hw_none cons_example (pi / 3) 0 (pi / 2) (pi / 6) ''delta''
       = Inl (NoSolutionException ''No detector solutions were found'')"
    using generate_final_detector_angles_limits [of "pi / 3" cons_example hw_none 0 "pi / 2" "pi / 6" "''delta''"] nd none by blast
  have dg: "ne (pi / 2) (pi / 2) \<and> \<not> in_dict ''nu'' (detector cons_delta_90)"
    by (simp add: ne_def is_small_0 in_dict_def cons_delta_90_def)
  have 3: "generate_final_detector_angles hw_none cons_delta_90 (pi / 2) 0 (pi / 2) (pi / 4) ''delta''
       = Inr (pi / 2, 0)"
    using generate_final_detector_angles_limits [of "pi / 2" cons_delta_90 hw_none 0 "pi / 2" "pi / 4" "''delta''"] dg by blast
  show ?thesis using detector_example 1 2 3 by blast
qed

text \<open>
  Claim C5 as stated fails: with delta constrained to 90 degrees and a hardware that accepts
  no value at all, the pair \<open>(\<pi>/2, 0)\<close> is returned.
\<close>

theorem generate_final_detector_angles_limits_counterexample:
  "isAxisValueWithinLimits hw_none ''delta'' (cutAngle hw_none ''delta'' (pi / 2 * TODEG)) = False
   \<and> isAxisValueWithinLimits hw_none ''nu'' (cutAngle hw_none ''nu'' (0 * TODEG)) = False
   \<and> generate_final_detector_angles hw_none cons_delta_90 (pi / 2) 0 (pi / 2) (pi / 4) ''delta''
       = Inr (pi / 2, 0)"
  by (simp add: generate_final_detector_angles_def hw_none_def ne_def is_small_0 in_dict_def
      cons_delta_90_def)

lemma choose_sample_angles_mem: "choose_sample_angles ts = Inr t \<Longrightarrow> t \<in> set ts"
proof (cases "ts = []")
  case True
  assume "choose_sample_angles ts = Inr t"
  with True show ?thesis by (simp add: choose_sample_angles_def)
next
  case False
  assume r: "choose_sample_angles ts = Inr t"
  from choose_sample_angles_min [OF False] obtain i where
    "i < length ts" "choose_sample_angles ts = Inr (ts ! i)" by blast
  with r show ?thesis by (metis nth_mem sum.inject(2))
qed

lemma generate_final_sample_angles_valid:
  assumes "generate_final_sample_angles ext hw UB m0 e0 c0 p0 names d n wl hkl rn rv = Inr t"
  shows "valid_sample ext UB d n wl hkl rn rv t"
proof -
  from assms obtain ts survivors where
    f: "filter_valid_sample_solutions ext UB d n ts wl hkl rn rv = Inr survivors"
    and c: "choose_sample_angles survivors = Inr t"
    unfolding generate_final_sample_angles_def by (auto simp: ebind_eq_Inr_iff)
  from filter_valid_sample_solutions_eq [OF f] choose_sample_angles_mem [OF c]
  show ?thesis by simp
qed

lemma solve_for_xi_valid:
  assumes "solve_for_xi ext hw cons UB theta wl hkl rn rv m0 e0 c0 p0 xis = Inr (m, d, n, e, c, p)"
  shows "valid_sample ext UB d n wl hkl rn rv (m, e, c, p)"
  using assms
proof (induction xis)
  case Nil
  then show ?case by simp
next
  case (Cons xi xis)
  let ?q = "if xi + pi / 2 > 2 * pi then xi + pi / 2 - 2 * pi else xi + pi / 2"
  from Cons.prems obtain d0 n0 qaz where
    r: "(case generate_final_detector_angles hw cons d0 n0 qaz theta ''qaz'' of
           Inl (NoSolutionException _) \<Rightarrow>
             solve_for_xi ext hw cons UB theta wl hkl rn rv m0 e0 c0 p0 xis
         | Inl e \<Rightarrow> Inl e
         | Inr (delta1, nu1) \<Rightarrow>
             (case generate_final_sample_angles ext hw UB m0 e0 c0 p0 (map fst (sample cons))
                     delta1 nu1 wl hkl rn rv of
                Inl (NoSolutionException _) \<Rightarrow>
                  solve_for_xi ext hw cons UB theta wl hkl rn rv m0 e0 c0 p0 xis
              | Inl e \<Rightarrow> Inl e
              | Inr (m, e, c, p) \<Rightarrow> Inr (m, delta1, nu1, e, c, p))) = Inr (m, d, n, e, c, p)"
    by (auto simp: Let_def ebind_eq_Inr_iff simp del: generate_final_detector_angles_eq)
  show ?case
  proof (cases "generate_final_detector_angles hw cons d0 n0 qaz theta ''qaz''")
    case (Inl err)
    with r have "solve_for_xi ext hw cons UB theta wl hkl rn rv m0 e0 c0 p0 xis = Inr (m, d, n, e, c, p)"
      by (cases err) simp_all
    then show ?thesis by (rule Cons.IH)
  next
    case (Inr dn)
    obtain d1 n1 where dn: "dn = (d1, n1)" by (cases dn)
    show ?thesis
    proof (cases "generate_final_sample_angles ext hw UB m0 e0 c0 p0 (map fst (sample cons))
                     d1 n1 wl hkl rn rv")
      case (Inl err)
      with r Inr dn
      have "solve_for_xi ext hw cons UB theta wl hkl rn rv m0 e0 c0 p0 xis = Inr (m, d, n, e, c, p)"
        by (cases err) simp_all
      then show ?thesis by (rule Cons.IH)
    next
      case i: (Inr t)
      obtain m1 e1 c1 p1 where t: "t = (m1, e1, c1, p1)" by (metis prod_cases4)
      from r Inr dn i t have "m1 = m" "d1 = d" "n1 = n" "e1 = e" "c1 = c" "p1 = p" by simp_all
      with generate_final_sample_angles_valid [OF i] t show ?thesis by simp
    qed
  qed
qed

lemma sample_column_valid:
  assumes "sample_column ext hw cons UB hkl wl theta psi alpha h_phi rn rv det = Inr (m, d, n, e, c, p)"
  shows "valid_sample ext UB d n wl hkl rn rv (m, e, c, p)"
proof -
  consider (one) "length (sample cons) = 1" | (two) "length (sample cons) = 2"
    | (other) "length (sample cons) \<noteq> 1" "length (sample cons) \<noteq> 2"
    by blast
  then show ?thesis
  proof cases
    case one
    with assms obtain sname sval rest d0 n0 qaz naz0 where
      "sample cons = (sname, sval) # rest" "det = Some (d0, n0, qaz, naz0)"
      by (auto simp: sample_column_def split: list.splits option.splits prod.splits)
    with assms one obtain m0 e0 c0 p0 t where
      g: "generate_final_sample_angles ext hw UB m0 e0 c0 p0 [sname] d0 n0 wl hkl rn rv = Inr t"
      and t: "(case t of (m, e, c, p) \<Rightarrow> Inr (m, d0, n0, e, c, p)) = (Inr (m, d, n, e, c, p) :: error + _)"
      by (auto simp: sample_column_def Let_def ebind_eq_Inr_iff)
    obtain m1 e1 c1 p1 where "t = (m1, e1, c1, p1)" by (metis prod_cases4)
    with t generate_final_sample_angles_valid [OF g] show ?thesis by simp
  next
    case two
    with assms obtain xi m0 e0 c0 p0 where
      "solve_for_xi ext hw cons UB theta wl hkl rn rv m0 e0 c0 p0
               (generate_transformed_values xi False) = Inr (m, d, n, e, c, p)"
      by (auto simp: sample_column_def ebind_eq_Inr_iff)
    then show ?thesis by (rule solve_for_xi_valid)
  next
    case other
    with assms show ?thesis by (simp add: sample_column_def split: if_splits)
  qed
qed

lemma youAnglesToHkl_phi_periodic:
  assumes "\<And>m d n e c p. createYouMatrices ext m d n e c (p + 2 * pi) = createYouMatrices ext m d n e c p"
  shows "youAnglesToHkl ext (pos\<lparr>phi := phi pos + 2 * pi\<rparr>) wl UB = youAnglesToHkl ext pos wl UB"
  by (simp add: youAnglesToHkl_def assms)

lemma tidy_not_degenerate:
  assumes "\<not> degenerate cons (tidy_degenerate_solutions pos cons)"
  shows "tidy_degenerate_solutions pos cons = pos"
  using assms by (auto simp: degenerate_def tidy_degenerate_solutions_def Let_def split: if_splits)

lemma degenerate_phi: "degenerate cons (pos\<lparr>phi := x\<rparr>) = degenerate cons pos"
  by (simp add: degenerate_def)

lemma create_position_round_trip:
  assumes "create_position ext cons wl (m, d, n, e, c, p) = Inr (pos, va)"
    and "\<not> degenerate cons pos"
    and "\<And>m d n e c p. createYouMatrices ext m d n e c (p + 2 * pi) = createYouMatrices ext m d n e c p"
  shows "youAnglesToHkl ext pos wl UB = youAnglesToHkl ext (YouPosition m d n e c p) wl UB"
proof -
  let ?p0 = "YouPosition m d n e c p"
  let ?p1 = "tidy_degenerate_solutions ?p0 cons"
  have pos: "pos = (if phi ?p1 \<le> - pi + SMALL then ?p1\<lparr>phi := phi ?p1 + 2 * pi\<rparr> else ?p1)"
    using assms(1) by (auto simp: create_position_def Let_def ebind_eq_Inr_iff)
  then have "\<not> degenerate cons ?p1" using assms(2) by (auto simp: degenerate_phi split: if_splits)
  then have "?p1 = ?p0" by (rule tidy_not_degenerate)
  with pos show ?thesis using youAnglesToHkl_phi_periodic [OF assms(3)] by simp
qed

lemma sqrt3_facts: "sqrt 3 * sqrt 3 = 3" "(sqrt 3 / 2)\<^sup>2 = 3 / 4" "\<not> is_small (sqrt 3 / 2)" "sqrt 3 / 2 \<noteq> 0"
  "\<not> is_small (1 / 2)"
proof -
  show "sqrt 3 * sqrt 3 = 3" by simp
  show "(sqrt 3 / 2)\<^sup>2 = 3 / 4" by (simp add: power_divide)
  have "1 \<le> sqrt 3" by simp
  then show "\<not> is_small (sqrt 3 / 2)" using SMALL_lt unfolding is_small_def by linarith
  show "sqrt 3 / 2 \<noteq> 0" by simp
  show "\<not> is_small (1 / 2)" using SMALL_lt by (simp add: is_small_def)
qed

lemma h_phi_example: "mat_vec UB_cubic (1, 0, 0) = (2 * pi, 0, 0)"
  by (simp add: UB_cubic_def)

lemma norm_2pi: "norm3 (2 * pi, 0, 0) = 2 * pi"
  by (simp add: real_sqrt_mult)

lemma calc_theta_example: "calc_theta (2 * pi, 0, 0) 1 = Inr (pi / 6)"
  by (simp add: calc_theta_def norm_2pi div_py_def ebind_Inr asin_py_def arcsin_half
      del: norm3.simps)

lemma tau_example: "angle_between_vectors you_externals (2 * pi, 0, 0) n_phi = pi / 2"
  by (simp add: you_externals_def angle_between_def n_phi_def norm_2pi bound_def real_sqrt_mult)

lemma reference_example: "calc_remaining_reference_angles ''a_eq_b'' 1 (pi / 6) (pi / 2) = Inr (pi / 2, 0, 0)"
  by (simp add: calc_remaining_reference_angles_def cos_30 sin_30 bound_def asin_py_def acos_py_def
      div_py_def ebind_Inr)

lemma detector_angles_example: "calc_remaining_detector_angles ''delta'' (pi / 3) (pi / 6) = Inr (pi / 3, 0, pi / 2)"
proof -
  have t: "2 * (pi / 6) = pi / 3" by simp
  show ?thesis
    unfolding calc_remaining_detector_angles_def t
    using sqrt3_facts(3)
    by (simp add: sin_60 cos_60 div_py_def ebind_Inr bound_def asin_py_def atan2_example)
qed

lemma naz_qaz_example: "calc_angle_between_naz_and_qaz (pi / 6) 0 (pi / 2) = Inr (pi / 2)"
  using sqrt3_facts(3)
  by (simp add: calc_angle_between_naz_and_qaz_def cos_30 div_py_def ebind_Inr bound_def acos_py_def)

lemma detector_column_example: "detector_column hw_example cons_example (pi / 6) 0 (pi / 2) = Inr (Some (pi / 3, 0, pi / 2, 0))"
proof -
  have d: "detector cons_example = [(''delta'', pi / 3)]" "naz cons_example = []"
    by (simp_all add: cons_example_def)
  show ?thesis
    unfolding detector_column_def d
    by (simp add: detector_angles_example naz_qaz_example ebind_Inr detector_example)
qed

lemma norm_unit: "norm3 (sqrt 3 / 2, - (1 / 2), 0) = 1" "norm3 (0, 0, 1) = 1" "norm3 (1, 0, 0) = 1"
  "norm3 (- (1 / 2), - (sqrt 3 / 2), 0) = 1" "norm3 (0, - 1, 0) = 1"
  by (simp_all add: power_divide)

lemma not_small_half_pi: "\<not> is_small (pi / 2)"
  using SMALL_lt pi_ge_two unfolding is_small_def by linarith

lemma calc_N_lab_example:
  "calc_N you_externals (sqrt 3 / 2, - (1 / 2), 0) (0, 0, 1)
     = Inr ((sqrt 3 / 2, 0, - (1 / 2)), (- (1 / 2), 0, - (sqrt 3 / 2)), (0, 1, 0))"
proof -
  have a: "angle_between_vectors you_externals (sqrt 3 / 2, - (1 / 2), 0) (0, 0, 1) = pi / 2"
    by (simp add: you_externals_def angle_between_def norm_unit bound_def del: norm3.simps)
  have c1: "cross3 you_externals (sqrt 3 / 2, - (1 / 2), 0) (0, 0, 1) = (- (1 / 2), - (sqrt 3 / 2), 0)"
    by (simp add: you_externals_def)
  have c2: "cross3 you_externals (- (1 / 2), - (sqrt 3 / 2), 0) (sqrt 3 / 2, - (1 / 2), 0) = (0, 0, 1)"
    using sqrt3_facts(1) by (simp add: you_externals_def)
  show ?thesis
    unfolding calc_N_def
    by (simp add: norm_unit div_py_def ebind_Inr a c1 c2 not_small_half_pi Let_def
        del: norm3.simps)
qed

lemma calc_N_phi_example:
  "calc_N you_externals (2 * pi, 0, 0) (0, 0, 1) = Inr ((1, 0, 0), (0, 0, - 1), (0, 1, 0))"
proof -
  have a: "angle_between_vectors you_externals (1, 0, 0) (0, 0, 1) = pi / 2"
    by (simp add: you_externals_def angle_between_def norm_unit bound_def del: norm3.simps)
  have c1: "cross3 you_externals (1, 0, 0) (0, 0, 1) = (0, - 1, 0)"
    by (simp add: you_externals_def)
  have c2: "cross3 you_externals (0, - 1, 0) (1, 0, 0) = (0, 0, 1)"
    by (simp add: you_externals_def)
  have s: "vec_scale (2 * pi, 0, 0) (1 / (2 * pi)) = (1, 0, 0)" by simp
  show ?thesis
    unfolding calc_N_def
    by (simp add: norm_2pi norm_unit div_py_def ebind_Inr s a c1 c2 not_small_half_pi Let_def
        del: norm3.simps)
qed

lemma atan2_30: "atan2 (1 / 2) (sqrt 3 / 2) = pi / 6"
proof -
  have "arctan (1 / sqrt 3) = pi / 6"
    by (rule arctan_unique) (use pi_ge_two in \<open>simp_all add: tan_30\<close>)
  then show ?thesis by (simp add: atan2_def)
qed

lemma sample_angles_example:
  "calc_remaining_sample_angles you_externals ''phi'' 0 (sqrt 3 / 2, - (1 / 2), 0) (0, 0, 1)
      (2 * pi, 0, 0) n_phi = Inr (0, 0, pi / 6, 0)"
proof -
  have i: "mat_I ((1, 0, 0), (0, 0, - 1), (0, 1, 0)) = Inr ((1, 0, 0), (0, 0, 1), (0, - 1, 0))"
    by (simp add: Let_def)
  have p: "calcPHI you_externals 0 = I3" by (simp add: you_externals_def z_rot_0)
  have V: "mat_mul (mat_mul ((sqrt 3 / 2, 0, - (1 / 2)), (- (1 / 2), 0, - (sqrt 3 / 2)), (0, 1, 0))
                      ((1, 0, 0), (0, 0, 1), (0, - 1, 0))) (mat_T I3)
             = ((sqrt 3 / 2, 1 / 2, 0), (- (1 / 2), sqrt 3 / 2, 0), (0, 0, 1))"
    by (simp add: I3_def)
  show ?thesis
    unfolding calc_remaining_sample_angles_def n_phi_def
    using sqrt3_facts(3)
    by (simp add: calc_N_lab_example calc_N_phi_example ebind_Inr i p V atan2_30 atan2_example cos_30 Let_def
        del: mat_I.simps mat_mul.simps mat_T.simps)
qed

lemma filter_single:
  "filter_valid_sample_solutions you_externals UB_cubic (pi / 3) 0 [(0, pi / 6, 0, 0)] 1
       (1, 0, 0) ''a_eq_b'' 1 = Inr [(0, pi / 6, 0, 0)]"
proof -
  have a: "ne 1 1" "ne 0 0" by (simp_all add: ne_def is_small_def SMALL_def)
  show ?thesis
    by (simp add: youAnglesToHkl_example anglesToVirtualAngles_example ebind_Inr getitem_def a Let_def)
qed

lemma within_example_normal:
  "\<not> within_limits hw_example name (5 * pi / 6)" "\<not> within_limits hw_example name (7 * pi / 6)"
proof -
  have e: "5 * pi / 6 = pi - pi / 6" "7 * pi / 6 = pi + pi / 6" by simp_all
  show "\<not> within_limits hw_example name (5 * pi / 6)"
    unfolding e by (rule within_example)
  show "\<not> within_limits hw_example name (7 * pi / 6)"
    unfolding e by (rule within_example)
qed

lemma final_sample_angles_example:
  "generate_final_sample_angles you_externals hw_example UB_cubic 0 (pi / 6) 0 0 [''phi''] (pi / 3) 0 1
      (1, 0, 0) ''a_eq_b'' 1 = Inr (0, pi / 6, 0, 0)"
proof -
  have g: "generate_possible_solutions hw_example [0, pi / 6, 0, 0] [''mu'', ''eta'', ''chi'', ''phi'']
             [''phi''] = Inr [[0, pi / 6, 0, 0]]"
    by (simp add: generate_possible_solutions_def gtv_example within_example within_example_normal
        cut_example expand_def)
  show ?thesis
    unfolding generate_final_sample_angles_def g
    by (simp add: ebind_Inr filter_single choose_sample_angles_def
        del: filter_valid_sample_solutions.simps)
qed

lemma sample_column_example:
  "sample_column you_externals hw_example cons_example UB_cubic (1, 0, 0) 1 (pi / 6) (pi / 2) 0
      (2 * pi, 0, 0) ''a_eq_b'' 1 (Some (pi / 3, 0, pi / 2, 0)) = Inr (0, pi / 3, 0, pi / 6, 0, 0)"
proof -
  have s: "sample cons_example = [(''phi'', 0)]" by (simp add: cons_example_def)
  show ?thesis
    unfolding sample_column_def s
    by (simp add: cos_30 sin_30 sample_angles_example final_sample_angles_example ebind_Inr)
qed

lemma create_position_example:
  "create_position you_externals cons_example 1 (0, pi / 3, 0, pi / 6, 0, 0) =
     Inr (YouPosition 0 (pi / 3) 0 (pi / 6) 0 0,
          [(''theta'', Float (pi / 6)), (''qaz'', Float (pi / 2)), (''alpha'', Float 0),
           (''naz'', Float 0), (''tau'', Float (pi / 2)), (''psi'', Float (pi / 2)),
           (''beta'', Float 0)])"
proof -
  have t: "tidy_degenerate_solutions (YouPosition 0 (pi / 3) 0 (pi / 6) 0 0) cons_example
             = YouPosition 0 (pi / 3) 0 (pi / 6) 0 0"
    using not_small_pi_fracs
    by (simp add: tidy_degenerate_solutions_def cons_example_def YouPosition_def in_dict_def Let_def)
  have p: "\<not> pi \<le> SMALL"
    using SMALL_lt pi_ge_two by linarith
  have q: "phi (YouPosition 0 (pi / 3) 0 (pi / 6) 0 0) = 0" by (simp add: YouPosition_def)
  show ?thesis
    unfolding create_position_def
    by (simp add: t p q anglesToVirtualAngles_example ebind_Inr Let_def)
qed

lemma hklToAngles_example:
  "hklToAngles you_externals hw_example cons_example UB_cubic 1 0 0 1 =
     Inr (YouPosition 0 (pi / 3) 0 (pi / 6) 0 0,
          [(''theta'', Float (pi / 6)), (''qaz'', Float (pi / 2)), (''alpha'', Float 0),
           (''naz'', Float 0), (''tau'', Float (pi / 2)), (''psi'', Float (pi / 2)),
           (''beta'', Float 0)])"
proof -
  have r: "reference cons_example = [(''a_eq_b'', 1)]" "detector cons_example \<noteq> []"
    "naz cons_example = []"
    by (simp_all add: cons_example_def)
  show ?thesis
    unfolding hklToAngles_def h_phi_example r
    by (simp add: calc_theta_example tau_example reference_example detector_column_example sample_column_example create_position_example ebind_Inr Let_def r)
qed

lemma you_externals_periodic:
  "createYouMatrices you_externals m d n e c (p + 2 * pi) = createYouMatrices you_externals m d n e c p"
proof -
  have "cos (- p - 2 * pi) = cos (- p)" "sin (- p - 2 * pi) = sin (- p)"
    using cos_periodic [of "- p - 2 * pi"] sin_periodic [of "- p - 2 * pi"] by simp_all
  then show ?thesis by (simp add: you_externals_def z_rot_def)
qed

text \<open>
  Claim C1. Whenever \<^verbatim>\<open>_hklToAngles(h, k, l, wavelength)\<close> returns a position that is in
  neither of the two degenerate configurations, \<^verbatim>\<open>youAnglesToHkl\<close> of that position, with the
  same wavelength and UB matrix, returns Miller indices within \<open>1e-6\<close> of \<open>(h, k, l)\<close> in
  each component. The rotation matrices are taken to be periodic in phi, as rotations are.
\<close>

theorem hklToAngles_round_trip:
  assumes "hklToAngles ext hw cons UB h k l wl = Inr (pos, va)"
    and "\<not> degenerate cons pos"
    and "\<And>m d n e c p. createYouMatrices ext m d n e c (p + 2 * pi) = createYouMatrices ext m d n e c p"
  shows "\<exists>h' k' l'. youAnglesToHkl ext pos wl UB = Inr (h', k', l')
           \<and> \<bar>h' - h\<bar> < 1 / 10 ^ 6 \<and> \<bar>k' - k\<bar> < 1 / 10 ^ 6 \<and> \<bar>l' - l\<bar> < 1 / 10 ^ 6"
proof -
  obtain rn rv rest where r: "reference cons = (rn, rv) # rest"
    using assms(1) unfolding hklToAngles_def
    by (cases "reference cons") (auto simp: Let_def ebind_eq_Inr_iff)
  from assms(1) obtain theta psi alpha det angles where
    s: "sample_column ext hw cons UB (h, k, l) wl theta psi alpha (mat_vec UB (h, k, l)) rn rv det
          = Inr angles"
    and c: "create_position ext cons wl angles = Inr (pos, va)"
    unfolding hklToAngles_def r
    by (auto simp: Let_def ebind_eq_Inr_iff split: if_splits)
  obtain m d n e c' p where a: "angles = (m, d, n, e, c', p)" by (metis prod_cases6)
  from sample_column_valid [OF s [unfolded a]]
  obtain h' k' l' where
    y: "youAnglesToHkl ext (YouPosition m d n e c' p) wl UB = Inr (h', k', l')"
    and ne: "ne h h'" "ne k k'" "ne l l'"
    by (auto simp: valid_sample_def)
  have "youAnglesToHkl ext pos wl UB = Inr (h', k', l')"
    using create_position_round_trip [OF c [unfolded a] assms(2,3)] y by simp
  moreover have "\<bar>h' - h\<bar> < 1 / 10 ^ 6" "\<bar>k' - k\<bar> < 1 / 10 ^ 6" "\<bar>l' - l\<bar> < 1 / 10 ^ 6"
    using ne by (simp_all add: ne_def is_small_def SMALL_def abs_minus_commute)
  ultimately show ?thesis by blast
qed

theorem hklToAngles_round_trip_witness:
  "hklToAngles you_externals hw_example cons_example UB_cubic 1 0 0 1 =
     Inr (YouPosition 0 (pi / 3) 0 (pi / 6) 0 0,
          [(''theta'', Float (pi / 6)), (''qaz'', Float (pi / 2)), (''alpha'', Float 0),
           (''naz'', Float 0), (''tau'', Float (pi / 2)), (''psi'', Float (pi / 2)),
           (''beta'', Float 0)])
   \<and> (\<exists>h' k' l'. youAnglesToHkl you_externals (YouPosition 0 (pi / 3) 0 (pi / 6) 0 0) 1 UB_cubic
                    = Inr (h', k', l')
          \<and> \<bar>h' - 1\<bar> < 1 / 10 ^ 6 \<and> \<bar>k' - 0\<bar> < 1 / 10 ^ 6 \<and> \<bar>l' - 0\<bar> < 1 / 10 ^ 6)"
proof -
  have nd: "\<not> degenerate cons_example (YouPosition 0 (pi / 3) 0 (pi / 6) 0 0)"
    using not_small_pi_fracs
    by (simp add: degenerate_def cons_example_def YouPosition_def in_dict_def)
  from hklToAngles_round_trip [OF hklToAngles_example nd you_externals_periodic] hklToAngles_example
  show ?thesis by blast
qed

subsection \<open>The fixture of the forward kinematics\<close>

text \<open>
  The numbers of \<^verbatim>\<open>test_anglesToHkl_arbitrary\<close> are checked by interval arithmetic over the
  reals: the sines of the small angles are enclosed by their Taylor polynomials, the cosines
  by the half-angle formula, the angles near 30 and 60 degrees by the addition formulas, and
  every product and sum of the rotation chain by rational bounds.
\<close>

lemma sin_coeff_vals:
  "sin_coeff 0 = 0" "sin_coeff (Suc 0) = 1" "sin_coeff 2 = 0" "sin_coeff 3 = - 1 / 6" "sin_coeff 4 = 0"
  "sin_coeff 5 = 1 / 120" "sin_coeff 6 = 0" "sin_coeff 7 = - 1 / 5040" "sin_coeff 8 = 0"
  "sin_coeff 9 = 1 / 362880" "sin_coeff 10 = 0"
  by (simp_all add: sin_coeff_def fact_numeral)

lemma sum_upto_7: "(\<Sum>m<7. f m) = f 0 + f 1 + f 2 + f 3 + f 4 + f 5 + f 6" for f :: "nat \<Rightarrow> real"
  by (simp add: eval_nat_numeral)

lemma sum_upto_11:
  "(\<Sum>m<11. f m) = f 0 + f 1 + f 2 + f 3 + f 4 + f 5 + f 6 + f 7 + f 8 + f 9 + f 10"
  for f :: "nat \<Rightarrow> real"
  by (simp add: eval_nat_numeral)

lemma fact_vals: "inverse (fact 7 :: real) = 1 / 5040" "inverse (fact 11 :: real) = 1 / 39916800"
  by (simp_all add: fact_numeral)

lemma sin_taylor7:
  fixes x :: real
  shows "sin x \<le> x - x ^ 3 / 6 + x ^ 5 / 120 + \<bar>x\<bar> ^ 7 / 5040"
    and "x - x ^ 3 / 6 + x ^ 5 / 120 - \<bar>x\<bar> ^ 7 / 5040 \<le> sin x"
proof -
  have s: "(\<Sum>m<7. sin_coeff m * x ^ m) = x - x ^ 3 / 6 + x ^ 5 / 120"
    unfolding sum_upto_7 by (simp add: sin_coeff_vals)
  have "\<bar>sin x - (x - x ^ 3 / 6 + x ^ 5 / 120)\<bar> \<le> 1 / 5040 * \<bar>x\<bar> ^ 7"
    using Maclaurin_sin_bound [of x 7] unfolding s fact_vals .
  then show "sin x \<le> x - x ^ 3 / 6 + x ^ 5 / 120 + \<bar>x\<bar> ^ 7 / 5040"
    and "x - x ^ 3 / 6 + x ^ 5 / 120 - \<bar>x\<bar> ^ 7 / 5040 \<le> sin x"
    by linarith+
qed

lemma sin_taylor11:
  fixes x :: real
  shows "sin x \<le> x - x ^ 3 / 6 + x ^ 5 / 120 - x ^ 7 / 5040 + x ^ 9 / 362880 + \<bar>x\<bar> ^ 11 / 39916800"
    and "x - x ^ 3 / 6 + x ^ 5 / 120 - x ^ 7 / 5040 + x ^ 9 / 362880 - \<bar>x\<bar> ^ 11 / 39916800 \<le> sin x"
proof -
  have s: "(\<Sum>m<11. sin_coeff m * x ^ m) = x - x ^ 3 / 6 + x ^ 5 / 120 - x ^ 7 / 5040 + x ^ 9 / 362880"
    unfolding sum_upto_11 by (simp add: sin_coeff_vals)
  have "\<bar>sin x - (x - x ^ 3 / 6 + x ^ 5 / 120 - x ^ 7 / 5040 + x ^ 9 / 362880)\<bar> \<le> 1 / 39916800 * \<bar>x\<bar> ^ 11"
    using Maclaurin_sin_bound [of x 11] unfolding s fact_vals .
  then show "sin x \<le> x - x ^ 3 / 6 + x ^ 5 / 120 - x ^ 7 / 5040 + x ^ 9 / 362880 + \<bar>x\<bar> ^ 11 / 39916800"
    and "x - x ^ 3 / 6 + x ^ 5 / 120 - x ^ 7 / 5040 + x ^ 9 / 362880 - \<bar>x\<bar> ^ 11 / 39916800 \<le> sin x"
    by linarith+
qed

lemma pi_bounds: "3.1415926 < pi" "pi < 3.1415927"
proof -
  let ?lo = "3.1415926 / 6 :: real" and ?hi = "3.1415927 / 6 :: real"
  have lo: "sin ?lo < 1 / 2"
    by (rule le_less_trans [OF sin_taylor11(1)]) (simp add: power_divide)
  have hi: "1 / 2 < sin ?hi"
    by (rule less_le_trans [OF _ sin_taylor11(2)]) (simp add: power_divide)
  have r: "- (pi / 2) \<le> ?lo" "?lo \<le> pi / 2" "- (pi / 2) \<le> ?hi" "?hi \<le> pi / 2"
    "- (pi / 2) \<le> pi / 6" "pi / 6 \<le> pi / 2"
    using pi_ge_two by simp_all
  have "sin ?lo < sin (pi / 6)" using lo by (simp add: sin_30)
  then have "?lo < pi / 6" using sin_mono_less_eq [OF r(1,2,5,6)] by simp
  then show "3.1415926 < pi" by simp
  have "sin (pi / 6) < sin ?hi" using hi by (simp add: sin_30)
  then have "pi / 6 < ?hi" using sin_mono_less_eq [OF r(5,6,3,4)] by simp
  then show "pi < 3.1415927" by simp
qed

lemma mult_enclose:
  fixes a b :: real
  assumes "0 \<le> al" "al \<le> a" "a \<le> ah" "bl \<le> b" "b \<le> bh"
    and "l \<le> al * bl" "l \<le> ah * bl" "al * bh \<le> u" "ah * bh \<le> u"
  shows "l \<le> a * b \<and> a * b \<le> u"
proof
  have a0: "0 \<le> a" using assms(1,2) by simp
  have "l \<le> a * bl"
  proof (cases "0 \<le> bl")
    case True
    then have "al * bl \<le> a * bl" using assms(2) by (intro mult_right_mono)
    with assms(6) show ?thesis by simp
  next
    case False
    then have "ah * bl \<le> a * bl" using assms(3) by (intro mult_right_mono_neg) simp_all
    with assms(7) show ?thesis by simp
  qed
  also have "a * bl \<le> a * b" using a0 assms(4) by (intro mult_left_mono)
  finally show "l \<le> a * b" .
  have "a * b \<le> a * bh" using a0 assms(5) by (intro mult_left_mono)
  also have "a * bh \<le> u"
  proof (cases "0 \<le> bh")
    case True
    then have "a * bh \<le> ah * bh" using assms(3) by (intro mult_right_mono)
    with assms(9) show ?thesis by simp
  next
    case False
    then have "a * bh \<le> al * bh" using assms(2) by (intro mult_right_mono_neg) simp_all
    with assms(8) show ?thesis by simp
  qed
  finally show "a * b \<le> u" .
qed

lemma sin_enclosure:
  fixes x :: real
  assumes "0 \<le> xl" "xl \<le> x" "x \<le> xh" "xh \<le> 1"
    and "sl \<le> xl - xl ^ 3 / 6 + xl ^ 5 / 120 - xl ^ 7 / 5040"
    and "xh - xh ^ 3 / 6 + xh ^ 5 / 120 + xh ^ 7 / 5040 \<le> sh"
  shows "sl \<le> sin x \<and> sin x \<le> sh"
proof
  have r: "- (pi / 2) \<le> xl" "xl \<le> pi / 2" "- (pi / 2) \<le> x" "x \<le> pi / 2"
    "- (pi / 2) \<le> xh" "xh \<le> pi / 2"
    using assms(1-4) pi_ge_two by linarith+
  have "sl \<le> xl - xl ^ 3 / 6 + xl ^ 5 / 120 - \<bar>xl\<bar> ^ 7 / 5040" using assms(1,5) by simp
  also have "\<dots> \<le> sin xl" by (rule sin_taylor7)
  also have "sin xl \<le> sin x" using sin_mono_le_eq [OF r(1,2,3,4)] assms(2) by simp
  finally show "sl \<le> sin x" .
  have xh0: "0 \<le> xh" using assms(1-3) by linarith
  have "sin x \<le> sin xh" using sin_mono_le_eq [OF r(3,4,5,6)] assms(3) by simp
  also have "sin xh \<le> xh - xh ^ 3 / 6 + xh ^ 5 / 120 + \<bar>xh\<bar> ^ 7 / 5040" by (rule sin_taylor7)
  also have "\<dots> \<le> sh" using xh0 assms(6) by simp
  finally show "sin x \<le> sh" .
qed

lemma cos_enclosure:
  fixes x :: real
  assumes "0 \<le> sl" "sl \<le> sin (x / 2)" "sin (x / 2) \<le> sh"
    and "cl \<le> 1 - 2 * (sh * sh)" "1 - 2 * (sl * sl) \<le> cu"
  shows "cl \<le> cos x \<and> cos x \<le> cu"
proof -
  have c: "cos x = 1 - 2 * (sin (x / 2) * sin (x / 2))"
    using cos_double_sin [of "x / 2"] by (simp add: power2_eq_square)
  have "sl * sl \<le> sin (x / 2) * sin (x / 2)"
    using assms(1,2) by (intro mult_mono) simp_all
  moreover have "sin (x / 2) * sin (x / 2) \<le> sh * sh"
    using assms(1,2,3) by (intro mult_mono) simp_all
  ultimately show ?thesis using assms(4,5) unfolding c by linarith
qed

lemma TORAD_bounds: "0.017453292 < TORAD" "TORAD < 0.017453293"
  using pi_bounds by (simp_all add: TORAD_def)

lemma mat_vec_mat_mul: "mat_vec (mat_mul A B) v = mat_vec A (mat_vec B v)"
  by (cases A; cases B; cases v) (auto simp: algebra_simps)

lemma mat_I_x_rot: "mat_I (x_rot t) = Inr (x_rot (- t))"
proof -
  have "cos t * cos t + sin t * sin t = 1"
    using sin_cos_squared_add3 [of t] by (simp add: add.commute)
  then show ?thesis by (simp add: x_rot_def Let_def)
qed

lemma mat_I_y_rot: "mat_I (y_rot t) = Inr (y_rot (- t))"
proof -
  have "cos t * cos t + sin t * sin t = 1"
    using sin_cos_squared_add3 [of t] by (simp add: add.commute)
  then show ?thesis by (simp add: y_rot_def Let_def)
qed

lemma mat_vec_vec_scale: "mat_vec A (vec_scale v c) = vec_scale (mat_vec A v) c"
  by (cases A; cases v) (auto simp: algebra_simps)

lemma mat_scale_mat_vec: "mat_vec (mat_scale A c) v = vec_scale (mat_vec A v) c"
  by (cases A; cases v) (auto simp: algebra_simps)

lemma vec_scale_vec_scale: "vec_scale (vec_scale v a) b = vec_scale v (a * b)"
  by (cases v) simp

lemma vec_scale_one: "vec_scale v 1 = v"
  by (cases v) simp

lemma det3_mat_scale: "det3 (mat_scale R c) = c ^ 3 * det3 R"
  by (cases R) (auto simp: power3_eq_cube algebra_simps)

lemma mat_I_mat_scale:
  assumes "mat_I R = Inr Ri" "c \<noteq> 0"
  shows "mat_I (mat_scale R c) = Inr (mat_scale Ri (1 / c))"
proof -
  obtain a00 a01 a02 a10 a11 a12 a20 a21 a22 where
    R: "R = ((a00, a01, a02), (a10, a11, a12), (a20, a21, a22))"
    by (metis prod_cases3)
  define d where "d = det3 R"
  have d0: "d \<noteq> 0" using assms(1) unfolding d_def R by (auto simp: Let_def split: if_splits)
  have Ri: "Ri = (((a11 * a22 - a12 * a21) / d, (a02 * a21 - a01 * a22) / d, (a01 * a12 - a02 * a11) / d),
                   ((a12 * a20 - a10 * a22) / d, (a00 * a22 - a02 * a20) / d, (a02 * a10 - a00 * a12) / d),
                   ((a10 * a21 - a11 * a20) / d, (a01 * a20 - a00 * a21) / d, (a00 * a11 - a01 * a10) / d))"
    using assms(1) d0 unfolding d_def R by (simp add: Let_def)
  have ds: "det3 ((a00 * c, a01 * c, a02 * c), (a10 * c, a11 * c, a12 * c), (a20 * c, a21 * c, a22 * c))
              = c ^ 3 * d"
    using det3_mat_scale [of R c] unfolding d_def R by simp
  have e: "(x * c * (y * c) - z * c * (w * c)) / (c ^ 3 * d) = (x * y - z * w) / d * (1 / c)" for x y z w
    using assms(2) d0 by (simp add: power3_eq_cube field_simps)
  show ?thesis
    unfolding R Ri mat_scale.simps vec_scale.simps mat_I.simps ds Let_def
    using assms(2) d0 by (simp add: e del: det3.simps)
qed

lemma youAnglesToHkl_you_externals:
  assumes "mat_I R = Inr Ri"
  shows "youAnglesToHkl you_externals (YouPosition m d n e c p) 1 (mat_scale R (2 * pi)) =
     Inr (mat_vec Ri (mat_vec (z_rot p) (mat_vec (y_rot (- c)) (mat_vec (z_rot e)
       (mat_vec (x_rot (- m))
          (mat_vec (mat_sub (mat_mul (x_rot n) (z_rot (- d))) I3) (0, 1, 0)))))))"
proof -
  have q: "(0, 2 * pi, 0) = vec_scale (0, 1, 0) (2 * pi)" by simp
  have i: "mat_I (mat_scale R (2 * pi)) = Inr (mat_scale Ri (1 / (2 * pi)))"
    using mat_I_mat_scale [OF assms, of "2 * pi"] by simp
  have c: "2 * pi * (1 / (2 * pi)) = 1" by simp
  show ?thesis
    unfolding youAnglesToHkl_def
    by (simp add: you_externals_def YouPosition_def div_py_def ebind_Inr i mat_I_z_rot mat_I_x_rot
        mat_I_y_rot mat_vec_mat_mul q mat_vec_vec_scale mat_scale_mat_vec vec_scale_vec_scale c
        vec_scale_one
        del: mat_vec.simps mat_mul.simps mat_sub.simps mat_I.simps mat_scale.simps vec_scale.simps)
qed

lemma sqrt3_tight: "1.732050807 < sqrt 3" "sqrt 3 < 1.732050808"
proof -
  show "1.732050807 < sqrt 3" by (rule real_less_rsqrt) (simp add: power2_eq_square)
  show "sqrt 3 < 1.732050808" by (rule real_less_lsqrt) (simp_all add: power2_eq_square)
qed

lemma mult_enclose_conj:
  fixes a b :: real
  assumes "al \<le> a \<and> a \<le> ah" "bl \<le> b \<and> b \<le> bh" "0 \<le> al"
    and "l \<le> al * bl" "l \<le> ah * bl" "al * bh \<le> u" "ah * bh \<le> u"
  shows "l \<le> a * b \<and> a * b \<le> u"
  using mult_enclose [of al a ah bl b bh l u] assms by blast

lemma mult_enclose_conj':
  fixes a b :: real
  assumes "al \<le> a \<and> a \<le> ah" "bl \<le> b \<and> b \<le> bh" "0 \<le> al"
    and "l \<le> al * bl" "l \<le> ah * bl" "al * bh \<le> u" "ah * bh \<le> u"
  shows "l \<le> b * a \<and> b * a \<le> u"
  using mult_enclose_conj [OF assms] by (simp add: mult.commute)

lemma sin_add_60: "sin (pi / 3 + y) = cos y * (sqrt 3 / 2) + sin y / 2"
  by (simp add: sin_add sin_60 cos_60)

lemma cos_add_60: "cos (pi / 3 + y) = cos y / 2 - sin y * (sqrt 3 / 2)"
  by (simp add: cos_add sin_60 cos_60)

lemma sin_add_30: "sin (pi / 6 + y) = cos y / 2 + sin y * (sqrt 3 / 2)"
  by (simp add: sin_add sin_30 cos_30)

lemma cos_add_30: "cos (pi / 6 + y) = cos y * (sqrt 3 / 2) - sin y / 2"
  by (simp add: cos_add sin_30 cos_30)

lemma sample_chain_components:
  "mat_vec (y_rot (- c)) (mat_vec (z_rot e) (mat_vec (x_rot (- m))
          (mat_vec (mat_sub (mat_mul (x_rot n) (z_rot (- d))) I3) (0, 1, 0)))) =
   (let v0x = sin d; v0y = cos n * cos d - 1; v0z = sin n * cos d;
        v1y = cos m * v0y + sin m * v0z; v1z = cos m * v0z - sin m * v0y;
        v2x = cos e * v0x - sin e * v1y; v2y = sin e * v0x + cos e * v1y;
        v3x = cos c * v2x - sin c * v1z; v3z = sin c * v2x + cos c * v1z
    in (v3x, v2y, v3z))"
  by (simp add: x_rot_def y_rot_def z_rot_def I3_def Let_def algebra_simps)

lemma frame_rotation:
  "mat_vec (z_rot p) (x, y, z) = (cos p * x - sin p * y, sin p * x + cos p * y, z)"
  by (simp add: z_rot_def)

lemma sin_deg_0_45: "0.007853900654 \<le> sin (0.45 * TORAD) \<and> sin (0.45 * TORAD) \<le> 0.007853901105"
  using TORAD_bounds
  by (intro sin_enclosure [where xl = "0.45 * 0.017453292" and xh = "0.45 * 0.017453293"])
     (simp_all add: power_divide)

lemma sin_deg_0_95: "0.016579867693 \<le> sin (0.95 * TORAD) \<and> sin (0.95 * TORAD) \<le> 0.016579868644"
  using TORAD_bounds
  by (intro sin_enclosure [where xl = "0.95 * 0.017453292" and xh = "0.95 * 0.017453293"])
     (simp_all add: power_divide)

lemma sin_deg_1_45: "0.025304572111 \<le> sin (1.45 * TORAD) \<and> sin (1.45 * TORAD) \<le> 0.025304573562"
  using TORAD_bounds
  by (intro sin_enclosure [where xl = "1.45 * 0.017453292" and xh = "1.45 * 0.017453293"])
     (simp_all add: power_divide)

lemma sin_deg_0_9: "0.015707316843 \<le> sin (0.9 * TORAD) \<and> sin (0.9 * TORAD) \<le> 0.015707317744"
  using TORAD_bounds
  by (intro sin_enclosure [where xl = "0.9 * 0.017453292" and xh = "0.9 * 0.017453293"])
     (simp_all add: power_divide)

lemma sin_deg_1_9: "0.033155177401 \<le> sin (1.9 * TORAD) \<and> sin (1.9 * TORAD) \<le> 0.033155179301"
  using TORAD_bounds
  by (intro sin_enclosure [where xl = "1.9 * 0.017453292" and xh = "1.9 * 0.017453293"])
     (simp_all add: power_divide)

lemma sin_deg_2_9: "0.05059293857 \<le> sin (2.9 * TORAD) \<and> sin (2.9 * TORAD) \<le> 0.050592941468"
  using TORAD_bounds
  by (intro sin_enclosure [where xl = "2.9 * 0.017453292" and xh = "2.9 * 0.017453293"])
     (simp_all add: power_divide)

lemma cos_deg_0_9: "0.999876632474 \<le> cos (0.9 * TORAD) \<and> cos (0.9 * TORAD) \<le> 0.99987663249"
proof -
  have h: "0.9 * TORAD / 2 = 0.45 * TORAD" by simp
  have s: "0.007853900654 \<le> sin (0.9 * TORAD / 2)" "sin (0.9 * TORAD / 2) \<le> 0.007853901105"
    unfolding h using sin_deg_0_45 by simp_all
  show ?thesis
    by (rule cos_enclosure [OF _ s]) simp_all
qed

lemma cos_deg_1_9: "0.999450215911 \<le> cos (1.9 * TORAD) \<and> cos (1.9 * TORAD) \<le> 0.999450215975"
proof -
  have h: "1.9 * TORAD / 2 = 0.95 * TORAD" by simp
  have s: "0.016579867693 \<le> sin (1.9 * TORAD / 2)" "sin (1.9 * TORAD / 2) \<le> 0.016579868644"
    unfolding h using sin_deg_0_95 by simp_all
  show ?thesis
    by (rule cos_enclosure [OF _ s]) simp_all
qed

lemma cos_deg_2_9: "0.998719357113 \<le> cos (2.9 * TORAD) \<and> cos (2.9 * TORAD) \<le> 0.998719357261"
proof -
  have h: "2.9 * TORAD / 2 = 1.45 * TORAD" by simp
  have s: "0.025304572111 \<le> sin (2.9 * TORAD / 2)" "sin (2.9 * TORAD / 2) \<le> 0.025304573562"
    unfolding h using sin_deg_1_45 by simp_all
  show ?thesis
    by (rule cos_enclosure [OF _ s]) simp_all
qed

lemma sin_deg_60_9: "0.873772222509 \<le> sin (60.9 * TORAD) \<and> sin (60.9 * TORAD) \<le> 0.873772223475"
proof -
  have e: "60.9 * TORAD = pi / 3 + 0.9 * TORAD" by (simp add: TORAD_def)
  have s3: "0.8660254035 \<le> sqrt 3 / 2 \<and> sqrt 3 / 2 \<le> 0.866025404" using sqrt3_tight by simp
  have t: "0.865918564088 \<le> cos (0.9 * TORAD) * (sqrt 3 / 2) \<and> cos (0.9 * TORAD) * (sqrt 3 / 2) \<le> 0.865918564603"
    by (rule mult_enclose_conj [OF cos_deg_0_9 s3]) simp_all
  have g: "0.865918564088 \<le> t \<and> t \<le> 0.865918564603 \<Longrightarrow> 0.015707316843 \<le> w \<and> w \<le> 0.015707317744
      \<Longrightarrow> 0.873772222509 \<le> t + w / 2 \<and> t + w / 2 \<le> 0.873772223475" for t w :: real
    by simp
  show ?thesis
    unfolding e sin_add_60 by (rule g [OF t sin_deg_0_9])
qed

lemma cos_deg_60_9: "0.486335380041 \<le> cos (60.9 * TORAD) \<and> cos (60.9 * TORAD) \<le> 0.486335380839"
proof -
  have e: "60.9 * TORAD = pi / 3 + 0.9 * TORAD" by (simp add: TORAD_def)
  have s3: "0.8660254035 \<le> sqrt 3 / 2 \<and> sqrt 3 / 2 \<le> 0.866025404" using sqrt3_tight by simp
  have t: "0.013602935406 \<le> sin (0.9 * TORAD) * (sqrt 3 / 2) \<and> sin (0.9 * TORAD) * (sqrt 3 / 2) \<le> 0.013602936196"
    by (rule mult_enclose_conj [OF sin_deg_0_9 s3]) simp_all
  have g: "0.013602935406 \<le> t \<and> t \<le> 0.013602936196 \<Longrightarrow> 0.999876632474 \<le> w \<and> w \<le> 0.99987663249
      \<Longrightarrow> 0.486335380041 \<le> w / 2 - t \<and> w / 2 - t \<le> 0.486335380839" for t w :: real
    by simp
  show ?thesis
    unfolding e cos_add_60 by (rule g [OF t cos_deg_0_9])
qed

lemma sin_deg_30_9: "0.513541251643 \<le> sin (30.9 * TORAD) \<and> sin (30.9 * TORAD) \<le> 0.513541252441"
proof -
  have e: "30.9 * TORAD = pi / 6 + 0.9 * TORAD" by (simp add: TORAD_def)
  have s3: "0.8660254035 \<le> sqrt 3 / 2 \<and> sqrt 3 / 2 \<le> 0.866025404" using sqrt3_tight by simp
  have t: "0.013602935406 \<le> sin (0.9 * TORAD) * (sqrt 3 / 2) \<and> sin (0.9 * TORAD) * (sqrt 3 / 2) \<le> 0.013602936196"
    by (rule mult_enclose_conj [OF sin_deg_0_9 s3]) simp_all
  have g: "0.013602935406 \<le> t \<and> t \<le> 0.013602936196 \<Longrightarrow> 0.999876632474 \<le> w \<and> w \<le> 0.99987663249
      \<Longrightarrow> 0.513541251643 \<le> w / 2 + t \<and> w / 2 + t \<le> 0.513541252441" for t w :: real
    by simp
  show ?thesis
    unfolding e sin_add_30 by (rule g [OF t cos_deg_0_9])
qed

lemma cos_deg_30_9: "0.858064905216 \<le> cos (30.9 * TORAD) \<and> cos (30.9 * TORAD) \<le> 0.858064906182"
proof -
  have e: "30.9 * TORAD = pi / 6 + 0.9 * TORAD" by (simp add: TORAD_def)
  have s3: "0.8660254035 \<le> sqrt 3 / 2 \<and> sqrt 3 / 2 \<le> 0.866025404" using sqrt3_tight by simp
  have t: "0.865918564088 \<le> cos (0.9 * TORAD) * (sqrt 3 / 2) \<and> cos (0.9 * TORAD) * (sqrt 3 / 2) \<le> 0.865918564603"
    by (rule mult_enclose_conj [OF cos_deg_0_9 s3]) simp_all
  have g: "0.865918564088 \<le> t \<and> t \<le> 0.865918564603 \<Longrightarrow> 0.015707316843 \<le> w \<and> w \<le> 0.015707317744
      \<Longrightarrow> 0.858064905216 \<le> t - w / 2 \<and> t - w / 2 \<le> 0.858064906182" for t w :: real
    by simp
  show ?thesis
    unfolding e cos_add_30 by (rule g [OF t sin_deg_0_9])
qed

lemma sample_frame_enclosure:
  "\<exists>x y z. mat_vec (y_rot (- (2.9 * TORAD))) (mat_vec (z_rot (30.9 * TORAD)) (mat_vec (x_rot (- (0.9 * TORAD))) (mat_vec (mat_sub (mat_mul (x_rot (2.9 * TORAD)) (z_rot (- (60.9 * TORAD)))) I3) (0, 1, 0)))) = (x, y, z)
     \<and> (1.010678554897 \<le> x \<and> x \<le> 1.010678557798) \<and> (0.007812141802 \<le> y \<and> y \<le> 0.007812144287) \<and> (0.083920846992 \<le> z \<and> z \<le> 0.083920851994)"
proof -
  define sm where "sm = sin (0.9 * TORAD)"
  have sm: "0.015707316843 \<le> sm \<and> sm \<le> 0.015707317744" unfolding sm_def by (rule sin_deg_0_9)
  define cm where "cm = cos (0.9 * TORAD)"
  have cm: "0.999876632474 \<le> cm \<and> cm \<le> 0.99987663249" unfolding cm_def by (rule cos_deg_0_9)
  define sd where "sd = sin (60.9 * TORAD)"
  have sd: "0.873772222509 \<le> sd \<and> sd \<le> 0.873772223475" unfolding sd_def by (rule sin_deg_60_9)
  define cd where "cd = cos (60.9 * TORAD)"
  have cd: "0.486335380041 \<le> cd \<and> cd \<le> 0.486335380839" unfolding cd_def by (rule cos_deg_60_9)
  define sn where "sn = sin (2.9 * TORAD)"
  have sn: "0.05059293857 \<le> sn \<and> sn \<le> 0.050592941468" unfolding sn_def by (rule sin_deg_2_9)
  define cn where "cn = cos (2.9 * TORAD)"
  have cn: "0.998719357113 \<le> cn \<and> cn \<le> 0.998719357261" unfolding cn_def by (rule cos_deg_2_9)
  define se where "se = sin (30.9 * TORAD)"
  have se: "0.513541251643 \<le> se \<and> se \<le> 0.513541252441" unfolding se_def by (rule sin_deg_30_9)
  define ce where "ce = cos (30.9 * TORAD)"
  have ce: "0.858064905216 \<le> ce \<and> ce \<le> 0.858064906182" unfolding ce_def by (rule cos_deg_30_9)
  define sc where "sc = sin (2.9 * TORAD)"
  have sc: "0.05059293857 \<le> sc \<and> sc \<le> 0.050592941468" unfolding sc_def by (rule sin_deg_2_9)
  define cc where "cc = cos (2.9 * TORAD)"
  have cc: "0.998719357113 \<le> cc \<and> cc \<le> 0.998719357261" unfolding cc_def by (rule cos_deg_2_9)
  define v0x where "v0x = sd"
  have v0x: "0.873772222509 \<le> v0x \<and> v0x \<le> 0.873772223475" unfolding v0x_def by (rule sd)
  have p1: "0.485712558095 \<le> cn * cd \<and> cn * cd \<le> 0.485712558965"
    by (rule mult_enclose_conj [OF cn cd]) simp_all
  define v0y where "v0y = cn * cd - 1"
  have v0y: "- 0.514287441905 \<le> v0y \<and> v0y \<le> - 0.514287441035"
    unfolding v0y_def using p1 by simp
  have p2: "0.024605136006 \<le> sn * cd \<and> sn * cd \<le> 0.024605137457"
    by (rule mult_enclose_conj [OF sn cd]) simp_all
  define v0z where "v0z = sn * cd"
  have v0z: "0.024605136006 \<le> v0z \<and> v0z \<le> 0.024605137457"
    unfolding v0z_def using p2 by simp
  have p3: "- 0.514223995544 \<le> cm * v0y \<and> cm * v0y \<le> - 0.514223994665"
    by (rule mult_enclose_conj [OF cm v0y]) simp_all
  have p4: "0.000386480667 \<le> sm * v0z \<and> sm * v0z \<le> 0.000386480713"
    by (rule mult_enclose_conj [OF sm v0z]) simp_all
  define v1y where "v1y = cm * v0y + sm * v0z"
  have v1y: "- 0.513837514877 \<le> v1y \<and> v1y \<le> - 0.513837513952"
    unfolding v1y_def using p3 p4 by simp
  have p5: "0.024602100531 \<le> cm * v0z \<and> cm * v0z \<le> 0.024602101983"
    by (rule mult_enclose_conj [OF cm v0z]) simp_all
  have p6: "- 0.008078076262 \<le> sm * v0y \<and> sm * v0y \<le> - 0.008078075784"
    by (rule mult_enclose_conj [OF sm v0y]) simp_all
  define v1z where "v1z = cm * v0z - sm * v0y"
  have v1z: "0.032680176315 \<le> v1z \<and> v1z \<le> 0.032680178245"
    unfolding v1z_def using p5 p6 by simp
  have p7: "0.749753279287 \<le> ce * v0x \<and> ce * v0x \<le> 0.749753280961"
    by (rule mult_enclose_conj [OF ce v0x]) simp_all
  have p8: "- 0.263876760942 \<le> se * v1y \<and> se * v1y \<le> - 0.263876760056"
    by (rule mult_enclose_conj [OF se v1y]) simp_all
  define v2x where "v2x = ce * v0x - se * v1y"
  have v2x: "1.013630039343 \<le> v2x \<and> v2x \<le> 1.013630041903"
    unfolding v2x_def using p7 p8 by simp
  have p9: "0.448718080798 \<le> se * v0x \<and> se * v0x \<le> 0.448718081992"
    by (rule mult_enclose_conj [OF se v0x]) simp_all
  have p10: "- 0.440905938996 \<le> ce * v1y \<and> ce * v1y \<le> - 0.440905937705"
    by (rule mult_enclose_conj [OF ce v1y]) simp_all
  define v2y where "v2y = se * v0x + ce * v1y"
  have v2y: "0.007812141802 \<le> v2y \<and> v2y \<le> 0.007812144287"
    unfolding v2y_def using p9 p10 by simp
  have p11: "1.012331941243 \<le> cc * v2x \<and> cc * v2x \<le> 1.01233194395"
    by (rule mult_enclose_conj [OF cc v2x]) simp_all
  have p12: "0.001653386152 \<le> sc * v1z \<and> sc * v1z \<le> 0.001653386346"
    by (rule mult_enclose_conj [OF sc v1z]) simp_all
  define v3x where "v3x = cc * v2x - sc * v1z"
  have v3x: "1.010678554897 \<le> v3x \<and> v3x \<le> 1.010678557798"
    unfolding v3x_def using p11 p12 by simp
  have p13: "0.051282522313 \<le> sc * v2x \<and> sc * v2x \<le> 0.051282525381"
    by (rule mult_enclose_conj [OF sc v2x]) simp_all
  have p14: "0.032638324679 \<le> cc * v1z \<and> cc * v1z \<le> 0.032638326613"
    by (rule mult_enclose_conj [OF cc v1z]) simp_all
  define v3z where "v3z = sc * v2x + cc * v1z"
  have v3z: "0.083920846992 \<le> v3z \<and> v3z \<le> 0.083920851994"
    unfolding v3z_def using p13 p14 by simp
  have eq: "mat_vec (y_rot (- (2.9 * TORAD))) (mat_vec (z_rot (30.9 * TORAD)) (mat_vec (x_rot (- (0.9 * TORAD))) (mat_vec (mat_sub (mat_mul (x_rot (2.9 * TORAD)) (z_rot (- (60.9 * TORAD)))) I3) (0, 1, 0)))) = (v3x, v2y, v3z)"
    unfolding sample_chain_components Let_def v3x_def v3z_def v2x_def v2y_def v1y_def v1z_def v0x_def v0y_def v0z_def
      sm_def cm_def sd_def cd_def sn_def cn_def se_def ce_def sc_def cc_def
    by (rule refl)
  show ?thesis unfolding eq using v3x v2y v3z by blast
qed

lemma mat_I_R1_enclosure:
  "\<exists>i00 i01 i02 i10 i11 i12 i20 i21 i22.
     mat_I R1 = Inr ((i00, i01, i02), (i10, i11, i12), (i20, i21, i22))
     \<and> (0.999695413509 \<le> i00 \<and> i00 \<le> 0.99969541351) \<and> (0.017449748351 \<le> i01 \<and> i01 \<le> 0.017449748352) \<and> (0.017452406437 \<le> i02 \<and> i02 \<le> 0.017452406438)
     \<and> (- 0.017452406438 \<le> i10 \<and> i10 \<le> - 0.017452406437) \<and> (0.999847695156 \<le> i11 \<and> i11 \<le> 0.999847695157) \<and> (- 0.000000000001 \<le> i12 \<and> i12 \<le> 0)
     \<and> (- 0.017449748352 \<le> i20 \<and> i20 \<le> - 0.017449748351) \<and> (- 0.000304586491 \<le> i21 \<and> i21 \<le> - 0.00030458649) \<and> (0.999847695156 \<le> i22 \<and> i22 \<le> 0.999847695157)"
proof -
  define d :: real where "d = 0.9999999999999998608120815144461811999636114815021472239275266724887"
  have i: "mat_I R1 =
    Inr ((0.999695413509547886651878494489312103423672060257246 / d, 0.01744974835125061424394103758540185173896961178301 / d, 0.017452406437283664285034432619608972 / d),
         ((- 0.017452406437283475527421427038358749) / d, 0.999847695156391037535891347941082685 / d, (- 0.00000000000000004724626799859125319) / d),
         ((- 0.0174497483512504810097428352009195283540046341285) / d, (- 0.000304586490452025758935208650899503397288572379) / d, 0.999847695156391136597548722542648 / d))"
    unfolding d_def by (simp add: R1_def Let_def)
  show ?thesis
    unfolding i by (intro exI conjI, rule refl) (simp_all add: d_def)
qed

lemma youAnglesToHkl_enclosure_1_9:
  "\<exists>h k l. youAnglesToHkl you_externals (posFromI16sEuler 1.9 2.9 30.9 0.9 60.9 2.9) 1 UB1 = Inr (h, k, l)
     \<and> (1.011741889231 \<le> h \<and> h \<le> 1.011741892463) \<and> (0.023686225745 \<le> k \<and> k \<le> 0.023686230305) \<and> (0.066273610067 \<le> l \<and> l \<le> 0.066273615126)"
proof -
  obtain x y z where c: "mat_vec (y_rot (- (2.9 * TORAD))) (mat_vec (z_rot (30.9 * TORAD)) (mat_vec (x_rot (- (0.9 * TORAD))) (mat_vec (mat_sub (mat_mul (x_rot (2.9 * TORAD)) (z_rot (- (60.9 * TORAD)))) I3) (0, 1, 0)))) = (x, y, z)"
    and x: "1.010678554897 \<le> x \<and> x \<le> 1.010678557798" and y: "0.007812141802 \<le> y \<and> y \<le> 0.007812144287" and z: "0.083920846992 \<le> z \<and> z \<le> 0.083920851994"
    using sample_frame_enclosure by blast
  obtain i00 i01 i02 i10 i11 i12 i20 i21 i22 where
    i: "mat_I R1 = Inr ((i00, i01, i02), (i10, i11, i12), (i20, i21, i22))"
    and i00: "0.999695413509 \<le> i00 \<and> i00 \<le> 0.99969541351"
    and i01: "0.017449748351 \<le> i01 \<and> i01 \<le> 0.017449748352"
    and i02: "0.017452406437 \<le> i02 \<and> i02 \<le> 0.017452406438"
    and i10: "- 0.017452406438 \<le> i10 \<and> i10 \<le> - 0.017452406437"
    and i11: "0.999847695156 \<le> i11 \<and> i11 \<le> 0.999847695157"
    and i12: "- 0.000000000001 \<le> i12 \<and> i12 \<le> 0"
    and i20: "- 0.017449748352 \<le> i20 \<and> i20 \<le> - 0.017449748351"
    and i21: "- 0.000304586491 \<le> i21 \<and> i21 \<le> - 0.00030458649"
    and i22: "0.999847695156 \<le> i22 \<and> i22 \<le> 0.999847695157"
    using mat_I_R1_enclosure by blast
  define sp where "sp = sin (1.9 * TORAD)"
  have sp: "0.033155177401 \<le> sp \<and> sp \<le> 0.033155179301" unfolding sp_def by (rule sin_deg_1_9)
  define cp where "cp = cos (1.9 * TORAD)"
  have cp: "0.999450215911 \<le> cp \<and> cp \<le> 0.999450215975" unfolding cp_def by (rule cos_deg_1_9)
  have p1: "1.010122899908 \<le> cp * x \<and> cp * x \<le> 1.010122902873"
    by (rule mult_enclose_conj [OF cp x]) simp_all
  have p2: "0.000259012947 \<le> sp * y \<and> sp * y \<le> 0.000259013045"
    by (rule mult_enclose_conj [OF sp y]) simp_all
  define wx where "wx = cp * x - sp * y"
  have wx: "1.009863886863 \<le> wx \<and> wx \<le> 1.009863889926"
    unfolding wx_def using p1 p2 by simp
  have p3: "0.033509226782 \<le> sp * x \<and> sp * x \<le> 0.0335092288"
    by (rule mult_enclose_conj [OF sp x]) simp_all
  have p4: "0.00780784681 \<le> cp * y \<and> cp * y \<le> 0.007807849295"
    by (rule mult_enclose_conj [OF cp y]) simp_all
  define wy where "wy = sp * x + cp * y"
  have wy: "0.041317073592 \<le> wy \<and> wy \<le> 0.041317078095"
    unfolding wy_def using p3 p4 by simp
  have p5: "1.009556295965 \<le> i00 * wx \<and> i00 * wx \<le> 1.009556299029"
    by (rule mult_enclose_conj' [OF wx i00]) simp_all
  have p6: "0.000720972536 \<le> i01 * wy \<and> i01 * wy \<le> 0.000720972616"
    by (rule mult_enclose_conj' [OF wy i01]) simp_all
  have p7: "0.00146462073 \<le> i02 * z \<and> i02 * z \<le> 0.001464620818"
    by (rule mult_enclose_conj' [OF z i02]) simp_all
  define h' where "h' = i00 * wx + i01 * wy + i02 * z"
  have h': "1.011741889231 \<le> h' \<and> h' \<le> 1.011741892463"
    unfolding h'_def using p5 p6 p7 by simp
  have p8: "- 0.017624555055 \<le> i10 * wx \<and> i10 * wx \<le> - 0.017624554999"
    by (rule mult_enclose_conj' [OF wx i10]) simp_all
  have p9: "0.041310780801 \<le> i11 * wy \<and> i11 * wy \<le> 0.041310785304"
    by (rule mult_enclose_conj' [OF wy i11]) simp_all
  have p10: "- 0.000000000001 \<le> i12 * z \<and> i12 * z \<le> 0"
    by (rule mult_enclose_conj' [OF z i12]) simp_all
  define k' where "k' = i10 * wx + i11 * wy + i12 * z"
  have k': "0.023686225745 \<le> k' \<and> k' \<le> 0.023686230305"
    unfolding k'_def using p8 p9 p10 by simp
  have p11: "- 0.017621870749 \<le> i20 * wx \<and> i20 * wx \<le> - 0.017621870694"
    by (rule mult_enclose_conj' [OF wx i20]) simp_all
  have p12: "- 0.000012584624 \<le> i21 * wy \<and> i21 * wy \<le> - 0.000012584622"
    by (rule mult_enclose_conj' [OF wy i21]) simp_all
  have p13: "0.08390806544 \<le> i22 * z \<and> i22 * z \<le> 0.083908070442"
    by (rule mult_enclose_conj' [OF z i22]) simp_all
  define l' where "l' = i20 * wx + i21 * wy + i22 * z"
  have l': "0.066273610067 \<le> l' \<and> l' \<le> 0.066273615126"
    unfolding l'_def using p11 p12 p13 by simp
  have eq: "youAnglesToHkl you_externals (posFromI16sEuler 1.9 2.9 30.9 0.9 60.9 2.9) 1 UB1 = Inr (h', k', l')"
    unfolding posFromI16sEuler_def UB1_def youAnglesToHkl_you_externals [OF i] frame_rotation c
      h'_def k'_def l'_def wx_def wy_def sp_def cp_def
    by simp
  show ?thesis unfolding eq using h' k' l' by blast
qed

lemma youAnglesToHkl_enclosure_2_9:
  "\<exists>h k l. youAnglesToHkl you_externals (posFromI16sEuler 2.9 2.9 30.9 0.9 60.9 2.9) 1 UB1 = Inr (h, k, l)
     \<and> (1.011174700315 \<le> h \<and> h \<le> 1.011174703699) \<and> (0.041317073012 \<le> k \<and> k \<le> 0.041317078633) \<and> (0.066283510383 \<le> l \<and> l \<le> 0.066283515446)"
proof -
  obtain x y z where c: "mat_vec (y_rot (- (2.9 * TORAD))) (mat_vec (z_rot (30.9 * TORAD)) (mat_vec (x_rot (- (0.9 * TORAD))) (mat_vec (mat_sub (mat_mul (x_rot (2.9 * TORAD)) (z_rot (- (60.9 * TORAD)))) I3) (0, 1, 0)))) = (x, y, z)"
    and x: "1.010678554897 \<le> x \<and> x \<le> 1.010678557798" and y: "0.007812141802 \<le> y \<and> y \<le> 0.007812144287" and z: "0.083920846992 \<le> z \<and> z \<le> 0.083920851994"
    using sample_frame_enclosure by blast
  obtain i00 i01 i02 i10 i11 i12 i20 i21 i22 where
    i: "mat_I R1 = Inr ((i00, i01, i02), (i10, i11, i12), (i20, i21, i22))"
    and i00: "0.999695413509 \<le> i00 \<and> i00 \<le> 0.99969541351"
    and i01: "0.017449748351 \<le> i01 \<and> i01 \<le> 0.017449748352"
    and i02: "0.017452406437 \<le> i02 \<and> i02 \<le> 0.017452406438"
    and i10: "- 0.017452406438 \<le> i10 \<and> i10 \<le> - 0.017452406437"
    and i11: "0.999847695156 \<le> i11 \<and> i11 \<le> 0.999847695157"
    and i12: "- 0.000000000001 \<le> i12 \<and> i12 \<le> 0"
    and i20: "- 0.017449748352 \<le> i20 \<and> i20 \<le> - 0.017449748351"
    and i21: "- 0.000304586491 \<le> i21 \<and> i21 \<le> - 0.00030458649"
    and i22: "0.999847695156 \<le> i22 \<and> i22 \<le> 0.999847695157"
    using mat_I_R1_enclosure by blast
  define sp where "sp = sin (2.9 * TORAD)"
  have sp: "0.05059293857 \<le> sp \<and> sp \<le> 0.050592941468" unfolding sp_def by (rule sin_deg_2_9)
  define cp where "cp = cos (2.9 * TORAD)"
  have cp: "0.998719357113 \<le> cp \<and> cp \<le> 0.998719357261" unfolding cp_def by (rule cos_deg_2_9)
  have p1: "1.009384236594 \<le> cp * x \<and> cp * x \<le> 1.009384239642"
    by (rule mult_enclose_conj [OF cp x]) simp_all
  have p2: "0.00039523921 \<le> sp * y \<and> sp * y \<le> 0.000395239359"
    by (rule mult_enclose_conj [OF sp y]) simp_all
  define wx where "wx = cp * x - sp * y"
  have wx: "1.008988997235 \<le> wx \<and> wx \<le> 1.008989000432"
    unfolding wx_def using p1 p2 by simp
  have p3: "0.051133198041 \<le> sp * x \<and> sp * x \<le> 0.051133201118"
    by (rule mult_enclose_conj [OF sp x]) simp_all
  have p4: "0.007802137238 \<le> cp * y \<and> cp * y \<le> 0.007802139722"
    by (rule mult_enclose_conj [OF cp y]) simp_all
  define wy where "wy = sp * x + cp * y"
  have wy: "0.058935335279 \<le> wy \<and> wy \<le> 0.05893534084"
    unfolding wy_def using p3 p4 by simp
  have p5: "1.008681672816 \<le> i00 * wx \<and> i00 * wx \<le> 1.008681676014"
    by (rule mult_enclose_conj' [OF wx i00]) simp_all
  have p6: "0.001028406769 \<le> i01 * wy \<and> i01 * wy \<le> 0.001028406867"
    by (rule mult_enclose_conj' [OF wy i01]) simp_all
  have p7: "0.00146462073 \<le> i02 * z \<and> i02 * z \<le> 0.001464620818"
    by (rule mult_enclose_conj' [OF z i02]) simp_all
  define h' where "h' = i00 * wx + i01 * wy + i02 * z"
  have h': "1.011174700315 \<le> h' \<and> h' \<le> 1.011174703699"
    unfolding h'_def using p5 p6 p7 by simp
  have p8: "- 0.017609286128 \<le> i10 * wx \<and> i10 * wx \<le> - 0.01760928607"
    by (rule mult_enclose_conj' [OF wx i10]) simp_all
  have p9: "0.058926359141 \<le> i11 * wy \<and> i11 * wy \<le> 0.058926364703"
    by (rule mult_enclose_conj' [OF wy i11]) simp_all
  have p10: "- 0.000000000001 \<le> i12 * z \<and> i12 * z \<le> 0"
    by (rule mult_enclose_conj' [OF z i12]) simp_all
  define k' where "k' = i10 * wx + i11 * wy + i12 * z"
  have k': "0.041317073012 \<le> k' \<and> k' \<le> 0.041317078633"
    unfolding k'_def using p8 p9 p10 by simp
  have p11: "- 0.017606604148 \<le> i20 * wx \<and> i20 * wx \<le> - 0.01760660409"
    by (rule mult_enclose_conj' [OF wx i20]) simp_all
  have p12: "- 0.000017950909 \<le> i21 * wy \<and> i21 * wy \<le> - 0.000017950906"
    by (rule mult_enclose_conj' [OF wy i21]) simp_all
  have p13: "0.08390806544 \<le> i22 * z \<and> i22 * z \<le> 0.083908070442"
    by (rule mult_enclose_conj' [OF z i22]) simp_all
  define l' where "l' = i20 * wx + i21 * wy + i22 * z"
  have l': "0.066283510383 \<le> l' \<and> l' \<le> 0.066283515446"
    unfolding l'_def using p11 p12 p13 by simp
  have eq: "youAnglesToHkl you_externals (posFromI16sEuler 2.9 2.9 30.9 0.9 60.9 2.9) 1 UB1 = Inr (h', k', l')"
    unfolding posFromI16sEuler_def UB1_def youAnglesToHkl_you_externals [OF i] frame_rotation c
      h'_def k'_def l'_def wx_def wy_def sp_def cp_def
    by simp
  show ?thesis unfolding eq using h' k' l' by blast
qed

lemma abs_diff_enclosed:
  fixes x :: real
  assumes "lo \<le> x \<and> x \<le> hi" "c - e < lo" "hi < c + e"
  shows "\<bar>x - c\<bar> < e"
  using assms by linarith

lemma abs_diff_above:
  fixes x :: real
  assumes "lo \<le> x \<and> x \<le> hi" "c + e < lo"
  shows "e < \<bar>x - c\<bar>"
  using assms by linarith

text \<open>
  Claim C8, as amended: with \<open>UB1\<close>, wavelength 1 and the rotation matrices of
  \<open>you_externals\<close>, \<open>youAnglesToHkl\<close> at the position of the test
  \<^verbatim>\<open>test_anglesToHkl_arbitrary\<close>, \<open>phi = 1.9\<close>, \<open>chi = 2.9\<close>, \<open>eta = 30.9\<close>, \<open>mu = 0.9\<close>,
  \<open>delta = 60.9\<close>, \<open>nu = 2.9\<close> degrees, returns \<open>hkl\<close> within \<open>10\<^sup>-\<^sup>7\<close> of
  \<open>(1.01174189, 0.02368622, 0.06627361)\<close>.
\<close>

theorem youAnglesToHkl_arbitrary:
  "\<exists>h k l. youAnglesToHkl you_externals (posFromI16sEuler 1.9 2.9 30.9 0.9 60.9 2.9) 1 UB1 = Inr (h, k, l)
     \<and> \<bar>h - 1.01174189\<bar> < 1 / 10 ^ 7 \<and> \<bar>k - 0.02368622\<bar> < 1 / 10 ^ 7
     \<and> \<bar>l - 0.06627361\<bar> < 1 / 10 ^ 7"
proof -
  obtain h k l :: real where
    e: "youAnglesToHkl you_externals (posFromI16sEuler 1.9 2.9 30.9 0.9 60.9 2.9) 1 UB1 = Inr (h, k, l)"
    and h: "1.011741889231 \<le> h \<and> h \<le> 1.011741892463" and k: "0.023686225745 \<le> k \<and> k \<le> 0.023686230305" and l: "0.066273610067 \<le> l \<and> l \<le> 0.066273615126"
    using youAnglesToHkl_enclosure_1_9 by blast
  have "\<bar>h - 1.01174189\<bar> < 1 / 10 ^ 7" by (rule abs_diff_enclosed [OF h]) simp_all
  moreover have "\<bar>k - 0.02368622\<bar> < 1 / 10 ^ 7" by (rule abs_diff_enclosed [OF k]) simp_all
  moreover have "\<bar>l - 0.06627361\<bar> < 1 / 10 ^ 7" by (rule abs_diff_enclosed [OF l]) simp_all
  ultimately show ?thesis unfolding e by blast
qed

text \<open>
  Claim C8 as stated fails: at \<open>phi = 2.9\<close> degrees, the other angles as above, the second
  index is further than \<open>0.01\<close> from \<open>0.02368622\<close> (it is \<open>0.04131707...\<close>).
\<close>

theorem youAnglesToHkl_arbitrary_counterexample:
  "isl (youAnglesToHkl you_externals (posFromI16sEuler 2.9 2.9 30.9 0.9 60.9 2.9) 1 UB1) = False
   \<and> 1 / 100 < \<bar>fst (snd (projr (youAnglesToHkl you_externals
                    (posFromI16sEuler 2.9 2.9 30.9 0.9 60.9 2.9) 1 UB1))) - 0.02368622\<bar>"
proof -
  obtain h k l :: real where
    e: "youAnglesToHkl you_externals (posFromI16sEuler 2.9 2.9 30.9 0.9 60.9 2.9) 1 UB1 = Inr (h, k, l)"
    and k: "0.041317073012 \<le> k \<and> k \<le> 0.041317078633"
    using youAnglesToHkl_enclosure_2_9 by blast
  have "1 / 100 < \<bar>k - 0.02368622\<bar>" by (rule abs_diff_above [OF k]) simp
  then show ?thesis unfolding e by simp
qed

subsection \<open>The sample solutions\<close>

text \<open>
  The example below has five candidate tuples for the reflection \<open>(1, 0, 0)\<close> of the cubic
  crystal: the first misses the target hkl, the second reaches it with alpha different from
  beta, and the last three reach it with alpha equal to beta.
\<close>

lemma ne_f_iff: "ne_f x y \<longleftrightarrow> (\<exists>a b. x = Float a \<and> y = Float b \<and> \<bar>a - b\<bar> < 1 / 10 ^ 8)"
  by (cases x; cases y) (simp_all add: ne_def is_small_def SMALL_def)

lemma getitem_iff: "getitem va k = Inr v \<longleftrightarrow> map_of va k = Some v"
  by (simp add: getitem_def split: option.splits)

lemma valid_sample_explicit:
  "valid_sample ext UB d n wl hkl rn rv t = reproduces_target ext UB d n wl hkl rn rv t"
proof -
  obtain h k l where hkl: "hkl = (h, k, l)" by (metis prod_cases3)
  obtain m e c p where t: "t = (m, e, c, p)" by (metis prod_cases4)
  have s: "ne x y \<longleftrightarrow> \<bar>x - y\<bar> < 1 / 10 ^ 8" for x y
    by (simp add: ne_def is_small_def SMALL_def)
  show ?thesis
  proof (cases "rn = ''a_eq_b''")
    case True
    then show ?thesis
      unfolding valid_sample_def reproduces_target_def hkl t
      by (simp add: ne_f_iff getitem_iff s) blast
  next
    case False
    then show ?thesis
      unfolding valid_sample_def reproduces_target_def hkl t
      by (simp add: ne_f_iff getitem_iff s) blast
  qed
qed

lemma absolute_distance_explicit: "absolute_distance t = sum_of_magnitudes t"
  by (cases t) (simp add: absolute_distance_def)

lemma UB_cubic_scale: "UB_cubic = mat_scale I3 (2 * pi)"
  by (simp add: UB_cubic_def I3_def)

lemma youAnglesToHkl_cubic:
  "youAnglesToHkl you_externals (YouPosition 0 (pi / 3) 0 e c p) 1 UB_cubic =
     Inr (cos p * (cos c * (cos e * (sqrt 3 / 2) + sin e / 2)) - sin p * (sin e * (sqrt 3 / 2) - cos e / 2),
          sin p * (cos c * (cos e * (sqrt 3 / 2) + sin e / 2)) + cos p * (sin e * (sqrt 3 / 2) - cos e / 2),
          sin c * (cos e * (sqrt 3 / 2) + sin e / 2))"
  unfolding UB_cubic_scale youAnglesToHkl_you_externals [OF mat_I_I3] sample_chain_components
  by (simp add: frame_rotation Let_def I3_def trig_vals)

lemma hkl_examples:
  "youAnglesToHkl you_externals (YouPosition 0 (pi / 3) 0 (- (pi / 3)) (pi / 2) (pi / 2)) 1 UB_cubic = Inr (1, 0, 0)"
  "youAnglesToHkl you_externals (YouPosition 0 (pi / 3) 0 (- (pi / 6)) 0 (pi / 3)) 1 UB_cubic = Inr (1, 0, 0)"
  "youAnglesToHkl you_externals (YouPosition 0 (pi / 3) 0 0 0 (pi / 6)) 1 UB_cubic = Inr (1, 0, 0)"
  unfolding youAnglesToHkl_cubic by (simp_all add: trig_vals field_simps)

lemma anglesToVirtualAngles_chi_0:
  "anglesToVirtualAngles you_externals (YouPosition 0 (pi / 3) 0 e 0 p) 1 =
     Inr [(''theta'', Float (pi / 6)), (''qaz'', Float (pi / 2)), (''alpha'', Float 0),
          (''naz'', Float 0), (''tau'', Float (pi / 2)), (''psi'', Float (pi / 2)),
          (''beta'', Float 0)]"
proof -
  let ?pos = "YouPosition 0 (pi / 3) 0 e 0 p"
  have m: "createYouMatrices you_externals (mu ?pos) (delta ?pos) (nu ?pos) (eta ?pos) (chi ?pos) (phi ?pos)
      = (I3, z_rot (- (pi / 3)), I3, z_rot (- e), I3, z_rot (- p))"
    by (simp add: you_externals_def x_rot_0 y_rot_0 YouPosition_def)
  have n: "mat_vec (mat_mul (mat_mul (mat_mul I3 (z_rot (- e))) I3) (z_rot (- p))) n_phi = (0, 0, 1)"
    by (simp add: z_rot_def n_phi_def I3_def)
  have th: "pi / 6 = arccos (bound (cos (delta ?pos) * cos (nu ?pos))) / 2"
    by (simp add: YouPosition_def cos_60 bound_def arccos_half)
  have qaz: "pi / 2 = atan2 (tan (delta ?pos)) (sin (nu ?pos))"
    by (simp add: YouPosition_def tan_60 atan2_example)
  have al: "0 = arcsin (bound (- 0))" by (simp add: bound_def)
  have naz: "0 = atan2 0 1" by (simp add: atan2_example)
  have tau: "pi / 2 = arccos (bound (cos 0 * cos (pi / 6) * cos (0 - pi / 2) + sin 0 * sin (pi / 6)))"
    by (simp add: bound_def)
  have be: "0 = arcsin (bound (2 * sin (pi / 6) * cos (pi / 2) - sin 0))"
    by (simp add: bound_def)
  have psi: "(if sin (pi / 2) = 0 \<or> cos (pi / 6) = 0 then NaN
     else Float (arccos (bound ((cos (pi / 2) * sin (pi / 6) - sin 0) / (sin (pi / 2) * cos (pi / 6))))))
     = Float (pi / 2)"
    by (simp add: cos_30 bound_def)
  show ?thesis
    using anglesToVirtualAngles_eq [OF m n th qaz al naz tau be, of 1] unfolding psi .
qed

lemma sqrt3_half_le_1: "sqrt 3 / 2 \<le> 1" "- 1 \<le> sqrt 3 / 2"
proof -
  have "sqrt 3 \<le> sqrt 4" by (rule real_sqrt_le_mono) simp
  then show "sqrt 3 / 2 \<le> 1" by simp
  show "- 1 \<le> sqrt 3 / 2" by (rule order_trans [of _ 0]) simp_all
qed

lemma arcsin_sqrt3_half: "arcsin (sqrt 3 / 2) = pi / 3" "arcsin (- (sqrt 3 / 2)) = - (pi / 3)"
proof -
  show a: "arcsin (sqrt 3 / 2) = pi / 3"
    using arcsin_sin [of "pi / 3"] pi_ge_two by (simp add: sin_60)
  show "arcsin (- (sqrt 3 / 2)) = - (pi / 3)"
    using arcsin_minus [OF sqrt3_half_le_1(2,1)] unfolding a .
qed

lemma anglesToVirtualAngles_chi_90:
  "anglesToVirtualAngles you_externals (YouPosition 0 (pi / 3) 0 (- (pi / 3)) (pi / 2) (pi / 2)) 1 =
     Inr [(''theta'', Float (pi / 6)), (''qaz'', Float (pi / 2)), (''alpha'', Float (- (pi / 3))),
          (''naz'', Float (pi / 2)), (''tau'', Float (pi / 2)), (''psi'', Float 0),
          (''beta'', Float (pi / 3))]"
proof -
  let ?pos = "YouPosition 0 (pi / 3) 0 (- (pi / 3)) (pi / 2) (pi / 2)"
  have m: "createYouMatrices you_externals (mu ?pos) (delta ?pos) (nu ?pos) (eta ?pos) (chi ?pos) (phi ?pos)
      = (I3, z_rot (- (pi / 3)), I3, z_rot (pi / 3), y_rot (pi / 2), z_rot (- (pi / 2)))"
    by (simp add: you_externals_def x_rot_0 YouPosition_def)
  have n: "mat_vec (mat_mul (mat_mul (mat_mul I3 (z_rot (pi / 3))) (y_rot (pi / 2))) (z_rot (- (pi / 2)))) n_phi
             = (1 / 2, sqrt 3 / 2, 0)"
    by (simp add: z_rot_def y_rot_def n_phi_def I3_def trig_vals)
  have th: "pi / 6 = arccos (bound (cos (delta ?pos) * cos (nu ?pos))) / 2"
    by (simp add: YouPosition_def cos_60 bound_def arccos_half)
  have qaz: "pi / 2 = atan2 (tan (delta ?pos)) (sin (nu ?pos))"
    by (simp add: YouPosition_def tan_60 atan2_example)
  have b: "bound (- (sqrt 3 / 2)) = - (sqrt 3 / 2)" "bound (sqrt 3 / 2) = sqrt 3 / 2"
    using sqrt3_half_le_1 by (simp_all add: bound_id)
  have al: "- (pi / 3) = arcsin (bound (- (sqrt 3 / 2)))"
    unfolding b arcsin_sqrt3_half ..
  have naz: "pi / 2 = atan2 (1 / 2) 0" by (simp add: atan2_def)
  have ct: "cos (- (pi / 3)) * cos (pi / 6) * cos (pi / 2 - pi / 2) + sin (- (pi / 3)) * sin (pi / 6) = 0"
    by (simp add: trig_vals)
  have tau: "pi / 2 = arccos (bound (cos (- (pi / 3)) * cos (pi / 6) * cos (pi / 2 - pi / 2)
                 + sin (- (pi / 3)) * sin (pi / 6)))"
    unfolding ct by (simp add: bound_def)
  have sb: "2 * sin (pi / 6) * cos (pi / 2) - sin (- (pi / 3)) = sqrt 3 / 2"
    by (simp add: trig_vals)
  have be: "pi / 3 = arcsin (bound (2 * sin (pi / 6) * cos (pi / 2) - sin (- (pi / 3))))"
    unfolding sb b arcsin_sqrt3_half ..
  have cp: "(cos (pi / 2) * sin (pi / 6) - sin (- (pi / 3))) / (sin (pi / 2) * cos (pi / 6)) = 1"
    by (simp add: trig_vals)
  have psi: "(if sin (pi / 2) = 0 \<or> cos (pi / 6) = 0 then NaN
     else Float (arccos (bound ((cos (pi / 2) * sin (pi / 6) - sin (- (pi / 3))) / (sin (pi / 2) * cos (pi / 6))))))
     = Float 0"
    unfolding cp by (simp add: cos_30 bound_def)
  show ?thesis
    using anglesToVirtualAngles_eq [OF m n th qaz al naz tau be, of 1] unfolding psi .
qed

lemma filter_five:
  "filter_valid_sample_solutions you_externals UB_cubic (pi / 3) 0
       [(0, 0, 0, 0), (0, - (pi / 3), pi / 2, pi / 2), (0, - (pi / 6), 0, pi / 3), (0, pi / 6, 0, 0),
        (0, 0, 0, pi / 6)] 1 (1, 0, 0) ''a_eq_b'' 1
     = Inr [(0, - (pi / 6), 0, pi / 3), (0, pi / 6, 0, 0), (0, 0, 0, pi / 6)]"
proof -
  have a: "\<not> ne 0 (- (1 / 2))" "ne 1 1" "ne 0 0" by (simp_all add: ne_def is_small_def SMALL_def)
  have b: "\<not> ne (- (pi / 3)) (pi / 3)"
    using pi_ge_two by (simp add: ne_def is_small_def SMALL_def)
  show ?thesis
    by (simp add: hkl_examples youAnglesToHkl_example youAnglesToHkl_rejected_example
        anglesToVirtualAngles_chi_0 anglesToVirtualAngles_chi_90 ebind_Inr getitem_def a b Let_def)
qed

text \<open>
  Claim C4. \<^verbatim>\<open>_filter_valid_sample_solutions\<close> keeps, in their order, exactly the candidate
  tuples whose position maps back through \<open>youAnglesToHkl\<close> to the target hkl, each index
  within \<open>10\<^sup>-\<^sup>8\<close>, and whose virtual angles reproduce the reference constraint within
  \<open>10\<^sup>-\<^sup>8\<close>: alpha and beta equal for a_eq_b, the constrained virtual angle equal to its
  value otherwise. \<^verbatim>\<open>_choose_sample_angles\<close> raises \<^verbatim>\<open>NoSolutionException\<close> on no survivor
  and otherwise returns the survivor whose sum \<open>|mu| + |eta| + |chi| + |phi|\<close> is smallest,
  the first of them in the order of enumeration when several are.
\<close>

theorem sample_solutions_filtered_and_chosen:
  "(filter_valid_sample_solutions ext UB d n ts wl hkl rn rv = Inr survivors
      \<longrightarrow> survivors = filter (reproduces_target ext UB d n wl hkl rn rv) ts)
   \<and> choose_sample_angles [] = Inl (NoSolutionException ''No sample solutions were found'')
   \<and> (survivors \<noteq> [] \<longrightarrow>
        (\<exists>i<length survivors. choose_sample_angles survivors = Inr (survivors ! i)
           \<and> (\<forall>j<length survivors. sum_of_magnitudes (survivors ! i) \<le> sum_of_magnitudes (survivors ! j))
           \<and> (\<forall>j<i. sum_of_magnitudes (survivors ! i) < sum_of_magnitudes (survivors ! j))))"
proof (intro conjI impI)
  show "choose_sample_angles [] = Inl (NoSolutionException ''No sample solutions were found'')"
    by (simp add: choose_sample_angles_def)
next
  assume "filter_valid_sample_solutions ext UB d n ts wl hkl rn rv = Inr survivors"
  then have "survivors = filter (valid_sample ext UB d n wl hkl rn rv) ts"
    by (rule filter_valid_sample_solutions_eq)
  moreover have "valid_sample ext UB d n wl hkl rn rv = reproduces_target ext UB d n wl hkl rn rv"
    by (rule ext) (rule valid_sample_explicit)
  ultimately show "survivors = filter (reproduces_target ext UB d n wl hkl rn rv) ts"
    by simp
next
  assume "survivors \<noteq> []"
  then show "\<exists>i<length survivors. choose_sample_angles survivors = Inr (survivors ! i)
           \<and> (\<forall>j<length survivors. sum_of_magnitudes (survivors ! i) \<le> sum_of_magnitudes (survivors ! j))
           \<and> (\<forall>j<i. sum_of_magnitudes (survivors ! i) < sum_of_magnitudes (survivors ! j))"
    using choose_sample_angles_min [of survivors] unfolding absolute_distance_explicit by blast
qed

theorem sample_solutions_filtered_and_chosen_witness:
  "filter_valid_sample_solutions you_externals UB_cubic (pi / 3) 0
       [(0, 0, 0, 0), (0, - (pi / 3), pi / 2, pi / 2), (0, - (pi / 6), 0, pi / 3), (0, pi / 6, 0, 0),
        (0, 0, 0, pi / 6)] 1 (1, 0, 0) ''a_eq_b'' 1
     = Inr [(0, - (pi / 6), 0, pi / 3), (0, pi / 6, 0, 0), (0, 0, 0, pi / 6)]
   \<and> [(0, - (pi / 6), 0, pi / 3), (0, pi / 6, 0, 0), (0, 0, 0, pi / 6)]
       = filter (reproduces_target you_externals UB_cubic (pi / 3) 0 1 (1, 0, 0) ''a_eq_b'' 1)
           [(0, 0, 0, 0), (0, - (pi / 3), pi / 2, pi / 2), (0, - (pi / 6), 0, pi / 3), (0, pi / 6, 0, 0),
            (0, 0, 0, pi / 6)]
   \<and> choose_sample_angles [(0, - (pi / 6), 0, pi / 3), (0, pi / 6, 0, 0), (0, 0, 0, pi / 6)]
       = Inr (0, pi / 6, 0, 0)
   \<and> sum_of_magnitudes (0, - (pi / 6), 0, pi / 3) = pi / 2
   \<and> sum_of_magnitudes (0, pi / 6, 0, 0) = pi / 6
   \<and> sum_of_magnitudes (0, 0, 0, pi / 6) = pi / 6"
proof -
  let ?ts = "[(0, 0, 0, 0), (0, - (pi / 3), pi / 2, pi / 2), (0, - (pi / 6), 0, pi / 3),
              (0, pi / 6, 0, 0), (0, 0, 0, pi / 6)] :: (real \<times> real \<times> real \<times> real) list"
  let ?sv = "[(0, - (pi / 6), 0, pi / 3), (0, pi / 6, 0, 0), (0, 0, 0, pi / 6)]
               :: (real \<times> real \<times> real \<times> real) list"
  note t = sample_solutions_filtered_and_chosen [of you_externals UB_cubic "pi / 3" 0 ?ts 1
      "(1, 0, 0)" "''a_eq_b''" 1 ?sv]
  have s: "sum_of_magnitudes (0, - (pi / 6), 0, pi / 3) = pi / 2"
    "sum_of_magnitudes (0, pi / 6, 0, 0) = pi / 6" "sum_of_magnitudes (0, 0, 0, pi / 6) = pi / 6"
    by simp_all
  have 1: "?sv = filter (reproduces_target you_externals UB_cubic (pi / 3) 0 1 (1, 0, 0) ''a_eq_b'' 1) ?ts"
    using t filter_five by blast
  from t obtain i where i: "i < length ?sv" "choose_sample_angles ?sv = Inr (?sv ! i)"
    and le: "\<forall>j<length ?sv. sum_of_magnitudes (?sv ! i) \<le> sum_of_magnitudes (?sv ! j)"
    and lt: "\<forall>j<i. sum_of_magnitudes (?sv ! i) < sum_of_magnitudes (?sv ! j)"
    by blast
  have "i = 0 \<or> i = 1 \<or> i = 2" using i(1) by auto
  moreover have "i \<noteq> 0"
  proof
    assume "i = 0"
    with le [rule_format, of 1] show False using pi_gt_zero by simp
  qed
  moreover have "i \<noteq> 2"
  proof
    assume "i = 2"
    with lt [rule_format, of 1] show False by simp
  qed
  ultimately have "i = 1" by blast
  with i(2) have 2: "choose_sample_angles ?sv = Inr (0, pi / 6, 0, 0)" by simp
  show ?thesis using filter_five 1 2 s by blast
qed

end
